theory Spec2Isabelle
  imports Complex_Main
begin

section \<open>Python values, exceptions and the floating-point platform\<close>

text \<open>
  The module \<^verbatim>\<open>lecroy.py\<close> has two functions, \<^verbatim>\<open>float2eng\<close> and
  \<^verbatim>\<open>ReadBinaryTrace\<close>. Both are embedded below, statement by statement.

  A Python \<^verbatim>\<open>bytes\<close> object is a list of octets; Isabelle's \<open>char\<close> is an octet, so
  \<^verbatim>\<open>bytes\<close> is \<open>string\<close>. A Python \<^verbatim>\<open>str\<close> is represented by its UTF-8 encoding
  (again a \<open>string\<close>): the encoding is injective and commutes with concatenation, and the
  module only concatenates and compares strings.
\<close>

type_synonym bytes = string

text \<open>
  Every exception the module can raise is a value. The constructor is the Python
  exception class, the argument its message (shortened where Python's message carries
  numbers).
\<close>

datatype error =
    RuntimeError string
  | IndexError string
  | NameError string
  | ValueError string
  | UnicodeDecodeError
  | OverflowError
  | ZeroDivisionError

text \<open>The names the specification gives to the failures of the decoder.\<close>

definition HeaderNotFound :: error where
  "HeaderNotFound = RuntimeError ''File is not in a recognizable format''"

definition UnsupportedTemplateVersion :: error where
  "UnsupportedTemplateVersion = RuntimeError ''Template version different from LECROY_2_3''"

definition HeaderLengthMismatch :: error where
  "HeaderLengthMismatch = RuntimeError ''Wave descriptor is too long!''"

definition UnevenSegmentSplit :: error where
  "UnevenSegmentSplit =
     RuntimeError ''Number of data points is not a multiple of number of segments''"

definition EnumOutOfRange :: error where
  "EnumOutOfRange = IndexError ''tuple index out of range''"

definition TruncatedInput :: error where
  "TruncatedInput = IndexError ''index out of bounds''"

text \<open>
  A Python number handed to \<^verbatim>\<open>float2eng\<close> is an \<^verbatim>\<open>int\<close> (unbounded) or a \<^verbatim>\<open>float\<close>.
  The type \<open>'f\<close> of floating-point values and the operations on it that the module
  uses (IEEE arithmetic, the C library's \<^verbatim>\<open>log\<close> and \<^verbatim>\<open>pow\<close>, \<^verbatim>\<open>printf\<close>'s \<^verbatim>\<open>%g\<close>)
  are a parameter of the embedding: every theorem below that names \<open>fp\<close> holds for
  every such platform.
\<close>

datatype 'f pynum = PyInt int | PyFloat 'f

record 'f fpu =
  f4 :: "nat \<Rightarrow> 'f"                 \<comment> \<open>the float32 with this 32-bit pattern\<close>
  f8 :: "nat \<Rightarrow> 'f"                 \<comment> \<open>the float64 with this 64-bit pattern\<close>
  of_int_f :: "int \<Rightarrow> 'f"           \<comment> \<open>conversion of an integer to a float\<close>
  fadd :: "'f \<Rightarrow> 'f \<Rightarrow> 'f"
  fsub :: "'f \<Rightarrow> 'f \<Rightarrow> 'f"
  fmul :: "'f \<Rightarrow> 'f \<Rightarrow> 'f"
  fpow :: "'f \<Rightarrow> 'f \<Rightarrow> 'f"            \<comment> \<open>\<^verbatim>\<open>x ** y\<close> on floats, used for \<^verbatim>\<open>10 ** e\<close> with \<^verbatim>\<open>e < 0\<close>\<close>
  fnonzero :: "'f \<Rightarrow> bool"           \<comment> \<open>\<^verbatim>\<open>x != 0\<close>\<close>
  floor_log10 :: "'f pynum \<Rightarrow> error + int"
    \<comment> \<open>\<^verbatim>\<open>math.floor(math.log(abs(f),10))\<close>; raises on an infinity or a NaN\<close>
  truediv :: "'f pynum \<Rightarrow> 'f pynum \<Rightarrow> error + 'f"
    \<comment> \<open>\<^verbatim>\<open>a / b\<close>; \<^verbatim>\<open>int / int\<close> raises OverflowError when the quotient is no float\<close>
  fmt_g :: "'f \<Rightarrow> string"              \<comment> \<open>\<^verbatim>\<open>"%g" % x\<close>\<close>

section \<open>Python built-ins used by the module\<close>

text \<open>
  Indexing a tuple or a string with an integer: a negative index counts from the end,
  anything outside \<open>-len .. len-1\<close> raises IndexError. The first argument is the
  container's kind, for the message.
\<close>

definition py_getitem :: "string \<Rightarrow> 'a list \<Rightarrow> int \<Rightarrow> error + 'a" where
  "py_getitem kind xs i =
     (if 0 \<le> i \<and> i < int (length xs) then Inr (xs ! nat i)
      else if - int (length xs) \<le> i \<and> i < 0 then Inr (xs ! nat (int (length xs) + i))
      else Inl (IndexError (kind @ '' index out of range'')))"

text \<open>\<^verbatim>\<open>s[a:b]\<close> for \<open>0 \<le> a\<close>, \<open>0 \<le> b\<close>: empty when \<open>b \<le> a\<close>.\<close>

definition py_slice :: "'a list \<Rightarrow> nat \<Rightarrow> nat \<Rightarrow> 'a list" where
  "py_slice s a b = take (b - a) (drop a s)"

text \<open>
  \<^verbatim>\<open>s.find(pat)\<close>: the lowest index at which \<open>pat\<close> occurs; Python's \<open>-1\<close> (no
  occurrence) is \<open>None\<close>.
\<close>

fun find_from :: "nat \<Rightarrow> 'a list \<Rightarrow> 'a list \<Rightarrow> nat option" where
  "find_from i pat [] = (if pat = [] then Some i else None)"
| "find_from i pat (x # xs) =
     (if take (length pat) (x # xs) = pat then Some i else find_from (Suc i) pat xs)"

definition py_find :: "'a list \<Rightarrow> 'a list \<Rightarrow> nat option" where
  "py_find s pat = find_from 0 pat s"

text \<open>\<^verbatim>\<open>s.rstrip(chars)\<close>: drops every trailing byte that occurs in \<open>chars\<close>.\<close>

definition rstrip :: "bytes \<Rightarrow> bytes \<Rightarrow> bytes" where
  "rstrip s chars = rev (dropWhile (\<lambda>c. c \<in> set chars) (rev s))"

text \<open>\<^verbatim>\<open>int.from_bytes(bs, byteorder='little')\<close>; it raises for no \<^verbatim>\<open>bytes\<close> argument.\<close>

fun from_bytes_little :: "bytes \<Rightarrow> nat" where
  "from_bytes_little [] = 0"
| "from_bytes_little (b # bs) = of_char b + 256 * from_bytes_little bs"

text \<open>
  \<^verbatim>\<open>bs.decode('utf-8')\<close>: the strict decoder accepts exactly the well-formed byte
  sequences of the Unicode standard (no overlong forms, no surrogates, nothing above
  U+10FFFF) and raises UnicodeDecodeError otherwise.
\<close>

definition cont_byte :: "nat \<Rightarrow> bool" where
  "cont_byte c \<longleftrightarrow> 128 \<le> c \<and> c \<le> 191"

fun utf8_wf :: "nat list \<Rightarrow> bool" where
  "utf8_wf [] = True"
| "utf8_wf (b # bs) =
     (if b < 128 then utf8_wf bs
      else if 194 \<le> b \<and> b \<le> 223 then
        (case bs of c1 # r \<Rightarrow> cont_byte c1 \<and> utf8_wf r | _ \<Rightarrow> False)
      else if 224 \<le> b \<and> b \<le> 239 then
        (case bs of c1 # c2 # r \<Rightarrow>
           (if b = 224 then 160 \<le> c1 \<and> c1 \<le> 191
            else if b = 237 then 128 \<le> c1 \<and> c1 \<le> 159
            else cont_byte c1) \<and> cont_byte c2 \<and> utf8_wf r
         | _ \<Rightarrow> False)
      else if 240 \<le> b \<and> b \<le> 244 then
        (case bs of c1 # c2 # c3 # r \<Rightarrow>
           (if b = 240 then 144 \<le> c1 \<and> c1 \<le> 191
            else if b = 244 then 128 \<le> c1 \<and> c1 \<le> 143
            else cont_byte c1) \<and> cont_byte c2 \<and> cont_byte c3 \<and> utf8_wf r
         | _ \<Rightarrow> False)
      else False)"

definition decode_utf8 :: "bytes \<Rightarrow> error + string" where
  "decode_utf8 bs = (if utf8_wf (map of_char bs) then Inr bs else Inl UnicodeDecodeError)"

text \<open>
  \<^verbatim>\<open>int(a / b)\<close> for a 16-bit \<open>a\<close> and a small positive \<open>b\<close>: the true division is a
  float64 whose integer part is exact at this size, and \<^verbatim>\<open>int\<close> truncates towards zero.
\<close>

definition int_truediv :: "int \<Rightarrow> int \<Rightarrow> int" where
  "int_truediv a b = (if a < 0 then - ((- a) div b) else a div b)"

text \<open>\<^verbatim>\<open>"%d" % n\<close>.\<close>

fun digits10 :: "nat \<Rightarrow> string" where
  "digits10 n =
     (if n < 10 then [''0123456789'' ! n]
      else digits10 (n div 10) @ [''0123456789'' ! (n mod 10)])"

definition fmt_d :: "int \<Rightarrow> string" where
  "fmt_d n = (if n < 0 then CHR ''-'' # digits10 (nat (- n)) else digits10 (nat n))"

text \<open>Wrap-around of numpy's fixed-width signed integers.\<close>

definition wrap_signed :: "nat \<Rightarrow> int \<Rightarrow> int" where
  "wrap_signed bits n = (n + 2 ^ (bits - 1)) mod 2 ^ bits - 2 ^ (bits - 1)"

section \<open>The engineering formatter\<close>

text \<open>\<^verbatim>\<open>10 ** e\<close> for a Python int \<open>e\<close>: an int for \<open>e \<ge> 0\<close>, a float otherwise.\<close>

definition py_pow10 :: "'f fpu \<Rightarrow> int \<Rightarrow> 'f pynum" where
  "py_pow10 fp e =
     (if 0 \<le> e then PyInt (10 ^ nat e)
      else PyFloat (fpow fp (of_int_f fp 10) (of_int_f fp e)))"

text \<open>\<^verbatim>\<open>m * v\<close> for a Python int \<open>m\<close>.\<close>

definition py_int_mul :: "'f fpu \<Rightarrow> int \<Rightarrow> 'f pynum \<Rightarrow> 'f pynum" where
  "py_int_mul fp m v =
     (case v of PyInt n \<Rightarrow> PyInt (m * n) | PyFloat x \<Rightarrow> PyFloat (fmul fp (of_int_f fp m) x))"

text \<open>\<^verbatim>\<open>f != 0\<close>.\<close>

definition py_nonzero :: "'f fpu \<Rightarrow> 'f pynum \<Rightarrow> bool" where
  "py_nonzero fp v = (case v of PyInt n \<Rightarrow> n \<noteq> 0 | PyFloat x \<Rightarrow> fnonzero fp x)"

text \<open>
  \<^verbatim>\<open>
  def float2eng(f):
      if f!=0: ex = math.floor(math.log(abs(f),10))
      else: ex = 0
      exeng = ex-ex % 3
      if exeng<-24: exeng = -24
      else:
          if exeng>24: exeng = 24
      mant = f/(10**exeng)
      prefix = 'yzafpnum kMGTPEZY'
      id = int((exeng+24)/3)
      if id==8: up = ''
      else: up = prefix[id]
      return "%g %s" % (mant,up)
  \<close>
\<close>

definition eng_exponent :: "int \<Rightarrow> int" where
  "eng_exponent ex =
     (let exeng = ex - ex mod 3
      in if exeng < -24 then -24 else if exeng > 24 then 24 else exeng)"

definition float2eng :: "'f fpu \<Rightarrow> 'f pynum \<Rightarrow> error + string" where
  "float2eng fp f =
     (case (if py_nonzero fp f then floor_log10 fp f else Inr 0) of
        Inl e \<Rightarrow> Inl e
      | Inr ex \<Rightarrow>
          (let exeng = eng_exponent ex in
           case truediv fp f (py_pow10 fp exeng) of
             Inl e \<Rightarrow> Inl e
           | Inr mant \<Rightarrow>
               (let prefix = ''yzafpnum kMGTPEZY'';
                    ident = int_truediv (exeng + 24) 3
                in case (if ident = 8 then Inr [] else
                           (case py_getitem ''string'' prefix ident of
                              Inl e \<Rightarrow> Inl e | Inr c \<Rightarrow> Inr [c])) of
                     Inl e \<Rightarrow> Inl e
                   | Inr up \<Rightarrow> Inr (fmt_g fp mant @ '' '' @ up))))"

section \<open>The file object\<close>

text \<open>
  The file is opened for reading only, so its content \<open>src\<close> never changes; the state
  of the file object is its position. A step of the decoder takes the position and
  returns a value or an exception, and the position it leaves behind (an exception does
  not move the position back).
\<close>

type_synonym 'a rd = "nat \<Rightarrow> (error + 'a) \<times> nat"

definition ret :: "'a \<Rightarrow> 'a rd" where
  "ret a pos = (Inr a, pos)"

definition raise :: "error \<Rightarrow> 'a rd" where
  "raise e pos = (Inl e, pos)"

definition bnd :: "'a rd \<Rightarrow> ('a \<Rightarrow> 'b rd) \<Rightarrow> 'b rd" where
  "bnd m f pos = (case m pos of (Inl e, pos') \<Rightarrow> (Inl e, pos') | (Inr a, pos') \<Rightarrow> f a pos')"

definition lift :: "error + 'a \<Rightarrow> 'a rd" where
  "lift r = (case r of Inl e \<Rightarrow> raise e | Inr a \<Rightarrow> ret a)"

text \<open>The bytes of the file from position \<open>pos\<close>, at most \<open>n\<close> of them.\<close>

definition bytes_at :: "bytes \<Rightarrow> nat \<Rightarrow> nat \<Rightarrow> bytes" where
  "bytes_at src pos n = take n (drop pos src)"

text \<open>\<^verbatim>\<open>dataFile.read(n)\<close>: up to \<open>n\<close> bytes, fewer at the end of the file.\<close>

definition f_read :: "bytes \<Rightarrow> nat \<Rightarrow> bytes rd" where
  "f_read src n pos =
     (let data = bytes_at src pos n in (Inr data, pos + length data))"

text \<open>\<^verbatim>\<open>dataFile.seek(p)\<close> and \<^verbatim>\<open>dataFile.tell()\<close>.\<close>

definition f_seek :: "nat \<Rightarrow> unit rd" where
  "f_seek p pos = (Inr (), p)"

definition f_tell :: "nat rd" where
  "f_tell pos = (Inr pos, pos)"

text \<open>
  \<^verbatim>\<open>np.fromfile(dataFile, dtype, count)\<close> for a binary file and an item of \<open>sz\<close> bytes:
  the items that are completely there, at most \<open>count\<close> of them, all of them for a
  negative \<open>count\<close>. A short file is no error: the array is shorter. The position moves
  over the bytes read (for a negative \<open>count\<close>, over the whole items).
\<close>

definition fromfile :: "bytes \<Rightarrow> nat \<Rightarrow> int \<Rightarrow> bytes list rd" where
  "fromfile src sz count pos =
     (let avail = (length src - pos) div sz;
          n = (if count < 0 then avail else min (nat count) avail);
          items = map (\<lambda>k. bytes_at src (pos + k * sz) sz) [0..<n];
          pos' = (if count < 0 then pos + n * sz
                  else pos + min (nat count * sz) (length src - pos))
      in (Inr items, pos'))"

text \<open>\<^verbatim>\<open>np.fromfile(dataFile, dtype, count=1)[0]\<close>: IndexError on an empty array.\<close>

definition fromfile1 :: "bytes \<Rightarrow> nat \<Rightarrow> bytes rd" where
  "fromfile1 src sz =
     bnd (fromfile src sz 1)
       (\<lambda>items. case items of [] \<Rightarrow> raise TruncatedInput | x # _ \<Rightarrow> ret x)"

text \<open>The byte order letter \<^verbatim>\<open>co\<close>: \<^verbatim>\<open>'<'\<close> is \<open>LE\<close>, \<^verbatim>\<open>'>'\<close> is \<open>BE\<close>.\<close>

datatype endian = LE | BE

definition uint_of :: "endian \<Rightarrow> bytes \<Rightarrow> nat" where
  "uint_of co bs = from_bytes_little (case co of LE \<Rightarrow> bs | BE \<Rightarrow> rev bs)"

definition sint_of :: "endian \<Rightarrow> bytes \<Rightarrow> int" where
  "sint_of co bs =
     (let u = int (uint_of co bs)
      in if 2 * u \<ge> 256 ^ length bs then u - 256 ^ length bs else u)"

definition rd_i1 :: "bytes \<Rightarrow> int rd" where
  "rd_i1 src = bnd (fromfile1 src 1) (\<lambda>b. ret (sint_of LE b))"

definition rd_i2 :: "bytes \<Rightarrow> endian \<Rightarrow> int rd" where
  "rd_i2 src co = bnd (fromfile1 src 2) (\<lambda>b. ret (sint_of co b))"

definition rd_i4 :: "bytes \<Rightarrow> endian \<Rightarrow> int rd" where
  "rd_i4 src co = bnd (fromfile1 src 4) (\<lambda>b. ret (sint_of co b))"

definition rd_f4 :: "'f fpu \<Rightarrow> bytes \<Rightarrow> endian \<Rightarrow> 'f rd" where
  "rd_f4 fp src co = bnd (fromfile1 src 4) (\<lambda>b. ret (f4 fp (uint_of co b)))"

definition rd_f8 :: "'f fpu \<Rightarrow> bytes \<Rightarrow> endian \<Rightarrow> 'f rd" where
  "rd_f8 fp src co = bnd (fromfile1 src 8) (\<lambda>b. ret (f8 fp (uint_of co b)))"

text \<open>\<^verbatim>\<open>dataFile.read(n).rstrip(chars).decode('utf-8')\<close>.\<close>

definition rd_str :: "bytes \<Rightarrow> nat \<Rightarrow> bytes \<Rightarrow> string rd" where
  "rd_str src n chars = bnd (f_read src n) (\<lambda>b. lift (decode_utf8 (rstrip b chars)))"

text \<open>
  The two byte strings the module passes to \<^verbatim>\<open>rstrip\<close>: \<^verbatim>\<open>b'\x00'\<close> is the single NUL
  byte; \<^verbatim>\<open>b'\0x00'\<close> is the octal escape \<^verbatim>\<open>\0\<close> followed by the three characters
  \<^verbatim>\<open>x00\<close>, four bytes in all.
\<close>

definition b_x00 :: bytes where
  "b_x00 = [CHR 0x00]"

definition b_0x00 :: bytes where
  "b_0x00 = [CHR 0x00, CHR ''x'', CHR ''0'', CHR ''0'']"

section \<open>The decoder\<close>

subsection \<open>The header dictionary\<close>

text \<open>
  \<^verbatim>\<open>WAVEDESC\<close> is a dictionary with a fixed set of keys; it is a record with one field
  per key, in the order of the assignments. The integer fields are numpy scalars of
  16 or 32 bits, held as their values.
\<close>

record 'f wavedesc =
  DESCRIPTOR_NAME :: string
  TEMPLATE_NAME :: string
  COMM_TYPE_INDEX :: int
  COMM_TYPE :: string
  COMM_ORDER_INDEX :: int
  COMM_ORDER :: string
  WAVE_DESCRIPTOR :: int
  USER_TEXT :: int
  RES_DESC1 :: int
  TRIGTIME_ARRAY :: int
  RIS_TIME_ARRAY :: int
  RES_ARRAY1 :: int
  WAVE_ARRAY_1 :: int
  WAVE_ARRAY_2 :: int
  RES_ARRAY2 :: int
  RES_ARRAY3 :: int
  INSTRUMENT_NAME :: string
  INSTRUMENT_NUMBER :: int
  TRACE_LABEL :: string
  RESERVED1 :: int
  RESERVED2 :: int
  WAVE_ARRAY_COUNT :: int
  PNTS_PER_SCREEN :: int
  FIRST_VALID_PNT :: int
  LAST_VALID_PNT :: int
  FIRST_POINT :: int
  SPARSING_FACTOR :: int
  SEGMENT_INDEX :: int
  SUBARRAY_COUNT :: int
  SWEEPS_PER_ACQ :: int
  POINTS_PER_PAIR :: int
  PAIR_OFFSET :: int
  VERTICAL_GAIN :: 'f
  VERTICAL_OFFSET :: 'f
  MAX_VALUE :: 'f
  MIN_VALUE :: 'f
  NOMINAL_BITS :: int
  NOM_SUBARRAY_COUNT :: int
  HORIZ_INTERVAL :: 'f
  HORIZ_OFFSET :: 'f
  PIXEL_OFFSET :: 'f
  VERTUNIT :: string
  HORUNIT :: string
  HORIZ_UNCERTAINTY :: 'f
  TRIGGER_TIME :: "'f \<times> int \<times> int \<times> int \<times> int \<times> int \<times> int"
  ACQ_DURATION :: 'f
  RECORD_TYPE_INDEX :: int
  RECORD_TYPE :: string
  PROCESSING_DONE_INDEX :: int
  PROCESSING_DONE :: string
  RESERVED5 :: int
  RIS_SWEEPS :: int
  TIMEBASE_INDEX :: int
  TIMEBASE :: string
  VERT_COUPLING_INDEX :: int
  VERT_COUPLING :: string
  PROBE_ATT :: 'f
  FIXED_VERT_GAIN_INDEX :: int
  FIXED_VERT_GAIN :: string
  BANDWIDTH_LIMIT_INDEX :: int
  BANDWIDTH_LIMIT :: string
  VERTICAL_VERNIER :: 'f
  ACQ_VERT_OFFSET :: 'f
  WAVE_SOURCE_INDEX :: int
  WAVE_SOURCE :: string
  FILE_SIZE :: int

subsection \<open>The enum tables\<close>

definition COMM_ORDER_table :: "string list" where
  "COMM_ORDER_table = [''HIFIRST'', ''LOFIRST'']"

definition COMM_TYPE_table :: "string list" where
  "COMM_TYPE_table = [''byte'', ''word'']"

definition RECORD_TYPE_table :: "string list" where
  "RECORD_TYPE_table =
     [''single sweep'', ''interleaved'', ''histogram'', ''graph'', ''filter_coefficient'',
      ''complex'', ''extrema'', ''sequence obsolete'', ''centered RIS'', ''peak detect'']"

definition PROCESSING_DONE_table :: "string list" where
  "PROCESSING_DONE_table =
     [''no processing'', ''fir filter'', ''interpolated'', ''sparsed'', ''autoscaled'',
      ''no result'', ''rolling'', ''cumulative'']"

definition VERT_COUPLING_table :: "string list" where
  "VERT_COUPLING_table = [''DC 50 Ohms'', ''ground'', ''DC 1MOhm'', ''ground'', ''AC 1MOhm'']"

definition BANDWIDTH_LIMIT_table :: "string list" where
  "BANDWIDTH_LIMIT_table = [''off'', ''on'']"

text \<open>\<^verbatim>\<open>LABEL = (...)[INDEX]\<close>.\<close>

definition enum_label :: "string list \<Rightarrow> int \<Rightarrow> string rd" where
  "enum_label table idx = lift (py_getitem ''tuple'' table idx)"

subsection \<open>The derived labels\<close>

text \<open>
  \<^verbatim>\<open>
  mant = divisions[INDEX % 3]
  exp = int(INDEX / 3)-shift
  t = mant*10**exp
  LABEL = float2eng(t)+UNIT+'/div'
  \<close>
  with \<open>shift = 12\<close> for the time base and \<open>shift = 6\<close> for the fixed vertical gain.
  The local variable \<^verbatim>\<open>divisions\<close> is bound only on the path of the time base that is
  not \<^verbatim>\<open>EXTERNAL\<close>: it is an option, and reading it unbound raises
  UnboundLocalError, a NameError.
\<close>

definition per_div_label ::
  "'f fpu \<Rightarrow> int list option \<Rightarrow> int \<Rightarrow> int \<Rightarrow> string \<Rightarrow> error + string" where
  "per_div_label fp divisions idx shift unit =
     (case divisions of
        None \<Rightarrow> Inl (NameError ''divisions'')
      | Some d \<Rightarrow>
          (case py_getitem ''tuple'' d (idx mod 3) of
             Inl e \<Rightarrow> Inl e
           | Inr mant \<Rightarrow>
               (let exp = int_truediv idx 3 - shift;
                    t = py_int_mul fp mant (py_pow10 fp exp)
                in case float2eng fp t of
                     Inl e \<Rightarrow> Inl e
                   | Inr s \<Rightarrow> Inr (s @ unit @ ''/div''))))"

text \<open>
  \<^verbatim>\<open>
  if TIMEBASE_INDEX==100: TIMEBASE = 'EXTERNAL'
  else:
      divisions = (1,2,5)
      ...
  \<close>
  The result is the label and the binding of \<^verbatim>\<open>divisions\<close> after the statement.
\<close>

definition timebase_label ::
  "'f fpu \<Rightarrow> int \<Rightarrow> string \<Rightarrow> error + string \<times> int list option" where
  "timebase_label fp idx unit =
     (if idx = 100 then Inr (''EXTERNAL'', None)
      else
        (let divisions = [1, 2, 5]
         in case per_div_label fp (Some divisions) idx 12 unit of
              Inl e \<Rightarrow> Inl e
            | Inr label \<Rightarrow> Inr (label, Some divisions)))"

subsection \<open>Reading the wave descriptor block\<close>

text \<open>
  Lines 146 to 245 of \<^verbatim>\<open>ReadBinaryTrace\<close>: the window and the start of the block, the
  byte order, and every field of the block in the order of the file. One \<open>bnd\<close> per
  statement that reads the file or may raise; the bound variable carries the name of
  the Python variable. The result is \<^verbatim>\<open>startOffset\<close>, the byte order letter \<^verbatim>\<open>co\<close>
  and the local variables that lines 252 to 317 store in the dictionary
  \<^verbatim>\<open>WAVEDESC\<close>, under the keys of the dictionary.

  \<^verbatim>\<open>int.from_bytes\<close> raises no ValueError on a \<^verbatim>\<open>bytes\<close> argument, so the
  \<^verbatim>\<open>except\<close> branch \<^verbatim>\<open>fileSize = 0\<close> is never taken.
\<close>

definition ReadBinaryTrace_fields ::
  "'f fpu \<Rightarrow> bytes \<Rightarrow> (nat \<times> endian \<times> 'f wavedesc) rd" where
  "ReadBinaryTrace_fields fp src =
     bnd (f_read src 32) (\<lambda>str2.
     case py_find str2 ''WAVEDESC'' of
       None \<Rightarrow> raise HeaderNotFound
     | Some startOffset \<Rightarrow>
     bnd (lift (decode_utf8 (rstrip (py_slice str2 startOffset (startOffset + 16)) b_0x00)))
       (\<lambda>DESCRIPTOR_NAME.
     let fileSize = int (from_bytes_little (py_slice str2 4 startOffset)) + int startOffset in
     bnd (f_seek (startOffset + 34)) (\<lambda>_.
     bnd (rd_i2 src LE) (\<lambda>COMM_ORDER_INDEX.
     bnd (enum_label COMM_ORDER_table COMM_ORDER_INDEX) (\<lambda>COMM_ORDER.
     let co = (if COMM_ORDER = ''LOFIRST'' then LE else BE) in
     bnd (f_seek (startOffset + 16)) (\<lambda>_.
     bnd (rd_str src 16 b_0x00) (\<lambda>TEMPLATE_NAME.
     if TEMPLATE_NAME \<noteq> ''LECROY_2_3'' then raise UnsupportedTemplateVersion else
     bnd (rd_i2 src co) (\<lambda>COMM_TYPE_INDEX.
     bnd (enum_label COMM_TYPE_table COMM_TYPE_INDEX) (\<lambda>COMM_TYPE.
     bnd (f_seek (startOffset + 36)) (\<lambda>_.
     bnd (rd_i4 src co) (\<lambda>WAVE_DESCRIPTOR.
     bnd (rd_i4 src co) (\<lambda>USER_TEXT.
     bnd (rd_i4 src co) (\<lambda>RES_DESC1.
     bnd (rd_i4 src co) (\<lambda>TRIGTIME_ARRAY.
     bnd (rd_i4 src co) (\<lambda>RIS_TIME_ARRAY.
     bnd (rd_i4 src co) (\<lambda>RES_ARRAY1.
     bnd (rd_i4 src co) (\<lambda>WAVE_ARRAY_1.
     bnd (rd_i4 src co) (\<lambda>WAVE_ARRAY_2.
     bnd (rd_i4 src co) (\<lambda>RES_ARRAY2.
     bnd (rd_i4 src co) (\<lambda>RES_ARRAY3.
     bnd (rd_str src 16 b_x00) (\<lambda>INSTRUMENT_NAME.
     bnd (rd_i4 src co) (\<lambda>INSTRUMENT_NUMBER.
     bnd (rd_str src 16 b_x00) (\<lambda>TRACE_LABEL.
     bnd (rd_i2 src co) (\<lambda>RESERVED1.
     bnd (rd_i2 src co) (\<lambda>RESERVED2.
     bnd (rd_i4 src co) (\<lambda>WAVE_ARRAY_COUNT.
     bnd (rd_i4 src co) (\<lambda>PNTS_PER_SCREEN.
     bnd (rd_i4 src co) (\<lambda>FIRST_VALID_PNT.
     bnd (rd_i4 src co) (\<lambda>LAST_VALID_PNT.
     bnd (rd_i4 src co) (\<lambda>FIRST_POINT.
     bnd (rd_i4 src co) (\<lambda>SPARSING_FACTOR.
     bnd (rd_i4 src co) (\<lambda>SEGMENT_INDEX.
     bnd (rd_i4 src co) (\<lambda>SUBARRAY_COUNT.
     bnd (rd_i4 src co) (\<lambda>SWEEPS_PER_ACQ.
     bnd (rd_i2 src co) (\<lambda>POINTS_PER_PAIR.
     bnd (rd_i2 src co) (\<lambda>PAIR_OFFSET.
     (bnd (rd_f4 fp src co) (\<lambda>VERTICAL_GAIN.
     bnd (rd_f4 fp src co) (\<lambda>VERTICAL_OFFSET.
     bnd (rd_f4 fp src co) (\<lambda>MAX_VALUE.
     bnd (rd_f4 fp src co) (\<lambda>MIN_VALUE.
     bnd (rd_i2 src co) (\<lambda>NOMINAL_BITS.
     bnd (rd_i2 src co) (\<lambda>NOM_SUBARRAY_COUNT.
     bnd (rd_f4 fp src co) (\<lambda>HORIZ_INTERVAL.
     bnd (rd_f8 fp src co) (\<lambda>HORIZ_OFFSET.
     bnd (rd_f8 fp src co) (\<lambda>PIXEL_OFFSET.
     bnd (rd_str src 48 b_0x00) (\<lambda>VERTUNIT.
     bnd (rd_str src 48 b_0x00) (\<lambda>HORUNIT.
     bnd (rd_f4 fp src co) (\<lambda>HORIZ_UNCERTAINTY.
     bnd (rd_f8 fp src co) (\<lambda>TRIGGER_TIME_SECONDS.
     bnd (rd_i1 src) (\<lambda>TRIGGER_TIME_MINUTES.
     bnd (rd_i1 src) (\<lambda>TRIGGER_TIME_HOURS.
     bnd (rd_i1 src) (\<lambda>TRIGGER_TIME_DAYS.
     bnd (rd_i1 src) (\<lambda>TRIGGER_TIME_MONTHS.
     bnd (rd_i2 src co) (\<lambda>TRIGGER_TIME_YEAR.
     bnd (rd_i2 src co) (\<lambda>TRIGGER_TIME_UNUSED.
     bnd (rd_f4 fp src co) (\<lambda>ACQ_DURATION.
     bnd (rd_i2 src co) (\<lambda>RECORD_TYPE_INDEX.
     bnd (enum_label RECORD_TYPE_table RECORD_TYPE_INDEX) (\<lambda>RECORD_TYPE.
     bnd (rd_i2 src co) (\<lambda>PROCESSING_DONE_INDEX.
     bnd (enum_label PROCESSING_DONE_table PROCESSING_DONE_INDEX) (\<lambda>PROCESSING_DONE.
     bnd (rd_i2 src co) (\<lambda>RESERVED5.
     bnd (rd_i2 src co) (\<lambda>RIS_SWEEPS.
     bnd (rd_i2 src co) (\<lambda>TIMEBASE_INDEX.
     bnd (lift (timebase_label fp TIMEBASE_INDEX HORUNIT)) (\<lambda>(TIMEBASE, divisions).
     bnd (rd_i2 src co) (\<lambda>VERT_COUPLING_INDEX.
     bnd (enum_label VERT_COUPLING_table VERT_COUPLING_INDEX) (\<lambda>VERT_COUPLING.
     bnd (rd_f4 fp src co) (\<lambda>PROBE_ATT.
     bnd (rd_i2 src co) (\<lambda>FIXED_VERT_GAIN_INDEX.
     bnd (lift (per_div_label fp divisions FIXED_VERT_GAIN_INDEX 6 VERTUNIT)) (\<lambda>FIXED_VERT_GAIN.
     bnd (rd_i2 src co) (\<lambda>BANDWIDTH_LIMIT_INDEX.
     bnd (enum_label BANDWIDTH_LIMIT_table BANDWIDTH_LIMIT_INDEX) (\<lambda>BANDWIDTH_LIMIT.
     bnd (rd_f4 fp src co) (\<lambda>VERTICAL_VERNIER.
     bnd (rd_f4 fp src co) (\<lambda>ACQ_VERT_OFFSET.
     bnd (rd_i2 src co) (\<lambda>WAVE_SOURCE_INDEX.
     let WAVE_SOURCE = ''C'' @ fmt_d (wrap_signed 16 (WAVE_SOURCE_INDEX + 1)) in
     ret (startOffset, co, \<lparr>
          DESCRIPTOR_NAME = DESCRIPTOR_NAME,
          TEMPLATE_NAME = TEMPLATE_NAME,
          COMM_TYPE_INDEX = COMM_TYPE_INDEX,
          COMM_TYPE = COMM_TYPE,
          COMM_ORDER_INDEX = COMM_ORDER_INDEX,
          COMM_ORDER = COMM_ORDER,
          WAVE_DESCRIPTOR = WAVE_DESCRIPTOR,
          USER_TEXT = USER_TEXT,
          RES_DESC1 = RES_DESC1,
          TRIGTIME_ARRAY = TRIGTIME_ARRAY,
          RIS_TIME_ARRAY = RIS_TIME_ARRAY,
          RES_ARRAY1 = RES_ARRAY1,
          WAVE_ARRAY_1 = WAVE_ARRAY_1,
          WAVE_ARRAY_2 = WAVE_ARRAY_2,
          RES_ARRAY2 = RES_ARRAY2,
          RES_ARRAY3 = RES_ARRAY3,
          INSTRUMENT_NAME = INSTRUMENT_NAME,
          INSTRUMENT_NUMBER = INSTRUMENT_NUMBER,
          TRACE_LABEL = TRACE_LABEL,
          RESERVED1 = RESERVED1,
          RESERVED2 = RESERVED2,
          WAVE_ARRAY_COUNT = WAVE_ARRAY_COUNT,
          PNTS_PER_SCREEN = PNTS_PER_SCREEN,
          FIRST_VALID_PNT = FIRST_VALID_PNT,
          LAST_VALID_PNT = LAST_VALID_PNT,
          FIRST_POINT = FIRST_POINT,
          SPARSING_FACTOR = SPARSING_FACTOR,
          SEGMENT_INDEX = SEGMENT_INDEX,
          SUBARRAY_COUNT = SUBARRAY_COUNT,
          SWEEPS_PER_ACQ = SWEEPS_PER_ACQ,
          POINTS_PER_PAIR = POINTS_PER_PAIR,
          PAIR_OFFSET = PAIR_OFFSET,
          VERTICAL_GAIN = VERTICAL_GAIN,
          VERTICAL_OFFSET = VERTICAL_OFFSET,
          MAX_VALUE = MAX_VALUE,
          MIN_VALUE = MIN_VALUE,
          NOMINAL_BITS = NOMINAL_BITS,
          NOM_SUBARRAY_COUNT = NOM_SUBARRAY_COUNT,
          HORIZ_INTERVAL = HORIZ_INTERVAL,
          HORIZ_OFFSET = HORIZ_OFFSET,
          PIXEL_OFFSET = PIXEL_OFFSET,
          VERTUNIT = VERTUNIT,
          HORUNIT = HORUNIT,
          HORIZ_UNCERTAINTY = HORIZ_UNCERTAINTY,
          TRIGGER_TIME = (TRIGGER_TIME_SECONDS, TRIGGER_TIME_MINUTES, TRIGGER_TIME_HOURS,
             TRIGGER_TIME_DAYS, TRIGGER_TIME_MONTHS, TRIGGER_TIME_YEAR, TRIGGER_TIME_UNUSED),
          ACQ_DURATION = ACQ_DURATION,
          RECORD_TYPE_INDEX = RECORD_TYPE_INDEX,
          RECORD_TYPE = RECORD_TYPE,
          PROCESSING_DONE_INDEX = PROCESSING_DONE_INDEX,
          PROCESSING_DONE = PROCESSING_DONE,
          RESERVED5 = RESERVED5,
          RIS_SWEEPS = RIS_SWEEPS,
          TIMEBASE_INDEX = TIMEBASE_INDEX,
          TIMEBASE = TIMEBASE,
          VERT_COUPLING_INDEX = VERT_COUPLING_INDEX,
          VERT_COUPLING = VERT_COUPLING,
          PROBE_ATT = PROBE_ATT,
          FIXED_VERT_GAIN_INDEX = FIXED_VERT_GAIN_INDEX,
          FIXED_VERT_GAIN = FIXED_VERT_GAIN,
          BANDWIDTH_LIMIT_INDEX = BANDWIDTH_LIMIT_INDEX,
          BANDWIDTH_LIMIT = BANDWIDTH_LIMIT,
          VERTICAL_VERNIER = VERTICAL_VERNIER,
          ACQ_VERT_OFFSET = ACQ_VERT_OFFSET,
          WAVE_SOURCE_INDEX = WAVE_SOURCE_INDEX,
          WAVE_SOURCE = WAVE_SOURCE,
          FILE_SIZE = fileSize
        \<rparr>)))))))))))))))))))))))))))))))))))))))
          :: (nat \<times> endian \<times> 'f wavedesc) rd)))))))))))))))))))))))))))))))))))))"

text \<open>
  Lines 246 to 317: the sanity check on the length of the block, then the dictionary.
  \<^verbatim>\<open>
  coffset = dataFile.tell()-startOffset
  if coffset != WAVE_DESCRIPTOR:
      raise RuntimeError('Wave descriptor is too long!')
  \<close>
\<close>

definition ReadBinaryTrace_header :: "'f fpu \<Rightarrow> bytes \<Rightarrow> (endian \<times> 'f wavedesc) rd" where
  "ReadBinaryTrace_header fp src =
     bnd (ReadBinaryTrace_fields fp src) (\<lambda>(startOffset, co, WAVEDESC).
     bnd f_tell (\<lambda>pos.
     let coffset = int pos - int startOffset in
     if coffset \<noteq> WAVE_DESCRIPTOR WAVEDESC then raise HeaderLengthMismatch
     else ret (co, WAVEDESC)))"

subsection \<open>Reading the user text\<close>

text \<open>
  \<^verbatim>\<open>
  if USER_TEXT >0: TEXT = dataFile.read(USER_TEXT)
  else: TEXT = b''
  \<close>
\<close>

definition ReadBinaryTrace_text :: "bytes \<Rightarrow> 'f wavedesc \<Rightarrow> bytes rd" where
  "ReadBinaryTrace_text src W =
     (if USER_TEXT W > 0 then f_read src (nat (USER_TEXT W)) else ret [])"

subsection \<open>Reading the waveforms\<close>

text \<open>
  A numpy array of one dimension is the list of its elements, one of two dimensions
  the list of its rows. \<^verbatim>\<open>np.array([])\<close> is \<open>Arr1 []\<close>.
\<close>

datatype 'f ndarray = Arr1 "'f list" | Arr2 "'f list list"

text \<open>\<^verbatim>\<open>raw*VERTICAL_GAIN-VERTICAL_OFFSET\<close> on one element of an integer array.\<close>

definition scale :: "'f fpu \<Rightarrow> 'f \<Rightarrow> 'f \<Rightarrow> int \<Rightarrow> 'f" where
  "scale fp gain offset raw = fsub fp (fmul fp (of_int_f fp raw) gain) offset"

text \<open>\<^verbatim>\<open>np.arange(n,dtype='float64')*HORIZ_INTERVAL+offset\<close>; empty for \<open>n \<le> 0\<close>.\<close>

definition time_axis :: "'f fpu \<Rightarrow> int \<Rightarrow> 'f \<Rightarrow> 'f \<Rightarrow> 'f list" where
  "time_axis fp n interval offset =
     map (\<lambda>j. fadd fp (fmul fp (of_int_f fp (int j)) interval) offset) [0..<nat n]"

text \<open>\<^verbatim>\<open>np.zeros((rows,cols),dtype='float64')\<close>, called with \<open>rows > 1\<close>.\<close>

definition np_zeros2 :: "'f fpu \<Rightarrow> int \<Rightarrow> int \<Rightarrow> 'f list list rd" where
  "np_zeros2 fp rows cols =
     (if cols < 0 then raise (ValueError ''negative dimensions are not allowed'')
      else ret (replicate (nat rows) (replicate (nat cols) (of_int_f fp 0))))"

text \<open>
  \<^verbatim>\<open>
  for i in range(SUBARRAY_COUNT):
      horOffset = trigTime[i]+trigOffset[i]
      x[i:] = np.arange(npts,dtype='float64')*HORIZ_INTERVAL+horOffset
  \<close>
  The assignment to the slice \<^verbatim>\<open>x[i:]\<close> writes the new row into every row from \<open>i\<close>
  on. The argument \<open>is\<close> is what is left of \<^verbatim>\<open>range(SUBARRAY_COUNT)\<close>.
\<close>

fun trig_rows ::
  "'f fpu \<Rightarrow> int \<Rightarrow> 'f \<Rightarrow> 'f list \<Rightarrow> 'f list \<Rightarrow> nat list \<Rightarrow> 'f list list
     \<Rightarrow> error + 'f list list" where
  "trig_rows fp npts interval trigTime trigOffset [] x = Inr x"
| "trig_rows fp npts interval trigTime trigOffset (i # is) x =
     (if i < length trigTime \<and> i < length trigOffset then
        (let horOffset = fadd fp (trigTime ! i) (trigOffset ! i)
         in trig_rows fp npts interval trigTime trigOffset is
              (take i x @ replicate (length x - i) (time_axis fp npts interval horOffset)))
      else Inl TruncatedInput)"

text \<open>\<^verbatim>\<open>a.reshape(rows,cols)\<close> for \<open>rows, cols \<ge> 0\<close>: ValueError unless the sizes agree.\<close>

definition reshape2 :: "'a list \<Rightarrow> nat \<Rightarrow> nat \<Rightarrow> error + 'a list list" where
  "reshape2 a rows cols =
     (if length a = rows * cols
      then Inr (map (\<lambda>i. take cols (drop (i * cols) a)) [0..<rows])
      else Inl (ValueError ''cannot reshape array''))"

text \<open>
  Lines 324 to 363. \<^verbatim>\<open>np.fromfile(dataFile,dtype=co+'i1',count=n)\<close> yields items of one
  byte, \<^verbatim>\<open>co+'i2'\<close> of two; \<open>sint_of co\<close> reads an item as a signed integer. The record
  of two doubles has 16 bytes, \<^verbatim>\<open>TRIGGER_TIME\<close> first.
\<close>

definition ReadBinaryTrace_waveforms ::
  "'f fpu \<Rightarrow> bytes \<Rightarrow> endian \<Rightarrow> 'f wavedesc \<Rightarrow> ('f ndarray \<times> 'f ndarray \<times> 'f ndarray) rd" where
  "ReadBinaryTrace_waveforms fp src co W =
     (if SUBARRAY_COUNT W > 1 then
        if WAVE_ARRAY_COUNT W mod SUBARRAY_COUNT W \<noteq> 0 then raise UnevenSegmentSplit
        else
          let npts = WAVE_ARRAY_COUNT W div SUBARRAY_COUNT W in
          bnd (fromfile src 16 (SUBARRAY_COUNT W)) (\<lambda>trigArray.
          let trigTime = map (\<lambda>r. f8 fp (uint_of co (take 8 r))) trigArray;
              trigOffset = map (\<lambda>r. f8 fp (uint_of co (drop 8 r))) trigArray in
          bnd (np_zeros2 fp (SUBARRAY_COUNT W) npts) (\<lambda>x0.
          bnd (lift (trig_rows fp npts (HORIZ_INTERVAL W) trigTime trigOffset
                       [0..<nat (SUBARRAY_COUNT W)] x0)) (\<lambda>x.
          bnd (if COMM_TYPE_INDEX W = 0 then
                 bnd (fromfile src 1 (WAVE_ARRAY_COUNT W)) (\<lambda>items.
                 bnd (lift (reshape2 (map (sint_of co) items) (nat (SUBARRAY_COUNT W)) (nat npts)))
                   (\<lambda>raw. ret (map (map (scale fp (VERTICAL_GAIN W) (VERTICAL_OFFSET W))) raw)))
               else
                 bnd (fromfile src 2 (WAVE_ARRAY_COUNT W)) (\<lambda>items.
                 bnd (lift (reshape2 (map (sint_of co) items) (nat (SUBARRAY_COUNT W)) (nat npts)))
                   (\<lambda>raw. ret (map (map (scale fp (VERTICAL_GAIN W) (VERTICAL_OFFSET W))) raw))))
            (\<lambda>y1. ret (Arr2 x, Arr2 y1, Arr1 [])))))
      else
        bnd (if COMM_TYPE_INDEX W = 0 then
               bnd (fromfile src 1 (WAVE_ARRAY_COUNT W)) (\<lambda>items1.
               let y1 = map (scale fp (VERTICAL_GAIN W) (VERTICAL_OFFSET W) \<circ> sint_of co) items1 in
               if WAVE_ARRAY_2 W > 0 then
                 bnd (fromfile src 1 (WAVE_ARRAY_COUNT W)) (\<lambda>items2.
                 ret (y1, map (scale fp (VERTICAL_GAIN W) (VERTICAL_OFFSET W) \<circ> sint_of co) items2))
               else ret (y1, []))
             else
               bnd (fromfile src 2 (WAVE_ARRAY_COUNT W)) (\<lambda>items1.
               let y1 = map (scale fp (VERTICAL_GAIN W) (VERTICAL_OFFSET W) \<circ> sint_of co) items1 in
               if WAVE_ARRAY_2 W > 0 then
                 bnd (fromfile src 2 (WAVE_ARRAY_COUNT W)) (\<lambda>items2.
                 ret (y1, map (scale fp (VERTICAL_GAIN W) (VERTICAL_OFFSET W) \<circ> sint_of co) items2))
               else ret (y1, [])))
          (\<lambda>(y1, y2).
             let x = time_axis fp (WAVE_ARRAY_COUNT W) (HORIZ_INTERVAL W) (HORIZ_OFFSET W)
             in ret (Arr1 x, Arr1 y1, Arr1 y2)))"

subsection \<open>The whole function\<close>

text \<open>
  \<^verbatim>\<open>ReadBinaryTrace(filePath)\<close> opens the file at position 0 and returns
  \<^verbatim>\<open>(WAVEDESC,TEXT,x,y1,y2)\<close>, or raises. \<open>ReadBinaryTrace_run\<close> also gives the
  position of the file object when the function is left.
\<close>

type_synonym 'f decoded = "'f wavedesc \<times> bytes \<times> 'f ndarray \<times> 'f ndarray \<times> 'f ndarray"

definition ReadBinaryTrace_run :: "'f fpu \<Rightarrow> bytes \<Rightarrow> 'f decoded rd" where
  "ReadBinaryTrace_run fp src =
     bnd (ReadBinaryTrace_header fp src) (\<lambda>(co, WAVEDESC).
     bnd (ReadBinaryTrace_text src WAVEDESC) (\<lambda>TEXT.
     bnd (ReadBinaryTrace_waveforms fp src co WAVEDESC) (\<lambda>(x, y1, y2).
     ret (WAVEDESC, TEXT, x, y1, y2))))"

definition ReadBinaryTrace :: "'f fpu \<Rightarrow> bytes \<Rightarrow> error + 'f decoded" where
  "ReadBinaryTrace fp src = fst (ReadBinaryTrace_run fp src 0)"

section \<open>Helpers of the verification\<close>

subsection \<open>A call that returns\<close>

text \<open>A run of a reader \<open>returns\<close> when it ends with a value and not with an exception.\<close>

definition returns :: "(error + 'a) \<times> nat \<Rightarrow> bool" where
  "returns r = (case fst r of Inl e \<Rightarrow> False | Inr a \<Rightarrow> True)"

subsection \<open>An exact platform\<close>

text \<open>
  For runs on concrete files the floating-point parameter is instantiated with exact
  arithmetic on the rationals: a bit pattern denotes the rational number that IEEE 754
  gives it (an infinity or a NaN is not represented), \<^verbatim>\<open>math.floor(math.log(abs(f),10))\<close>
  is the exact floor of the decimal logarithm, and \<^verbatim>\<open>%g\<close> prints six significant digits
  the way C does. The concrete runs below use values on which IEEE arithmetic is exact
  as well.
\<close>

definition pow_rat :: "rat \<Rightarrow> int \<Rightarrow> rat" where
  "pow_rat b e = (if 0 \<le> e then b ^ nat e else 1 / b ^ nat (- e))"

text \<open>The value of a bit pattern with \<open>eb\<close> exponent bits and \<open>mb\<close> fraction bits.\<close>

definition ieee_value :: "nat \<Rightarrow> nat \<Rightarrow> nat \<Rightarrow> rat" where
  "ieee_value eb mb n =
     (let m = n mod 2 ^ mb;
          e = (n div 2 ^ mb) mod 2 ^ eb;
          s = (n div 2 ^ (mb + eb)) mod 2;
          bias = 2 ^ (eb - 1) - 1;
          a = (if e = 0 then of_nat m * pow_rat 2 (1 - int bias - int mb)
               else of_nat (2 ^ mb + m) * pow_rat 2 (int e - int bias - int mb))
      in if s = 1 then - a else a)"

definition ndigits :: "nat \<Rightarrow> nat" where
  "ndigits n = length (digits10 n)"

text \<open>The floor of the decimal logarithm of \<open>a > 0\<close>, from the number of decimal digits.\<close>

definition ilog10 :: "rat \<Rightarrow> int" where
  "ilog10 a =
     (if 1 \<le> a then int (ndigits (nat \<lfloor>a\<rfloor>)) - 1
      else - int (ndigits (nat (\<lceil>1 / a\<rceil> - 1))))"

definition num_rat :: "rat pynum \<Rightarrow> rat" where
  "num_rat v = (case v of PyInt n \<Rightarrow> of_int n | PyFloat x \<Rightarrow> x)"

definition round_half_even :: "rat \<Rightarrow> int" where
  "round_half_even y =
     (let f = \<lfloor>y\<rfloor>; r = y - of_int f
      in if r < 1 / 2 then f else if 1 / 2 < r then f + 1 else if even f then f else f + 1)"

definition strip_zeros :: "string \<Rightarrow> string" where
  "strip_zeros ds = rev (dropWhile (\<lambda>c. c = CHR ''0'') (rev ds))"

text \<open>
  \<^verbatim>\<open>"%g" % x\<close>: six significant digits \<open>ds\<close> and the decimal exponent \<open>e\<close> of the rounded
  value; scientific notation for \<open>e < -4\<close> or \<open>e \<ge> 6\<close>, fixed notation otherwise;
  trailing zeros of the fraction are dropped.
\<close>

definition fmt_g_rat :: "rat \<Rightarrow> string" where
  "fmt_g_rat x =
     (if x = 0 then ''0''
      else
        let a = \<bar>x\<bar>;
            e0 = ilog10 a;
            m0 = round_half_even (a * pow_rat 10 (5 - e0));
            m = (if m0 = 1000000 then 100000 else m0);
            e = (if m0 = 1000000 then e0 + 1 else e0);
            ds = digits10 (nat m);
            sgn = (if x < 0 then ''-'' else [])
        in if e < - 4 \<or> 6 \<le> e then
             (let frac = strip_zeros (tl ds);
                  ex = digits10 (nat \<bar>e\<bar>)
              in sgn @ [hd ds] @ (if frac = [] then [] else CHR ''.'' # frac) @ ''e''
                   @ (if e < 0 then ''-'' else ''+'')
                   @ (if length ex < 2 then CHR ''0'' # ex else ex))
           else if 0 \<le> e then
             (let frac = strip_zeros (drop (nat e + 1) ds)
              in sgn @ take (nat e + 1) ds @ (if frac = [] then [] else CHR ''.'' # frac))
           else sgn @ ''0.'' @ replicate (nat (- e - 1)) CHR ''0'' @ strip_zeros ds)"

definition fpu_exact :: "rat fpu" where
  "fpu_exact =
     \<lparr> f4 = ieee_value 8 23,
       f8 = ieee_value 11 52,
       of_int_f = of_int,
       fadd = (+),
       fsub = (-),
       fmul = (*),
       fpow = (\<lambda>b e. pow_rat b \<lfloor>e\<rfloor>),
       fnonzero = (\<lambda>x. x \<noteq> 0),
       floor_log10 = (\<lambda>v. if num_rat v = 0 then Inl (ValueError ''math domain error'')
                          else Inr (ilog10 \<bar>num_rat v\<bar>)),
       truediv = (\<lambda>a b. if num_rat b = 0 then Inl ZeroDivisionError
                        else Inr (num_rat a / num_rat b)),
       fmt_g = fmt_g_rat \<rparr>"

subsection \<open>The formulas of the specification\<close>



text \<open>
  The file size in the words of the specification: the little-endian value of the bytes
  between the start of the window and the match, plus the offset of the match.
\<close>

definition spec_file_size :: "bytes \<Rightarrow> nat \<Rightarrow> int" where
  "spec_file_size window k = int (from_bytes_little (py_slice window 0 k)) + int k"



text \<open>
  A string field in the words of the specification: the raw bytes without their trailing
  NUL bytes, decoded as UTF-8.
\<close>

definition spec_string :: "bytes \<Rightarrow> error + string" where
  "spec_string raw = decode_utf8 (rev (dropWhile (\<lambda>c. c = CHR 0x00) (rev raw)))"

text \<open>
  The codes that index a table of \<open>len\<close> labels without an error, and the label they
  give: a code from \<open>-len\<close> to \<open>-1\<close> counts from the end of the table.
\<close>

definition code_in_range :: "'a list \<Rightarrow> int \<Rightarrow> bool" where
  "code_in_range T i \<longleftrightarrow> - int (length T) \<le> i \<and> i < int (length T)"

definition label_at :: "'a list \<Rightarrow> int \<Rightarrow> 'a" where
  "label_at T i = T ! nat (if i < 0 then int (length T) + i else i)"

subsection \<open>Test files\<close>

text \<open>
  A test file is a wave descriptor block of 346 bytes in low-byte-first order after an
  optional prefix, followed by a payload. The fields that the test files vary are
  parameters, as their bytes in the file: \<open>ct\<close> is \<^verbatim>\<open>COMM_TYPE\<close> (offset 32), \<open>wd\<close>
  \<^verbatim>\<open>WAVE_DESCRIPTOR\<close> (36), \<open>wa2\<close> \<^verbatim>\<open>WAVE_ARRAY_2\<close> (64), \<open>wac\<close> \<^verbatim>\<open>WAVE_ARRAY_COUNT\<close> (116),
  \<open>sc\<close> \<^verbatim>\<open>SUBARRAY_COUNT\<close> (144), \<open>vu\<close> \<^verbatim>\<open>VERTUNIT\<close> (196) and \<open>tb\<close> \<^verbatim>\<open>TIMEBASE\<close> (324). The
  other fields are fixed: \<^verbatim>\<open>USER_TEXT\<close> is 0, \<^verbatim>\<open>VERTICAL_GAIN\<close> is 0.5, \<^verbatim>\<open>VERTICAL_OFFSET\<close>
  is 0.25, \<^verbatim>\<open>HORIZ_INTERVAL\<close> is 0.5, \<^verbatim>\<open>HORIZ_OFFSET\<close> is -1.5, \<^verbatim>\<open>HORUNIT\<close> is \<^verbatim>\<open>S\<close>,
  \<^verbatim>\<open>FIXED_VERT_GAIN\<close> is 11.
\<close>

text \<open>Offsets 0 to 31: \<^verbatim>\<open>DESCRIPTOR_NAME and TEMPLATE_NAME\<close>.\<close>

definition blk_names :: bytes where
  "blk_names =
     [CHR 0x57, CHR 0x41, CHR 0x56, CHR 0x45, CHR 0x44, CHR 0x45, CHR 0x53, CHR 0x43] @
     replicate 8 (CHR 0x00) @
     [CHR 0x4C, CHR 0x45, CHR 0x43, CHR 0x52, CHR 0x4F, CHR 0x59, CHR 0x5F, CHR 0x32, CHR 0x5F, CHR 0x33] @
     replicate 6 (CHR 0x00)"

text \<open>Offsets 34 to 35: \<^verbatim>\<open>COMM_ORDER = 1\<close>.\<close>

definition blk_order :: bytes where
  "blk_order =
     [CHR 0x01, CHR 0x00]"

text \<open>Offsets 40 to 63: \<^verbatim>\<open>USER_TEXT = 0, RES_DESC1, TRIGTIME_ARRAY, RIS_TIME_ARRAY, RES_ARRAY1, WAVE_ARRAY_1\<close>.\<close>

definition blk_lengths :: bytes where
  "blk_lengths =
     replicate 20 (CHR 0x00) @
     [CHR 0x02, CHR 0x00, CHR 0x00, CHR 0x00]"

text \<open>Offsets 68 to 115: \<^verbatim>\<open>RES_ARRAY2, RES_ARRAY3, INSTRUMENT_NAME, INSTRUMENT_NUMBER, TRACE_LABEL, RESERVED1, RESERVED2\<close>.\<close>

definition blk_instr :: bytes where
  "blk_instr =
     replicate 8 (CHR 0x00) @
     [CHR 0x4C, CHR 0x45, CHR 0x43, CHR 0x52, CHR 0x4F, CHR 0x59, CHR 0x57, CHR 0x52] @
     replicate 8 (CHR 0x00) @
     [CHR 0xD2, CHR 0x04] @
     replicate 22 (CHR 0x00)"

text \<open>Offsets 120 to 143: \<^verbatim>\<open>PNTS_PER_SCREEN .. SEGMENT_INDEX\<close>.\<close>

definition blk_points :: bytes where
  "blk_points =
     [CHR 0x02] @
     replicate 7 (CHR 0x00) @
     [CHR 0x01] @
     replicate 7 (CHR 0x00) @
     [CHR 0x01] @
     replicate 7 (CHR 0x00)"

text \<open>Offsets 148 to 195: \<^verbatim>\<open>SWEEPS_PER_ACQ .. PIXEL_OFFSET\<close>.\<close>

definition blk_vertical :: bytes where
  "blk_vertical =
     [CHR 0x01] @
     replicate 10 (CHR 0x00) @
     [CHR 0x3F, CHR 0x00, CHR 0x00, CHR 0x80, CHR 0x3E, CHR 0x00, CHR 0x00, CHR 0xFE, CHR 0x42, CHR 0x00, CHR 0x00, CHR 0x00, CHR 0xC3, CHR 0x08, CHR 0x00, CHR 0x01] @
     replicate 4 (CHR 0x00) @
     [CHR 0x3F] @
     replicate 6 (CHR 0x00) @
     [CHR 0xF8, CHR 0xBF] @
     replicate 8 (CHR 0x00)"

text \<open>Offsets 244 to 291: \<^verbatim>\<open>HORUNIT\<close>.\<close>

definition blk_horunit :: bytes where
  "blk_horunit =
     [CHR 0x53] @
     replicate 47 (CHR 0x00)"

text \<open>Offsets 292 to 323: \<^verbatim>\<open>HORIZ_UNCERTAINTY .. RIS_SWEEPS\<close>.\<close>

definition blk_trigger :: bytes where
  "blk_trigger =
     replicate 10 (CHR 0x00) @
     [CHR 0xF8, CHR 0x3F, CHR 0x1E, CHR 0x0C, CHR 0x18, CHR 0x0C, CHR 0xE2, CHR 0x07] @
     replicate 12 (CHR 0x00) @
     [CHR 0x01, CHR 0x00]"

text \<open>Offsets 326 to 345: \<^verbatim>\<open>VERT_COUPLING .. WAVE_SOURCE\<close>.\<close>

definition blk_acq :: bytes where
  "blk_acq =
     [CHR 0x02, CHR 0x00, CHR 0x00, CHR 0x00, CHR 0x80, CHR 0x3F, CHR 0x0B] @
     replicate 5 (CHR 0x00) @
     [CHR 0x80, CHR 0x3F] @
     replicate 6 (CHR 0x00)"

definition test_file ::
  "bytes \<Rightarrow> bytes \<Rightarrow> bytes \<Rightarrow> bytes \<Rightarrow> bytes \<Rightarrow> bytes \<Rightarrow> bytes \<Rightarrow> bytes \<Rightarrow> bytes \<Rightarrow> bytes" where
  "test_file prefix ct wd wa2 wac sc vu tb payload =
     prefix @ blk_names @ ct @ blk_order @ wd @ blk_lengths @ wa2 @ blk_instr @ wac @
     blk_points @ sc @ blk_vertical @ vu @ blk_horunit @ blk_trigger @ tb @ blk_acq @ payload"

text \<open>The unit fields \<^verbatim>\<open>V\<close> and \<^verbatim>\<open>lx\<close>, padded with NUL bytes to 48 bytes.\<close>

definition unit_V :: bytes where
  "unit_V = CHR ''V'' # replicate 47 (CHR 0x00)"

definition unit_lx :: bytes where
  "unit_lx = CHR ''l'' # CHR ''x'' # replicate 46 (CHR 0x00)"

text \<open>
  A single sweep of two 8-bit samples \<open>3, -2\<close> on the first channel and \<open>16, -16\<close> on the
  second; time base code 11.
\<close>

definition file_sweep :: bytes where
  "file_sweep =
     test_file [] [CHR 0x00, CHR 0x00] [CHR 0x5A, CHR 0x01, CHR 0x00, CHR 0x00]
       [CHR 0x02, CHR 0x00, CHR 0x00, CHR 0x00] [CHR 0x02, CHR 0x00, CHR 0x00, CHR 0x00]
       [CHR 0x01, CHR 0x00, CHR 0x00, CHR 0x00] unit_V [CHR 0x0B, CHR 0x00]
       [CHR 0x03, CHR 0xFE, CHR 0x10, CHR 0xF0]"

text \<open>
  The single sweep with the declared length 347 of the block.
\<close>

definition file_long :: bytes where
  "file_long =
     test_file [] [CHR 0x00, CHR 0x00] [CHR 0x5B, CHR 0x01, CHR 0x00, CHR 0x00]
       [CHR 0x02, CHR 0x00, CHR 0x00, CHR 0x00] [CHR 0x02, CHR 0x00, CHR 0x00, CHR 0x00]
       [CHR 0x01, CHR 0x00, CHR 0x00, CHR 0x00] unit_V [CHR 0x0B, CHR 0x00]
       [CHR 0x03, CHR 0xFE, CHR 0x10, CHR 0xF0]"

text \<open>
  The single sweep after one byte \<open>07\<close>: the block starts at offset 1.
\<close>

definition file_shifted :: bytes where
  "file_shifted =
     test_file [CHR 0x07] [CHR 0x00, CHR 0x00] [CHR 0x5A, CHR 0x01, CHR 0x00, CHR 0x00]
       [CHR 0x02, CHR 0x00, CHR 0x00, CHR 0x00] [CHR 0x02, CHR 0x00, CHR 0x00, CHR 0x00]
       [CHR 0x01, CHR 0x00, CHR 0x00, CHR 0x00] unit_V [CHR 0x0B, CHR 0x00]
       [CHR 0x03, CHR 0xFE, CHR 0x10, CHR 0xF0]"


text \<open>
  The single sweep with the vertical unit \<^verbatim>\<open>lx\<close>.
\<close>

definition file_lx :: bytes where
  "file_lx =
     test_file [] [CHR 0x00, CHR 0x00] [CHR 0x5A, CHR 0x01, CHR 0x00, CHR 0x00]
       [CHR 0x02, CHR 0x00, CHR 0x00, CHR 0x00] [CHR 0x02, CHR 0x00, CHR 0x00, CHR 0x00]
       [CHR 0x01, CHR 0x00, CHR 0x00, CHR 0x00] unit_lx [CHR 0x0B, CHR 0x00]
       [CHR 0x03, CHR 0xFE, CHR 0x10, CHR 0xF0]"

text \<open>
  The single sweep with the time base code 100.
\<close>

definition file_ext :: bytes where
  "file_ext =
     test_file [] [CHR 0x00, CHR 0x00] [CHR 0x5A, CHR 0x01, CHR 0x00, CHR 0x00]
       [CHR 0x02, CHR 0x00, CHR 0x00, CHR 0x00] [CHR 0x02, CHR 0x00, CHR 0x00, CHR 0x00]
       [CHR 0x01, CHR 0x00, CHR 0x00, CHR 0x00] unit_V [CHR 0x64, CHR 0x00]
       [CHR 0x03, CHR 0xFE, CHR 0x10, CHR 0xF0]"

text \<open>
  The single sweep with the communication type code 2.
\<close>

definition file_code2 :: bytes where
  "file_code2 =
     test_file [] [CHR 0x02, CHR 0x00] [CHR 0x5A, CHR 0x01, CHR 0x00, CHR 0x00]
       [CHR 0x02, CHR 0x00, CHR 0x00, CHR 0x00] [CHR 0x02, CHR 0x00, CHR 0x00, CHR 0x00]
       [CHR 0x01, CHR 0x00, CHR 0x00, CHR 0x00] unit_V [CHR 0x0B, CHR 0x00]
       [CHR 0x03, CHR 0xFE, CHR 0x10, CHR 0xF0]"

text \<open>
  The single sweep with the communication type code \<open>-1\<close>.
\<close>

definition file_codeneg :: bytes where
  "file_codeneg =
     test_file [] [CHR 0xFF, CHR 0xFF] [CHR 0x5A, CHR 0x01, CHR 0x00, CHR 0x00]
       [CHR 0x02, CHR 0x00, CHR 0x00, CHR 0x00] [CHR 0x02, CHR 0x00, CHR 0x00, CHR 0x00]
       [CHR 0x01, CHR 0x00, CHR 0x00, CHR 0x00] unit_V [CHR 0x0B, CHR 0x00]
       [CHR 0x03, CHR 0xFE, CHR 0x10, CHR 0xF0]"

text \<open>
  The trigger times of two segments: the pairs \<open>(0.0, -0.5)\<close> and \<open>(1.0, -0.5)\<close> as
  doubles, low byte first.
\<close>

definition trig_pairs :: bytes where
  "trig_pairs =
     replicate 14 (CHR 0x00) @ [CHR 0xE0, CHR 0xBF] @ replicate 6 (CHR 0x00) @ [CHR 0xF0, CHR 0x3F]
       @ replicate 6 (CHR 0x00) @ [CHR 0xE0, CHR 0xBF]"

text \<open>
  A sequence of two segments of two 16-bit samples each: \<open>1, -1\<close> and \<open>256, -256\<close>.
\<close>

definition file_seq :: bytes where
  "file_seq =
     test_file [] [CHR 0x01, CHR 0x00] [CHR 0x5A, CHR 0x01, CHR 0x00, CHR 0x00]
       [CHR 0x00, CHR 0x00, CHR 0x00, CHR 0x00] [CHR 0x04, CHR 0x00, CHR 0x00, CHR 0x00]
       [CHR 0x02, CHR 0x00, CHR 0x00, CHR 0x00] unit_V [CHR 0x0B, CHR 0x00]
       (trig_pairs @ [CHR 0x01, CHR 0x00, CHR 0xFF, CHR 0xFF, CHR 0x00, CHR 0x01, CHR 0x00, CHR 0xFF])"

text \<open>
  A sequence of two segments of one sample each, with the communication type code \<open>-2\<close>;
  the four bytes of the samples are \<open>03 01 FE FF\<close>.
\<close>

definition file_seq_neg :: bytes where
  "file_seq_neg =
     test_file [] [CHR 0xFE, CHR 0xFF] [CHR 0x5A, CHR 0x01, CHR 0x00, CHR 0x00]
       [CHR 0x00, CHR 0x00, CHR 0x00, CHR 0x00] [CHR 0x02, CHR 0x00, CHR 0x00, CHR 0x00]
       [CHR 0x02, CHR 0x00, CHR 0x00, CHR 0x00] unit_V [CHR 0x0B, CHR 0x00]
       (trig_pairs @ [CHR 0x03, CHR 0x01, CHR 0xFE, CHR 0xFF])"

text \<open>
  Three samples declared for two segments.
\<close>

definition file_uneven :: bytes where
  "file_uneven =
     test_file [] [CHR 0x01, CHR 0x00] [CHR 0x5A, CHR 0x01, CHR 0x00, CHR 0x00]
       [CHR 0x00, CHR 0x00, CHR 0x00, CHR 0x00] [CHR 0x03, CHR 0x00, CHR 0x00, CHR 0x00]
       [CHR 0x02, CHR 0x00, CHR 0x00, CHR 0x00] unit_V [CHR 0x0B, CHR 0x00]
       (trig_pairs @ [CHR 0x01, CHR 0x00, CHR 0xFF, CHR 0xFF, CHR 0x00, CHR 0x01])"

section \<open>The reader: when a step succeeds\<close>

lemma bnd_Inr_iff:
  "bnd m f pos = (Inr r, p) \<longleftrightarrow> (\<exists>a q. m pos = (Inr a, q) \<and> f a q = (Inr r, p))"
  by (auto simp: bnd_def split: prod.splits sum.splits)

lemma bnd_weak_cong: "m = m' \<Longrightarrow> pos = pos' \<Longrightarrow> bnd m f pos = bnd m' f pos'"
  by simp

lemma case_prod_weak_cong: "p = q \<Longrightarrow> case_prod c p = case_prod c q"
  by simp

lemma ret_Inr_iff: "ret a pos = (Inr b, p) \<longleftrightarrow> b = a \<and> p = pos"
  by (auto simp: ret_def)

lemma raise_Inr_iff: "raise e pos = (Inr b, p) \<longleftrightarrow> False"
  by (simp add: raise_def)

lemma lift_Inr_iff: "lift x pos = (Inr a, p) \<longleftrightarrow> x = Inr a \<and> p = pos"
  by (cases x) (auto simp: lift_def ret_def raise_def)

lemma if_raise_Inr_iff:
  "(if c then raise e else m) pos = (Inr r, p) \<longleftrightarrow> \<not> c \<and> m pos = (Inr r, p)"
  by (simp add: raise_def)

lemma case_raise_Inr_iff:
  "(case x of None \<Rightarrow> raise e | Some k \<Rightarrow> m k) pos = (Inr r, p) \<longleftrightarrow>
     (\<exists>k. x = Some k \<and> m k pos = (Inr r, p))"
  by (cases x) (simp_all add: raise_def)

lemma f_read_Inr_iff:
  "f_read src n pos = (Inr d, p) \<longleftrightarrow> d = bytes_at src pos n \<and> p = pos + min n (length src - pos)"
  by (auto simp: f_read_def Let_def bytes_at_def min.commute)

lemma f_seek_Inr_iff: "f_seek k pos = (Inr u, p) \<longleftrightarrow> p = k"
  by (auto simp: f_seek_def)

lemma f_tell_Inr_iff: "f_tell pos = (Inr a, p) \<longleftrightarrow> a = pos \<and> p = pos"
  by (auto simp: f_tell_def)

lemma avail_ge1: "0 < sz \<Longrightarrow> (0 < (n - pos) div sz) = (pos + sz \<le> (n::nat))"
  by (auto simp: div_greater_zero_iff)

text \<open>Reading one item succeeds exactly when the whole item is in the file.\<close>

lemma fromfile1_Inr_iff:
  "0 < sz \<Longrightarrow>
   fromfile1 src sz pos = (Inr b, p) \<longleftrightarrow>
     pos + sz \<le> length src \<and> b = bytes_at src pos sz \<and> p = pos + sz"
proof -
  assume sz: "0 < sz"
  show ?thesis
  proof (cases "pos + sz \<le> length src")
    case True
    then have "0 < (length src - pos) div sz" using sz by (simp add: avail_ge1)
    then have m: "min (Suc 0) ((length src - pos) div sz) = Suc 0" by simp
    from True have m2: "min sz (length src - pos) = sz" by simp
    show ?thesis using True
      by (auto simp: fromfile1_def fromfile_def bnd_def Let_def m m2 ret_def)
  next
    case False
    then have "(length src - pos) div sz = 0" using sz avail_ge1 [of sz "length src" pos] by simp
    then show ?thesis using False
      by (simp add: fromfile1_def fromfile_def bnd_def Let_def raise_def)
  qed
qed

lemma rd_i1_Inr_iff: "rd_i1 src pos = (Inr v, p) \<longleftrightarrow>
    pos + 1 \<le> length src \<and> v = sint_of LE (bytes_at src pos 1) \<and> p = pos + 1"
  by (auto simp: rd_i1_def bnd_Inr_iff fromfile1_Inr_iff ret_Inr_iff)

lemma rd_i2_Inr_iff: "rd_i2 src co pos = (Inr v, p) \<longleftrightarrow>
    pos + 2 \<le> length src \<and> v = sint_of co (bytes_at src pos 2) \<and> p = pos + 2"
  by (auto simp: rd_i2_def bnd_Inr_iff fromfile1_Inr_iff ret_Inr_iff)

lemma rd_i4_Inr_iff: "rd_i4 src co pos = (Inr v, p) \<longleftrightarrow>
    pos + 4 \<le> length src \<and> v = sint_of co (bytes_at src pos 4) \<and> p = pos + 4"
  by (auto simp: rd_i4_def bnd_Inr_iff fromfile1_Inr_iff ret_Inr_iff)

lemma rd_f4_Inr_iff: "rd_f4 fp src co pos = (Inr v, p) \<longleftrightarrow>
    pos + 4 \<le> length src \<and> v = f4 fp (uint_of co (bytes_at src pos 4)) \<and> p = pos + 4"
  by (auto simp: rd_f4_def bnd_Inr_iff fromfile1_Inr_iff ret_Inr_iff)

lemma rd_f8_Inr_iff: "rd_f8 fp src co pos = (Inr v, p) \<longleftrightarrow>
    pos + 8 \<le> length src \<and> v = f8 fp (uint_of co (bytes_at src pos 8)) \<and> p = pos + 8"
  by (auto simp: rd_f8_def bnd_Inr_iff fromfile1_Inr_iff ret_Inr_iff)

lemma rd_str_Inr_iff: "rd_str src n chars pos = (Inr s, p) \<longleftrightarrow>
    decode_utf8 (rstrip (bytes_at src pos n) chars) = Inr s \<and> p = pos + min n (length src - pos)"
  by (auto simp: rd_str_def bnd_Inr_iff f_read_Inr_iff lift_Inr_iff)

lemmas rd_iffs = bnd_Inr_iff ret_Inr_iff raise_Inr_iff lift_Inr_iff if_raise_Inr_iff
  case_raise_Inr_iff f_read_Inr_iff f_seek_Inr_iff f_tell_Inr_iff rd_i1_Inr_iff rd_i2_Inr_iff
  rd_i4_Inr_iff rd_f4_Inr_iff rd_f8_Inr_iff rd_str_Inr_iff

lemma returns_iff: "returns r \<longleftrightarrow> (\<exists>a p. r = (Inr a, p))"
  by (cases r; cases "fst r") (auto simp: returns_def)

subsection \<open>Elimination rules, one for each kind of statement\<close>

text \<open>
  From a run of a statement and its continuation that returns: what the statement
  has read, and the run of the continuation. A string is read with \<^verbatim>\<open>read\<close>, which
  may come back short; that it did not is known from the read of a number after it.
\<close>

lemma E_find:
  "(case x of None \<Rightarrow> raise e | Some k \<Rightarrow> m k) pos = (Inr r, p) \<Longrightarrow>
   (\<And>k. x = Some k \<Longrightarrow> m k pos = (Inr r, p) \<Longrightarrow> R) \<Longrightarrow> R"
  by (auto simp: rd_iffs)

lemma E_lift:
  "bnd (lift x) F pos = (Inr r, p) \<Longrightarrow> (\<And>a. x = Inr a \<Longrightarrow> F a pos = (Inr r, p) \<Longrightarrow> R) \<Longrightarrow> R"
  by (auto simp: rd_iffs)

lemma E_enum:
  "bnd (enum_label T i) F pos = (Inr r, p) \<Longrightarrow>
   (\<And>a. py_getitem ''tuple'' T i = Inr a \<Longrightarrow> F a pos = (Inr r, p) \<Longrightarrow> R) \<Longrightarrow> R"
  by (auto simp: rd_iffs enum_label_def)

lemma E_let:
  "Let v F pos = (Inr r, p) \<Longrightarrow> (\<And>x. x = v \<Longrightarrow> F x pos = (Inr r, p) \<Longrightarrow> R) \<Longrightarrow> R"
  by simp

lemma E_seek:
  "bnd (f_seek k) F pos = (Inr r, p) \<Longrightarrow> (F () k = (Inr r, p) \<Longrightarrow> R) \<Longrightarrow> R"
  by (auto simp: rd_iffs)

lemma E_if:
  "(if c then raise e else m) pos = (Inr r, p) \<Longrightarrow> (\<not> c \<Longrightarrow> m pos = (Inr r, p) \<Longrightarrow> R) \<Longrightarrow> R"
  by (auto simp: rd_iffs)

lemma E_prod:
  "case_prod G a pos = (Inr r, p) \<Longrightarrow> (\<And>x y. a = (x, y) \<Longrightarrow> G x y pos = (Inr r, p) \<Longrightarrow> R) \<Longrightarrow> R"
  by (cases a) simp

lemma E_read:
  "bnd (f_read src n) F pos = (Inr r, p) \<Longrightarrow>
   (\<And>d q. d = bytes_at src pos n \<Longrightarrow> F d q = (Inr r, p) \<Longrightarrow> R) \<Longrightarrow> R"
  by (auto simp: rd_iffs)

lemma E_i1:
  "bnd (rd_i1 src) F pos = (Inr r, p) \<Longrightarrow>
   (\<And>v. v = sint_of LE (bytes_at src pos 1) \<Longrightarrow> F v (pos + 1) = (Inr r, p) \<Longrightarrow> R) \<Longrightarrow> R"
  by (auto simp: rd_iffs)

lemma E_i2:
  "bnd (rd_i2 src co) F pos = (Inr r, p) \<Longrightarrow>
   (\<And>v. v = sint_of co (bytes_at src pos 2) \<Longrightarrow> F v (pos + 2) = (Inr r, p) \<Longrightarrow> R) \<Longrightarrow> R"
  by (auto simp: rd_iffs)

lemma E_i4:
  "bnd (rd_i4 src co) F pos = (Inr r, p) \<Longrightarrow>
   (\<And>v. v = sint_of co (bytes_at src pos 4) \<Longrightarrow> F v (pos + 4) = (Inr r, p) \<Longrightarrow> R) \<Longrightarrow> R"
  by (auto simp: rd_iffs)

lemma E_f4:
  "bnd (rd_f4 fp src co) F pos = (Inr r, p) \<Longrightarrow>
   (\<And>v. v = f4 fp (uint_of co (bytes_at src pos 4)) \<Longrightarrow> F v (pos + 4) = (Inr r, p) \<Longrightarrow> R) \<Longrightarrow> R"
  by (auto simp: rd_iffs)

lemma E_f8:
  "bnd (rd_f8 fp src co) F pos = (Inr r, p) \<Longrightarrow>
   (\<And>v. v = f8 fp (uint_of co (bytes_at src pos 8)) \<Longrightarrow> F v (pos + 8) = (Inr r, p) \<Longrightarrow> R) \<Longrightarrow> R"
  by (auto simp: rd_iffs)

lemma E_i2_let:
  "bnd (rd_i2 src co) (\<lambda>v. Let (g v) (F v)) pos = (Inr r, p) \<Longrightarrow>
   (\<And>v x. pos + 2 \<le> length src \<Longrightarrow> v = sint_of co (bytes_at src pos 2) \<Longrightarrow> x = g v \<Longrightarrow>
      F v x (pos + 2) = (Inr r, p) \<Longrightarrow> R) \<Longrightarrow> R"
  by (auto simp: rd_iffs)

lemma E_ret3:
  "ret (a, b, c) pos = (Inr (a', b', c'), p) \<Longrightarrow>
   (a' = a \<Longrightarrow> b' = b \<Longrightarrow> c' = c \<Longrightarrow> p = pos \<Longrightarrow> R) \<Longrightarrow> R"
  by (auto simp: rd_iffs)

lemma min_fix: "pos + min n (L - pos) + m \<le> L \<Longrightarrow> 0 < m \<Longrightarrow> min n (L - pos) = (n::nat)"
  by (auto simp: min_def split: if_splits)

lemma E_str_if_i2:
  assumes H: "bnd (rd_str src n chars)
      (\<lambda>s. if c s then raise e else bnd (rd_i2 src co) (F s)) pos = (Inr r, p)"
    and R: "\<And>s v. decode_utf8 (rstrip (bytes_at src pos n) chars) = Inr s \<Longrightarrow> \<not> c s \<Longrightarrow>
      v = sint_of co (bytes_at src (pos + n) 2) \<Longrightarrow> F s v (pos + n + 2) = (Inr r, p) \<Longrightarrow> R"
  shows R
proof -
  from H obtain s where d: "decode_utf8 (rstrip (bytes_at src pos n) chars) = Inr s"
    and c: "\<not> c s"
    and le: "pos + min n (length src - pos) + 2 \<le> length src"
    and F: "F s (sint_of co (bytes_at src (pos + min n (length src - pos)) 2))
              (pos + min n (length src - pos) + 2) = (Inr r, p)"
    by (auto simp: rd_iffs)
  have m: "min n (length src - pos) = n" using le by (rule min_fix) simp
  show R using R [OF d c refl] F unfolding m by simp
qed

lemma E_str_i2:
  assumes H: "bnd (rd_str src n chars) (\<lambda>s. bnd (rd_i2 src co) (F s)) pos = (Inr r, p)"
    and R: "\<And>s v. decode_utf8 (rstrip (bytes_at src pos n) chars) = Inr s \<Longrightarrow>
      v = sint_of co (bytes_at src (pos + n) 2) \<Longrightarrow> F s v (pos + n + 2) = (Inr r, p) \<Longrightarrow> R"
  shows R
proof -
  from H obtain s where d: "decode_utf8 (rstrip (bytes_at src pos n) chars) = Inr s"
    and le: "pos + min n (length src - pos) + 2 \<le> length src"
    and F: "F s (sint_of co (bytes_at src (pos + min n (length src - pos)) 2))
              (pos + min n (length src - pos) + 2) = (Inr r, p)"
    by (auto simp: rd_iffs)
  have m: "min n (length src - pos) = n" using le by (rule min_fix) simp
  show R using R [OF d refl] F unfolding m by simp
qed

lemma E_str_i4:
  assumes H: "bnd (rd_str src n chars) (\<lambda>s. bnd (rd_i4 src co) (F s)) pos = (Inr r, p)"
    and R: "\<And>s v. decode_utf8 (rstrip (bytes_at src pos n) chars) = Inr s \<Longrightarrow>
      v = sint_of co (bytes_at src (pos + n) 4) \<Longrightarrow> F s v (pos + n + 4) = (Inr r, p) \<Longrightarrow> R"
  shows R
proof -
  from H obtain s where d: "decode_utf8 (rstrip (bytes_at src pos n) chars) = Inr s"
    and le: "pos + min n (length src - pos) + 4 \<le> length src"
    and F: "F s (sint_of co (bytes_at src (pos + min n (length src - pos)) 4))
              (pos + min n (length src - pos) + 4) = (Inr r, p)"
    by (auto simp: rd_iffs)
  have m: "min n (length src - pos) = n" using le by (rule min_fix) simp
  show R using R [OF d refl] F unfolding m by simp
qed

lemma E_str_str_f4:
  assumes H: "bnd (rd_str src n chars)
      (\<lambda>s. bnd (rd_str src n' chars') (\<lambda>t. bnd (rd_f4 fp src co) (F s t))) pos = (Inr r, p)"
    and R: "\<And>s t v. decode_utf8 (rstrip (bytes_at src pos n) chars) = Inr s \<Longrightarrow>
      decode_utf8 (rstrip (bytes_at src (pos + n) n') chars') = Inr t \<Longrightarrow>
      v = f4 fp (uint_of co (bytes_at src (pos + n + n') 4)) \<Longrightarrow>
      F s t v (pos + n + n' + 4) = (Inr r, p) \<Longrightarrow> R"
  shows R
proof -
  define q where "q = pos + min n (length src - pos)"
  from H obtain s t where d: "decode_utf8 (rstrip (bytes_at src pos n) chars) = Inr s"
    and d': "decode_utf8 (rstrip (bytes_at src q n') chars') = Inr t"
    and le: "q + min n' (length src - q) + 4 \<le> length src"
    and F: "F s t (f4 fp (uint_of co (bytes_at src (q + min n' (length src - q)) 4)))
              (q + min n' (length src - q) + 4) = (Inr r, p)"
    by (auto simp: rd_iffs q_def)
  have m': "min n' (length src - q) = n'" using le by (rule min_fix) simp
  have "pos + min n (length src - pos) + (n' + 4) \<le> length src"
    using le unfolding m' q_def by simp
  then have m: "min n (length src - pos) = n" by (rule min_fix) simp
  have q: "q = pos + n" by (simp add: q_def m)
  show R using R [OF d d' [unfolded q] refl] le F unfolding m' q by simp
qed

lemmas fields_E = E_str_if_i2 E_str_i2 E_str_i4 E_str_str_f4 E_i2_let E_read E_find E_enum
  E_lift E_let E_seek E_if E_ret3 E_prod E_i1 E_i2 E_i4 E_f4 E_f8

subsection \<open>Step rules, one for each kind of statement\<close>

text \<open>A statement that succeeds hands its value and the new position to its continuation.\<close>

lemma S_bnd: "m pos = (Inr a, q) \<Longrightarrow> bnd m F pos = F a q"
  by (simp add: bnd_def)

lemma S_read:
  "bnd (f_read src n) F pos = F (bytes_at src pos n) (pos + min n (length src - pos))"
  by (rule S_bnd) (simp add: f_read_Inr_iff)

lemma S_seek: "bnd (f_seek k) F pos = F () k"
  by (rule S_bnd) (simp add: f_seek_Inr_iff)

lemma S_tell: "bnd f_tell F pos = F pos pos"
  by (rule S_bnd) (simp add: f_tell_Inr_iff)

lemma S_lift: "bnd (lift (Inr a)) F pos = F a pos"
  by (rule S_bnd) (simp add: lift_Inr_iff)

lemma S_lift_err: "bnd (lift (Inl e)) F pos = (Inl e, pos)"
  by (simp add: bnd_def lift_def raise_def)

lemma S_enum:
  "py_getitem ''tuple'' T i = Inr a \<Longrightarrow> bnd (enum_label T i) F pos = F a pos"
  by (rule S_bnd) (simp add: enum_label_def lift_Inr_iff)

lemma S_enum_err:
  "py_getitem ''tuple'' T i = Inl e \<Longrightarrow> bnd (enum_label T i) F pos = (Inl e, pos)"
  by (simp add: enum_label_def bnd_def lift_def raise_def)

lemma S_i1: "pos + 1 \<le> length src \<Longrightarrow>
   bnd (rd_i1 src) F pos = F (sint_of LE (bytes_at src pos 1)) (pos + 1)"
  by (rule S_bnd) (simp add: rd_i1_Inr_iff)

lemma S_i2: "pos + 2 \<le> length src \<Longrightarrow>
   bnd (rd_i2 src co) F pos = F (sint_of co (bytes_at src pos 2)) (pos + 2)"
  by (rule S_bnd) (simp add: rd_i2_Inr_iff)

lemma S_i4: "pos + 4 \<le> length src \<Longrightarrow>
   bnd (rd_i4 src co) F pos = F (sint_of co (bytes_at src pos 4)) (pos + 4)"
  by (rule S_bnd) (simp add: rd_i4_Inr_iff)

lemma S_f4: "pos + 4 \<le> length src \<Longrightarrow>
   bnd (rd_f4 fp src co) F pos = F (f4 fp (uint_of co (bytes_at src pos 4))) (pos + 4)"
  by (rule S_bnd) (simp add: rd_f4_Inr_iff)

lemma S_f8: "pos + 8 \<le> length src \<Longrightarrow>
   bnd (rd_f8 fp src co) F pos = F (f8 fp (uint_of co (bytes_at src pos 8))) (pos + 8)"
  by (rule S_bnd) (simp add: rd_f8_Inr_iff)

lemma S_str:
  "pos + n \<le> length src \<Longrightarrow> decode_utf8 (rstrip (bytes_at src pos n) chars) = Inr s \<Longrightarrow>
   bnd (rd_str src n chars) F pos = F s (pos + n)"
  by (rule S_bnd) (simp add: rd_str_Inr_iff)

lemma returns_ret: "returns (ret x pos)"
  by (simp add: returns_def ret_def)

lemmas S_rules = S_read S_seek S_tell S_lift S_lift_err S_enum S_enum_err S_i1 S_i2 S_i4 S_f4 S_f8 S_str
  returns_ret

section \<open>The field sequence\<close>

lemma per_div_label_None: "per_div_label fp None i sh u = Inl (NameError ''divisions'')"
  by (simp add: per_div_label_def)

lemma timebase_label_Inr_iff:
  "timebase_label fp idx u = Inr (l, d) \<longleftrightarrow>
     (idx = 100 \<and> l = ''EXTERNAL'' \<and> d = None) \<or>
     (idx \<noteq> 100 \<and> d = Some [1, 2, 5] \<and> per_div_label fp (Some [1, 2, 5]) idx 12 u = Inr l)"
  by (auto simp: timebase_label_def Let_def split: sum.splits)

text \<open>
  What a run of the field sequence that returns says about the file: the block starts
  at the match \<open>k\<close> of \<^verbatim>\<open>WAVEDESC\<close> in the window, the sequence ends \<open>346\<close> bytes after
  \<open>k\<close>, and every field of the result is the value of its bytes in the file.
\<close>

lemma fields_inv:
  "ReadBinaryTrace_fields fp src 0 = (Inr (k, co, W), p) \<Longrightarrow>
   \<exists>d. py_find (bytes_at src 0 32) ''WAVEDESC'' = Some k \<and> p = k + 346 \<and> k + 346 \<le> length src
     \<and> FILE_SIZE W = int (from_bytes_little (py_slice (bytes_at src 0 32) 4 k)) + int k
     \<and> co = (if COMM_ORDER W = ''LOFIRST'' then LE else BE)
     \<and> COMM_ORDER_INDEX W = sint_of LE (bytes_at src (k + 34) 2)
     \<and> COMM_TYPE_INDEX W = sint_of co (bytes_at src (k + 32) 2)
     \<and> WAVE_DESCRIPTOR W = sint_of co (bytes_at src (k + 36) 4)
     \<and> USER_TEXT W = sint_of co (bytes_at src (k + 40) 4)
     \<and> WAVE_ARRAY_2 W = sint_of co (bytes_at src (k + 64) 4)
     \<and> WAVE_ARRAY_COUNT W = sint_of co (bytes_at src (k + 116) 4)
     \<and> SUBARRAY_COUNT W = sint_of co (bytes_at src (k + 144) 4)
     \<and> VERTICAL_GAIN W = f4 fp (uint_of co (bytes_at src (k + 156) 4))
     \<and> VERTICAL_OFFSET W = f4 fp (uint_of co (bytes_at src (k + 160) 4))
     \<and> HORIZ_INTERVAL W = f4 fp (uint_of co (bytes_at src (k + 176) 4))
     \<and> HORIZ_OFFSET W = f8 fp (uint_of co (bytes_at src (k + 180) 8))
     \<and> TIMEBASE_INDEX W = sint_of co (bytes_at src (k + 324) 2)
     \<and> FIXED_VERT_GAIN_INDEX W = sint_of co (bytes_at src (k + 332) 2)
     \<and> RECORD_TYPE_INDEX W = sint_of co (bytes_at src (k + 316) 2)
     \<and> PROCESSING_DONE_INDEX W = sint_of co (bytes_at src (k + 318) 2)
     \<and> VERT_COUPLING_INDEX W = sint_of co (bytes_at src (k + 326) 2)
     \<and> BANDWIDTH_LIMIT_INDEX W = sint_of co (bytes_at src (k + 334) 2)
     \<and> py_getitem ''tuple'' COMM_ORDER_table (COMM_ORDER_INDEX W) = Inr (COMM_ORDER W)
     \<and> py_getitem ''tuple'' COMM_TYPE_table (COMM_TYPE_INDEX W) = Inr (COMM_TYPE W)
     \<and> py_getitem ''tuple'' RECORD_TYPE_table (RECORD_TYPE_INDEX W) = Inr (RECORD_TYPE W)
     \<and> py_getitem ''tuple'' PROCESSING_DONE_table (PROCESSING_DONE_INDEX W) = Inr (PROCESSING_DONE W)
     \<and> py_getitem ''tuple'' VERT_COUPLING_table (VERT_COUPLING_INDEX W) = Inr (VERT_COUPLING W)
     \<and> py_getitem ''tuple'' BANDWIDTH_LIMIT_table (BANDWIDTH_LIMIT_INDEX W) = Inr (BANDWIDTH_LIMIT W)
     \<and> timebase_label fp (TIMEBASE_INDEX W) (HORUNIT W) = Inr (TIMEBASE W, d)
     \<and> per_div_label fp d (FIXED_VERT_GAIN_INDEX W) 6 (VERTUNIT W) = Inr (FIXED_VERT_GAIN W)
     \<and> decode_utf8 (rstrip (py_slice (bytes_at src 0 32) k (k + 16)) b_0x00) = Inr (DESCRIPTOR_NAME W)
     \<and> decode_utf8 (rstrip (bytes_at src (k + 16) 16) b_0x00) = Inr (TEMPLATE_NAME W)
     \<and> TEMPLATE_NAME W = ''LECROY_2_3''
     \<and> decode_utf8 (rstrip (bytes_at src (k + 76) 16) b_x00) = Inr (INSTRUMENT_NAME W)
     \<and> decode_utf8 (rstrip (bytes_at src (k + 96) 16) b_x00) = Inr (TRACE_LABEL W)
     \<and> decode_utf8 (rstrip (bytes_at src (k + 196) 48) b_0x00) = Inr (VERTUNIT W)
     \<and> decode_utf8 (rstrip (bytes_at src (k + 244) 48) b_0x00) = Inr (HORUNIT W)"
  apply (simp only: ReadBinaryTrace_fields_def)
  apply (elim fields_E)
  apply (clarsimp simp: add.commute split del: if_split)
  done

text \<open>
  The time base of a returned field sequence is never \<^verbatim>\<open>EXTERNAL\<close>, and the two labels
  are computed with the table \<open>(1,2,5)\<close>.
\<close>

lemma fields_labels:
  assumes "ReadBinaryTrace_fields fp src 0 = (Inr (k, co, W), p)"
  shows "TIMEBASE_INDEX W \<noteq> 100"
    and "per_div_label fp (Some [1, 2, 5]) (TIMEBASE_INDEX W) 12 (HORUNIT W) = Inr (TIMEBASE W)"
    and "per_div_label fp (Some [1, 2, 5]) (FIXED_VERT_GAIN_INDEX W) 6 (VERTUNIT W)
           = Inr (FIXED_VERT_GAIN W)"
proof -
  from fields_inv [OF assms] obtain d
    where tb: "timebase_label fp (TIMEBASE_INDEX W) (HORUNIT W) = Inr (TIMEBASE W, d)"
      and fg: "per_div_label fp d (FIXED_VERT_GAIN_INDEX W) 6 (VERTUNIT W) = Inr (FIXED_VERT_GAIN W)"
    by blast
  have d: "d \<noteq> None" using fg by (cases d) (simp_all add: per_div_label_None)
  from tb d show "TIMEBASE_INDEX W \<noteq> 100" by (auto simp: timebase_label_Inr_iff)
  from tb d show "per_div_label fp (Some [1, 2, 5]) (TIMEBASE_INDEX W) 12 (HORUNIT W)
      = Inr (TIMEBASE W)"
    by (auto simp: timebase_label_Inr_iff)
  from tb d have "d = Some [1, 2, 5]" by (auto simp: timebase_label_Inr_iff)
  with fg show "per_div_label fp (Some [1, 2, 5]) (FIXED_VERT_GAIN_INDEX W) 6 (VERTUNIT W)
      = Inr (FIXED_VERT_GAIN W)"
    by simp
qed

text \<open>
  The converse: the conditions on the file under which the field sequence returns.
\<close>

lemma fields_returns:
  assumes k: "py_find (bytes_at src 0 32) ''WAVEDESC'' = Some k"
    and len: "k + 346 \<le> length src"
    and dn: "decode_utf8 (rstrip (py_slice (bytes_at src 0 32) k (k + 16)) b_0x00) = Inr dn"
    and ord: "py_getitem ''tuple'' COMM_ORDER_table (sint_of LE (bytes_at src (k + 34) 2)) = Inr ordl"
    and co: "(if ordl = ''LOFIRST'' then LE else BE) = co"
    and tn: "decode_utf8 (rstrip (bytes_at src (k + 16) 16) b_0x00) = Inr ''LECROY_2_3''"
    and ct: "py_getitem ''tuple'' COMM_TYPE_table (sint_of co (bytes_at src (k + 32) 2)) = Inr ctl"
    and inn: "decode_utf8 (rstrip (bytes_at src (k + 76) 16) b_x00) = Inr iname"
    and trl: "decode_utf8 (rstrip (bytes_at src (k + 96) 16) b_x00) = Inr tlabel"
    and vu: "decode_utf8 (rstrip (bytes_at src (k + 196) 48) b_0x00) = Inr vunit"
    and hu: "decode_utf8 (rstrip (bytes_at src (k + 244) 48) b_0x00) = Inr hunit"
    and rt: "py_getitem ''tuple'' RECORD_TYPE_table (sint_of co (bytes_at src (k + 316) 2)) = Inr rtl"
    and pd: "py_getitem ''tuple'' PROCESSING_DONE_table (sint_of co (bytes_at src (k + 318) 2)) = Inr pdl"
    and tb: "timebase_label fp (sint_of co (bytes_at src (k + 324) 2)) hunit = Inr (tbl, d)"
    and vc: "py_getitem ''tuple'' VERT_COUPLING_table (sint_of co (bytes_at src (k + 326) 2)) = Inr vcl"
    and fg: "per_div_label fp d (sint_of co (bytes_at src (k + 332) 2)) 6 vunit = Inr fgl"
    and bw: "py_getitem ''tuple'' BANDWIDTH_LIMIT_table (sint_of co (bytes_at src (k + 334) 2)) = Inr bwl"
  shows "returns (ReadBinaryTrace_fields fp src 0)"
  using assms
  apply (simp only: ReadBinaryTrace_fields_def)
  apply (simp add: S_rules Let_def add.commute raise_def
      cong: bnd_weak_cong case_prod_weak_cong split del: if_split)
  done

text \<open>
  The same file with the time base code 100: the field sequence stops at the label of
  the fixed vertical gain with the NameError of the unbound \<^verbatim>\<open>divisions\<close>.
\<close>

lemma fields_external:
  assumes k: "py_find (bytes_at src 0 32) ''WAVEDESC'' = Some k"
    and len: "k + 346 \<le> length src"
    and dn: "decode_utf8 (rstrip (py_slice (bytes_at src 0 32) k (k + 16)) b_0x00) = Inr dn"
    and ord: "py_getitem ''tuple'' COMM_ORDER_table (sint_of LE (bytes_at src (k + 34) 2)) = Inr ordl"
    and co: "(if ordl = ''LOFIRST'' then LE else BE) = co"
    and tn: "decode_utf8 (rstrip (bytes_at src (k + 16) 16) b_0x00) = Inr ''LECROY_2_3''"
    and ct: "py_getitem ''tuple'' COMM_TYPE_table (sint_of co (bytes_at src (k + 32) 2)) = Inr ctl"
    and inn: "decode_utf8 (rstrip (bytes_at src (k + 76) 16) b_x00) = Inr iname"
    and trl: "decode_utf8 (rstrip (bytes_at src (k + 96) 16) b_x00) = Inr tlabel"
    and vu: "decode_utf8 (rstrip (bytes_at src (k + 196) 48) b_0x00) = Inr vunit"
    and hu: "decode_utf8 (rstrip (bytes_at src (k + 244) 48) b_0x00) = Inr hunit"
    and rt: "py_getitem ''tuple'' RECORD_TYPE_table (sint_of co (bytes_at src (k + 316) 2)) = Inr rtl"
    and pd: "py_getitem ''tuple'' PROCESSING_DONE_table (sint_of co (bytes_at src (k + 318) 2)) = Inr pdl"
    and tb: "sint_of co (bytes_at src (k + 324) 2) = 100"
    and vc: "py_getitem ''tuple'' VERT_COUPLING_table (sint_of co (bytes_at src (k + 326) 2)) = Inr vcl"
  shows "ReadBinaryTrace_fields fp src 0 = (Inl (NameError ''divisions''), k + 334)"
  using assms
  apply (simp only: ReadBinaryTrace_fields_def)
  apply (simp add: S_rules Let_def add.commute raise_def timebase_label_def per_div_label_None
      cong: bnd_weak_cong case_prod_weak_cong split del: if_split)
  done

subsection \<open>The sanity check\<close>

lemma header_Inr_iff:
  "ReadBinaryTrace_header fp src pos = (Inr (co, W), p) \<longleftrightarrow>
     (\<exists>k. ReadBinaryTrace_fields fp src pos = (Inr (k, co, W), p) \<and>
          int p - int k = WAVE_DESCRIPTOR W)"
  by (auto simp: ReadBinaryTrace_header_def rd_iffs Let_def)

lemma header_mismatch:
  "ReadBinaryTrace_fields fp src pos = (Inr (k, co, W), p) \<Longrightarrow>
   int p - int k \<noteq> WAVE_DESCRIPTOR W \<Longrightarrow>
   ReadBinaryTrace_header fp src pos = (Inl HeaderLengthMismatch, p)"
  by (simp add: ReadBinaryTrace_header_def bnd_def f_tell_def raise_def)

lemma run_header_error:
  "ReadBinaryTrace_header fp src 0 = (Inl e, p) \<Longrightarrow> ReadBinaryTrace_run fp src 0 = (Inl e, p)"
  by (simp add: ReadBinaryTrace_run_def bnd_def)

lemma header_fields_error:
  "ReadBinaryTrace_fields fp src 0 = (Inl e, p) \<Longrightarrow> ReadBinaryTrace_header fp src 0 = (Inl e, p)"
  by (simp add: ReadBinaryTrace_header_def bnd_def)

lemma run_Inr_iff:
  "ReadBinaryTrace_run fp src 0 = (Inr (W, T, x, y1, y2), q') \<longleftrightarrow>
     (\<exists>co p q. ReadBinaryTrace_header fp src 0 = (Inr (co, W), p) \<and>
        ReadBinaryTrace_text src W p = (Inr T, q) \<and>
        ReadBinaryTrace_waveforms fp src co W q = (Inr (x, y1, y2), q'))"
  by (auto simp: ReadBinaryTrace_run_def rd_iffs)

lemma ReadBinaryTrace_Inr_iff:
  "ReadBinaryTrace fp src = Inr (W, T, x, y1, y2) \<longleftrightarrow>
     (\<exists>q'. ReadBinaryTrace_run fp src 0 = (Inr (W, T, x, y1, y2), q'))"
  by (cases "ReadBinaryTrace_run fp src 0") (auto simp: ReadBinaryTrace_def)

section \<open>The waveforms\<close>

subsection \<open>Reading an array\<close>

text \<open>With enough bytes in the file, \<^verbatim>\<open>np.fromfile\<close> yields exactly \<open>count\<close> items.\<close>

lemma fromfile_enough:
  assumes c: "0 \<le> count" and sz: "0 < sz" and le: "pos + nat count * sz \<le> length src"
  shows "fromfile src sz count pos =
    (Inr (map (\<lambda>j. bytes_at src (pos + j * sz) sz) [0..<nat count]), pos + nat count * sz)"
proof -
  from le have "nat count * sz \<le> length src - pos" by simp
  then have "nat count \<le> (length src - pos) div sz"
    using sz by (simp add: less_eq_div_iff_mult_less_eq)
  then have m: "min (nat count) ((length src - pos) div sz) = nat count" by simp
  from le have m2: "min (nat count * sz) (length src - pos) = nat count * sz" by simp
  show ?thesis using c by (simp add: fromfile_def Let_def m m2)
qed

lemma bytes_at_take: "m \<le> n \<Longrightarrow> take m (bytes_at src a n) = bytes_at src a m"
  by (simp add: bytes_at_def min_def)

lemma bytes_at_drop: "m \<le> n \<Longrightarrow> drop m (bytes_at src a n) = bytes_at src (a + m) (n - m)"
  by (simp add: bytes_at_def drop_take add.commute)

subsection \<open>The time rows of a sequence\<close>

text \<open>
  After the loop over the segments, row \<open>r\<close> of the time array holds the time axis of
  segment \<open>r\<close>: the assignment to \<^verbatim>\<open>x[i:]\<close> also writes the rows after \<open>i\<close>, and each of
  them is overwritten when its turn comes.
\<close>

lemma trig_rows_from:
  assumes "length x = S" and "S \<le> length tt" and "S \<le> length to" and "i \<le> S"
  shows "trig_rows fp npts h tt to [i..<S] x =
    Inr (take i x @ map (\<lambda>r. time_axis fp npts h (fadd fp (tt ! r) (to ! r))) [i..<S])"
  using assms
proof (induction "S - i" arbitrary: i x)
  case 0
  then show ?case by simp
next
  case (Suc d)
  let ?row = "\<lambda>r. time_axis fp npts h (fadd fp (tt ! r) (to ! r))"
  let ?x' = "take i x @ replicate (length x - i) (?row i)"
  from Suc have i: "i < S" by simp
  then have upt: "[i..<S] = i # [Suc i..<S]" by (simp add: upt_conv_Cons)
  have len: "length ?x' = S" using Suc.prems i by simp
  have d: "d = S - Suc i" using Suc.hyps by simp
  have IH: "trig_rows fp npts h tt to [Suc i..<S] ?x' =
      Inr (take (Suc i) ?x' @ map ?row [Suc i..<S])"
    using Suc.hyps(1) [OF d len Suc.prems(2) Suc.prems(3)] i by simp
  have tk: "take (Suc i) ?x' = take i x @ [?row i]"
    using Suc.prems i by (simp add: take_Suc_conv_app_nth min_def)
  have step: "trig_rows fp npts h tt to [i..<S] x = trig_rows fp npts h tt to [Suc i..<S] ?x'"
    using Suc.prems i by (simp add: upt Let_def)
  have "trig_rows fp npts h tt to [i..<S] x = Inr (take i x @ [?row i] @ map ?row [Suc i..<S])"
    unfolding step IH tk by simp
  then show ?case by (simp add: upt)
qed

lemma trig_rows_all:
  assumes "length x = S" and "S \<le> length tt" and "S \<le> length to"
  shows "trig_rows fp npts h tt to [0..<S] x =
    Inr (map (\<lambda>r. time_axis fp npts h (fadd fp (tt ! r) (to ! r))) [0..<S])"
  using trig_rows_from [OF assms, of 0] by simp

subsection \<open>Reshaping\<close>

lemma take_drop_map_upt:
  assumes "i < rows"
  shows "take c (drop (i * c) (map f [0..<rows * c])) = map (\<lambda>j. f (i * c + j)) [0..<c]"
proof -
  from assms have "Suc i \<le> rows" by simp
  then have "Suc i * c \<le> rows * c" by (rule mult_le_mono1)
  then have le: "i * c + c \<le> rows * c" by (simp add: add.commute)
  have "take c (drop (i * c) (map f [0..<rows * c])) = map f (take c [i * c..<rows * c])"
    by (simp add: drop_map take_map)
  also have "take c [i * c..<rows * c] = [i * c..<i * c + c]"
    using le by (simp add: take_upt)
  also have "[i * c..<i * c + c] = map (\<lambda>j. j + i * c) [0..<c]"
    by (simp add: map_add_upt add.commute)
  finally show ?thesis by (simp add: comp_def add.commute)
qed

lemma reshape2_map:
  "reshape2 (map f [0..<rows * c]) rows c =
     Inr (map (\<lambda>i. map (\<lambda>j. f (i * c + j)) [0..<c]) [0..<rows])"
  by (simp add: reshape2_def take_drop_map_upt)

subsection \<open>The two branches\<close>

lemma waveforms_single:
  assumes sc: "SUBARRAY_COUNT W \<le> 1" and c: "0 \<le> WAVE_ARRAY_COUNT W"
    and sz: "sz = (if COMM_TYPE_INDEX W = 0 then 1 else 2)"
    and n: "n = nat (WAVE_ARRAY_COUNT W)"
    and le: "q + (if WAVE_ARRAY_2 W > 0 then 2 else 1) * n * sz \<le> length src"
  shows "ReadBinaryTrace_waveforms fp src co W q =
    (Inr (Arr1 (time_axis fp (WAVE_ARRAY_COUNT W) (HORIZ_INTERVAL W) (HORIZ_OFFSET W)),
          Arr1 (map (\<lambda>j. scale fp (VERTICAL_GAIN W) (VERTICAL_OFFSET W)
                        (sint_of co (bytes_at src (q + j * sz) sz))) [0..<n]),
          Arr1 (if WAVE_ARRAY_2 W > 0
                then map (\<lambda>j. scale fp (VERTICAL_GAIN W) (VERTICAL_OFFSET W)
                        (sint_of co (bytes_at src (q + n * sz + j * sz) sz))) [0..<n]
                else [])),
     q + (if WAVE_ARRAY_2 W > 0 then 2 else 1) * n * sz)"
proof -
  have sz0: "0 < sz" using sz by simp
  have le1: "q + nat (WAVE_ARRAY_COUNT W) * sz \<le> length src"
    using le n by (auto split: if_splits)
  note f1 = fromfile_enough [OF c sz0 le1]
  show ?thesis
  proof (cases "WAVE_ARRAY_2 W > 0")
    case True
    then have "q + nat (WAVE_ARRAY_COUNT W) * sz + nat (WAVE_ARRAY_COUNT W) * sz \<le> length src"
      using le n by simp
    note f2 = fromfile_enough [OF c sz0 this]
    show ?thesis
      using sc True f1 f2 sz n
      by (auto simp: ReadBinaryTrace_waveforms_def bnd_def ret_def Let_def comp_def)
  next
    case False
    show ?thesis
      using sc False f1 sz n
      by (auto simp: ReadBinaryTrace_waveforms_def bnd_def ret_def Let_def comp_def)
  qed
qed

lemma waveforms_segmented:
  assumes sc: "1 < SUBARRAY_COUNT W" and dv: "WAVE_ARRAY_COUNT W mod SUBARRAY_COUNT W = 0"
    and c: "0 \<le> WAVE_ARRAY_COUNT W"
    and sz: "sz = (if COMM_TYPE_INDEX W = 0 then 1 else 2)"
    and S: "S = nat (SUBARRAY_COUNT W)"
    and np: "npts = nat (WAVE_ARRAY_COUNT W div SUBARRAY_COUNT W)"
    and le: "q + 16 * S + S * npts * sz \<le> length src"
  shows "ReadBinaryTrace_waveforms fp src co W q =
    (Inr (Arr2 (map (\<lambda>i. time_axis fp (int npts) (HORIZ_INTERVAL W)
                     (fadd fp (f8 fp (uint_of co (bytes_at src (q + i * 16) 8)))
                              (f8 fp (uint_of co (bytes_at src (q + i * 16 + 8) 8))))) [0..<S]),
          Arr2 (map (\<lambda>i. map (\<lambda>j. scale fp (VERTICAL_GAIN W) (VERTICAL_OFFSET W)
                     (sint_of co (bytes_at src (q + S * 16 + (i * npts + j) * sz) sz))) [0..<npts])
                  [0..<S]),
          Arr1 []),
     q + S * 16 + S * npts * sz)"
proof -
  have sz0: "0 < sz" using sz by simp
  have S0: "0 \<le> SUBARRAY_COUNT W" using sc by simp
  have npts0: "0 \<le> WAVE_ARRAY_COUNT W div SUBARRAY_COUNT W"
    using c sc by (simp add: pos_imp_zdiv_nonneg_iff)
  have "WAVE_ARRAY_COUNT W = SUBARRAY_COUNT W * (WAVE_ARRAY_COUNT W div SUBARRAY_COUNT W)"
    using dv by (simp add: mod_eq_0_iff_dvd)
  then have "nat (WAVE_ARRAY_COUNT W) =
      nat (SUBARRAY_COUNT W) * nat (WAVE_ARRAY_COUNT W div SUBARRAY_COUNT W)"
    using S0 npts0 by (metis nat_mult_distrib)
  then have cnt: "nat (WAVE_ARRAY_COUNT W) = S * npts" using S np by simp
  have le16: "q + nat (SUBARRAY_COUNT W) * 16 \<le> length src" using le S by simp
  have f1: "fromfile src 16 (SUBARRAY_COUNT W) q =
      (Inr (map (\<lambda>j. bytes_at src (q + j * 16) 16) [0..<S]), q + S * 16)"
    using fromfile_enough [OF S0 _ le16] S by simp
  have le2: "q + S * 16 + nat (WAVE_ARRAY_COUNT W) * sz \<le> length src"
    using le cnt by (simp add: mult.commute add.commute)
  have f2: "fromfile src sz (WAVE_ARRAY_COUNT W) (q + S * 16) =
      (Inr (map (\<lambda>j. bytes_at src (q + S * 16 + j * sz) sz) [0..<S * npts]),
       q + S * 16 + S * npts * sz)"
    using fromfile_enough [OF c sz0 le2] cnt by simp
  have z: "np_zeros2 fp (SUBARRAY_COUNT W) (WAVE_ARRAY_COUNT W div SUBARRAY_COUNT W) (q + S * 16) =
      (Inr (replicate S (replicate npts (of_int_f fp 0))), q + S * 16)"
    using npts0 S np by (simp add: np_zeros2_def ret_def)
  have tr: "trig_rows fp (WAVE_ARRAY_COUNT W div SUBARRAY_COUNT W) (HORIZ_INTERVAL W)
      (map (\<lambda>r. f8 fp (uint_of co (take 8 r))) (map (\<lambda>j. bytes_at src (q + j * 16) 16) [0..<S]))
      (map (\<lambda>r. f8 fp (uint_of co (drop 8 r))) (map (\<lambda>j. bytes_at src (q + j * 16) 16) [0..<S]))
      [0..<S] (replicate S (replicate npts (of_int_f fp 0))) =
    Inr (map (\<lambda>i. time_axis fp (int npts) (HORIZ_INTERVAL W)
                     (fadd fp (f8 fp (uint_of co (bytes_at src (q + i * 16) 8)))
                              (f8 fp (uint_of co (bytes_at src (q + i * 16 + 8) 8))))) [0..<S])"
    using npts0 np
    by (subst trig_rows_all [where S = S]) (simp_all add: bytes_at_take bytes_at_drop)
  have rs: "reshape2 (map (sint_of co) (map (\<lambda>j. bytes_at src (q + S * 16 + j * sz) sz) [0..<S * npts]))
      S npts =
    Inr (map (\<lambda>i. map (\<lambda>j. sint_of co (bytes_at src (q + S * 16 + (i * npts + j) * sz) sz)) [0..<npts])
          [0..<S])"
    using reshape2_map [of "\<lambda>j. sint_of co (bytes_at src (q + S * 16 + j * sz) sz)" S npts]
    by (simp add: comp_def)
  show ?thesis
  proof (cases "COMM_TYPE_INDEX W = 0")
    case True
    with sz have sz1: "sz = 1" by simp
    show ?thesis
      using sc dv True f1 f2 z tr unfolding sz1
      by (simp add: ReadBinaryTrace_waveforms_def Let_def bnd_def lift_def ret_def reshape2_map
          comp_def S [symmetric] np [symmetric])
  next
    case False
    with sz have sz2: "sz = 2" by simp
    show ?thesis
      using sc dv False f1 f2 z tr unfolding sz2
      by (simp add: ReadBinaryTrace_waveforms_def Let_def bnd_def lift_def ret_def reshape2_map
          comp_def S [symmetric] np [symmetric])
  qed
qed

lemma text_none: "USER_TEXT W \<le> 0 \<Longrightarrow> ReadBinaryTrace_text src W p = (Inr [], p)"
  by (simp add: ReadBinaryTrace_text_def ret_def)

lemma text_Inr: "\<exists>T q. ReadBinaryTrace_text src W p = (Inr T, q)"
  by (simp add: ReadBinaryTrace_text_def ret_def f_read_def Let_def)

lemma run_steps:
  "ReadBinaryTrace_header fp src 0 = (Inr (co, W), p) \<Longrightarrow>
   ReadBinaryTrace_text src W p = (Inr T, q) \<Longrightarrow>
   ReadBinaryTrace_run fp src 0 =
     (case ReadBinaryTrace_waveforms fp src co W q of
        (Inl e, q') \<Rightarrow> (Inl e, q')
      | (Inr (x, y1, y2), q') \<Rightarrow> (Inr (W, T, x, y1, y2), q'))"
  by (simp add: ReadBinaryTrace_run_def bnd_def ret_def split: prod.splits sum.splits)

section \<open>The decode call\<close>

subsection \<open>From the steps to the call\<close>

lemma decode_fields_error:
  "ReadBinaryTrace_fields fp src 0 = (Inl e, p) \<Longrightarrow> ReadBinaryTrace fp src = Inl e"
  by (simp add: ReadBinaryTrace_def run_header_error [OF header_fields_error])

lemma decode_header_error:
  "ReadBinaryTrace_header fp src 0 = (Inl e, p) \<Longrightarrow> ReadBinaryTrace fp src = Inl e"
  by (simp add: ReadBinaryTrace_def run_header_error)

lemma decode_Inr_D:
  "ReadBinaryTrace fp src = Inr (W, T, x, y1, y2) \<Longrightarrow>
   \<exists>k co p q q'. ReadBinaryTrace_fields fp src 0 = (Inr (k, co, W), p)
     \<and> int p - int k = WAVE_DESCRIPTOR W
     \<and> ReadBinaryTrace_header fp src 0 = (Inr (co, W), p)
     \<and> ReadBinaryTrace_text src W p = (Inr T, q)
     \<and> ReadBinaryTrace_waveforms fp src co W q = (Inr (x, y1, y2), q')"
  by (auto simp: ReadBinaryTrace_Inr_iff run_Inr_iff header_Inr_iff)

lemma decode_steps:
  "ReadBinaryTrace_header fp src 0 = (Inr (co, W), p) \<Longrightarrow>
   ReadBinaryTrace_text src W p = (Inr T, q) \<Longrightarrow>
   ReadBinaryTrace_waveforms fp src co W q = (Inr (x, y1, y2), q') \<Longrightarrow>
   ReadBinaryTrace fp src = Inr (W, T, x, y1, y2)"
  by (simp add: ReadBinaryTrace_def run_steps)

lemma decode_waveforms_error:
  "ReadBinaryTrace_header fp src 0 = (Inr (co, W), p) \<Longrightarrow>
   ReadBinaryTrace_text src W p = (Inr T, q) \<Longrightarrow>
   ReadBinaryTrace_waveforms fp src co W q = (Inl e, q') \<Longrightarrow>
   ReadBinaryTrace fp src = Inl e"
  by (simp add: ReadBinaryTrace_def run_steps)

lemma text_position:
  "ReadBinaryTrace_text src W p = (Inr T, q) \<Longrightarrow> USER_TEXT W \<le> 0 \<Longrightarrow> T = [] \<and> q = p"
  by (simp add: text_none)

subsection \<open>An enum code out of range\<close>

text \<open>
  When the statements before the look-up of an enum field succeed and the look-up
  raises, the field sequence ends with that exception, just after the code.
\<close>

lemma enum_err_order:
  assumes k: "py_find (bytes_at src 0 32) ''WAVEDESC'' = Some k"
    and len: "k + 346 \<le> length src"
    and dn: "decode_utf8 (rstrip (py_slice (bytes_at src 0 32) k (k + 16)) b_0x00) = Inr dn"
    and err: "py_getitem ''tuple'' COMM_ORDER_table (sint_of LE (bytes_at src (k + 34) 2)) = Inl e"
  shows "ReadBinaryTrace_fields fp src 0 = (Inl e, k + 36)"
  using assms
  apply (simp only: ReadBinaryTrace_fields_def)
  apply (simp add: S_rules Let_def add.commute raise_def
      cong: bnd_weak_cong case_prod_weak_cong split del: if_split)
  done

lemma enum_err_type:
  assumes k: "py_find (bytes_at src 0 32) ''WAVEDESC'' = Some k"
    and len: "k + 346 \<le> length src"
    and dn: "decode_utf8 (rstrip (py_slice (bytes_at src 0 32) k (k + 16)) b_0x00) = Inr dn"
    and ord: "py_getitem ''tuple'' COMM_ORDER_table (sint_of LE (bytes_at src (k + 34) 2)) = Inr ordl"
    and co: "(if ordl = ''LOFIRST'' then LE else BE) = co"
    and tn: "decode_utf8 (rstrip (bytes_at src (k + 16) 16) b_0x00) = Inr ''LECROY_2_3''"
    and err: "py_getitem ''tuple'' COMM_TYPE_table (sint_of co (bytes_at src (k + 32) 2)) = Inl e"
  shows "ReadBinaryTrace_fields fp src 0 = (Inl e, k + 34)"
  using assms
  apply (simp only: ReadBinaryTrace_fields_def)
  apply (simp add: S_rules Let_def add.commute raise_def
      cong: bnd_weak_cong case_prod_weak_cong split del: if_split)
  done

lemma enum_err_record:
  assumes k: "py_find (bytes_at src 0 32) ''WAVEDESC'' = Some k"
    and len: "k + 346 \<le> length src"
    and dn: "decode_utf8 (rstrip (py_slice (bytes_at src 0 32) k (k + 16)) b_0x00) = Inr dn"
    and ord: "py_getitem ''tuple'' COMM_ORDER_table (sint_of LE (bytes_at src (k + 34) 2)) = Inr ordl"
    and co: "(if ordl = ''LOFIRST'' then LE else BE) = co"
    and tn: "decode_utf8 (rstrip (bytes_at src (k + 16) 16) b_0x00) = Inr ''LECROY_2_3''"
    and ct: "py_getitem ''tuple'' COMM_TYPE_table (sint_of co (bytes_at src (k + 32) 2)) = Inr ctl"
    and inn: "decode_utf8 (rstrip (bytes_at src (k + 76) 16) b_x00) = Inr iname"
    and trl: "decode_utf8 (rstrip (bytes_at src (k + 96) 16) b_x00) = Inr tlabel"
    and vu: "decode_utf8 (rstrip (bytes_at src (k + 196) 48) b_0x00) = Inr vunit"
    and hu: "decode_utf8 (rstrip (bytes_at src (k + 244) 48) b_0x00) = Inr hunit"
    and err: "py_getitem ''tuple'' RECORD_TYPE_table (sint_of co (bytes_at src (k + 316) 2)) = Inl e"
  shows "ReadBinaryTrace_fields fp src 0 = (Inl e, k + 318)"
  using assms
  apply (simp only: ReadBinaryTrace_fields_def)
  apply (simp add: S_rules Let_def add.commute raise_def
      cong: bnd_weak_cong case_prod_weak_cong split del: if_split)
  done

lemma enum_err_processing:
  assumes k: "py_find (bytes_at src 0 32) ''WAVEDESC'' = Some k"
    and len: "k + 346 \<le> length src"
    and dn: "decode_utf8 (rstrip (py_slice (bytes_at src 0 32) k (k + 16)) b_0x00) = Inr dn"
    and ord: "py_getitem ''tuple'' COMM_ORDER_table (sint_of LE (bytes_at src (k + 34) 2)) = Inr ordl"
    and co: "(if ordl = ''LOFIRST'' then LE else BE) = co"
    and tn: "decode_utf8 (rstrip (bytes_at src (k + 16) 16) b_0x00) = Inr ''LECROY_2_3''"
    and ct: "py_getitem ''tuple'' COMM_TYPE_table (sint_of co (bytes_at src (k + 32) 2)) = Inr ctl"
    and inn: "decode_utf8 (rstrip (bytes_at src (k + 76) 16) b_x00) = Inr iname"
    and trl: "decode_utf8 (rstrip (bytes_at src (k + 96) 16) b_x00) = Inr tlabel"
    and vu: "decode_utf8 (rstrip (bytes_at src (k + 196) 48) b_0x00) = Inr vunit"
    and hu: "decode_utf8 (rstrip (bytes_at src (k + 244) 48) b_0x00) = Inr hunit"
    and rt: "py_getitem ''tuple'' RECORD_TYPE_table (sint_of co (bytes_at src (k + 316) 2)) = Inr rtl"
    and err: "py_getitem ''tuple'' PROCESSING_DONE_table (sint_of co (bytes_at src (k + 318) 2)) = Inl e"
  shows "ReadBinaryTrace_fields fp src 0 = (Inl e, k + 320)"
  using assms
  apply (simp only: ReadBinaryTrace_fields_def)
  apply (simp add: S_rules Let_def add.commute raise_def
      cong: bnd_weak_cong case_prod_weak_cong split del: if_split)
  done

lemma enum_err_coupling:
  assumes k: "py_find (bytes_at src 0 32) ''WAVEDESC'' = Some k"
    and len: "k + 346 \<le> length src"
    and dn: "decode_utf8 (rstrip (py_slice (bytes_at src 0 32) k (k + 16)) b_0x00) = Inr dn"
    and ord: "py_getitem ''tuple'' COMM_ORDER_table (sint_of LE (bytes_at src (k + 34) 2)) = Inr ordl"
    and co: "(if ordl = ''LOFIRST'' then LE else BE) = co"
    and tn: "decode_utf8 (rstrip (bytes_at src (k + 16) 16) b_0x00) = Inr ''LECROY_2_3''"
    and ct: "py_getitem ''tuple'' COMM_TYPE_table (sint_of co (bytes_at src (k + 32) 2)) = Inr ctl"
    and inn: "decode_utf8 (rstrip (bytes_at src (k + 76) 16) b_x00) = Inr iname"
    and trl: "decode_utf8 (rstrip (bytes_at src (k + 96) 16) b_x00) = Inr tlabel"
    and vu: "decode_utf8 (rstrip (bytes_at src (k + 196) 48) b_0x00) = Inr vunit"
    and hu: "decode_utf8 (rstrip (bytes_at src (k + 244) 48) b_0x00) = Inr hunit"
    and rt: "py_getitem ''tuple'' RECORD_TYPE_table (sint_of co (bytes_at src (k + 316) 2)) = Inr rtl"
    and pd: "py_getitem ''tuple'' PROCESSING_DONE_table (sint_of co (bytes_at src (k + 318) 2)) = Inr pdl"
    and tb: "timebase_label fp (sint_of co (bytes_at src (k + 324) 2)) hunit = Inr (tbl, d)"
    and err: "py_getitem ''tuple'' VERT_COUPLING_table (sint_of co (bytes_at src (k + 326) 2)) = Inl e"
  shows "ReadBinaryTrace_fields fp src 0 = (Inl e, k + 328)"
  using assms
  apply (simp only: ReadBinaryTrace_fields_def)
  apply (simp add: S_rules Let_def add.commute raise_def
      cong: bnd_weak_cong case_prod_weak_cong split del: if_split)
  done

lemma enum_err_bandwidth:
  assumes k: "py_find (bytes_at src 0 32) ''WAVEDESC'' = Some k"
    and len: "k + 346 \<le> length src"
    and dn: "decode_utf8 (rstrip (py_slice (bytes_at src 0 32) k (k + 16)) b_0x00) = Inr dn"
    and ord: "py_getitem ''tuple'' COMM_ORDER_table (sint_of LE (bytes_at src (k + 34) 2)) = Inr ordl"
    and co: "(if ordl = ''LOFIRST'' then LE else BE) = co"
    and tn: "decode_utf8 (rstrip (bytes_at src (k + 16) 16) b_0x00) = Inr ''LECROY_2_3''"
    and ct: "py_getitem ''tuple'' COMM_TYPE_table (sint_of co (bytes_at src (k + 32) 2)) = Inr ctl"
    and inn: "decode_utf8 (rstrip (bytes_at src (k + 76) 16) b_x00) = Inr iname"
    and trl: "decode_utf8 (rstrip (bytes_at src (k + 96) 16) b_x00) = Inr tlabel"
    and vu: "decode_utf8 (rstrip (bytes_at src (k + 196) 48) b_0x00) = Inr vunit"
    and hu: "decode_utf8 (rstrip (bytes_at src (k + 244) 48) b_0x00) = Inr hunit"
    and rt: "py_getitem ''tuple'' RECORD_TYPE_table (sint_of co (bytes_at src (k + 316) 2)) = Inr rtl"
    and pd: "py_getitem ''tuple'' PROCESSING_DONE_table (sint_of co (bytes_at src (k + 318) 2)) = Inr pdl"
    and tb: "timebase_label fp (sint_of co (bytes_at src (k + 324) 2)) hunit = Inr (tbl, d)"
    and vc: "py_getitem ''tuple'' VERT_COUPLING_table (sint_of co (bytes_at src (k + 326) 2)) = Inr vcl"
    and fg: "per_div_label fp d (sint_of co (bytes_at src (k + 332) 2)) 6 vunit = Inr fgl"
    and err: "py_getitem ''tuple'' BANDWIDTH_LIMIT_table (sint_of co (bytes_at src (k + 334) 2)) = Inl e"
  shows "ReadBinaryTrace_fields fp src 0 = (Inl e, k + 336)"
  using assms
  apply (simp only: ReadBinaryTrace_fields_def)
  apply (simp add: S_rules Let_def add.commute raise_def
      cong: bnd_weak_cong case_prod_weak_cong split del: if_split)
  done

subsection \<open>The fields of a file\<close>

text \<open>
  The inversion of the field sequence, one fact for each field that the theorems below
  use.
\<close>

lemma fields_facts:
  assumes r: "ReadBinaryTrace_fields fp src 0 = (Inr (k', co', W), p)"
  obtains d' where "py_find (bytes_at src 0 32) ''WAVEDESC'' = Some k'"
    and "p = k' + 346"
    and "FILE_SIZE W = int (from_bytes_little (py_slice (bytes_at src 0 32) 4 k')) + int k'"
    and "co' = (if COMM_ORDER W = ''LOFIRST'' then LE else BE)"
    and "COMM_ORDER_INDEX W = sint_of LE (bytes_at src (k' + 34) 2)"
    and "COMM_TYPE_INDEX W = sint_of co' (bytes_at src (k' + 32) 2)"
    and "WAVE_DESCRIPTOR W = sint_of co' (bytes_at src (k' + 36) 4)"
    and "USER_TEXT W = sint_of co' (bytes_at src (k' + 40) 4)"
    and "WAVE_ARRAY_2 W = sint_of co' (bytes_at src (k' + 64) 4)"
    and "WAVE_ARRAY_COUNT W = sint_of co' (bytes_at src (k' + 116) 4)"
    and "SUBARRAY_COUNT W = sint_of co' (bytes_at src (k' + 144) 4)"
    and "VERTICAL_GAIN W = f4 fp (uint_of co' (bytes_at src (k' + 156) 4))"
    and "VERTICAL_OFFSET W = f4 fp (uint_of co' (bytes_at src (k' + 160) 4))"
    and "HORIZ_INTERVAL W = f4 fp (uint_of co' (bytes_at src (k' + 176) 4))"
    and "HORIZ_OFFSET W = f8 fp (uint_of co' (bytes_at src (k' + 180) 8))"
    and "TIMEBASE_INDEX W = sint_of co' (bytes_at src (k' + 324) 2)"
    and "FIXED_VERT_GAIN_INDEX W = sint_of co' (bytes_at src (k' + 332) 2)"
    and "RECORD_TYPE_INDEX W = sint_of co' (bytes_at src (k' + 316) 2)"
    and "PROCESSING_DONE_INDEX W = sint_of co' (bytes_at src (k' + 318) 2)"
    and "VERT_COUPLING_INDEX W = sint_of co' (bytes_at src (k' + 326) 2)"
    and "BANDWIDTH_LIMIT_INDEX W = sint_of co' (bytes_at src (k' + 334) 2)"
    and "py_getitem ''tuple'' COMM_ORDER_table (COMM_ORDER_INDEX W) = Inr (COMM_ORDER W)"
    and "py_getitem ''tuple'' COMM_TYPE_table (COMM_TYPE_INDEX W) = Inr (COMM_TYPE W)"
    and "py_getitem ''tuple'' RECORD_TYPE_table (RECORD_TYPE_INDEX W) = Inr (RECORD_TYPE W)"
    and "py_getitem ''tuple'' PROCESSING_DONE_table (PROCESSING_DONE_INDEX W) = Inr (PROCESSING_DONE W)"
    and "py_getitem ''tuple'' VERT_COUPLING_table (VERT_COUPLING_INDEX W) = Inr (VERT_COUPLING W)"
    and "py_getitem ''tuple'' BANDWIDTH_LIMIT_table (BANDWIDTH_LIMIT_INDEX W) = Inr (BANDWIDTH_LIMIT W)"
    and "timebase_label fp (TIMEBASE_INDEX W) (HORUNIT W) = Inr (TIMEBASE W, d')"
    and "per_div_label fp d' (FIXED_VERT_GAIN_INDEX W) 6 (VERTUNIT W) = Inr (FIXED_VERT_GAIN W)"
    and "decode_utf8 (rstrip (py_slice (bytes_at src 0 32) k' (k' + 16)) b_0x00) = Inr (DESCRIPTOR_NAME W)"
    and "decode_utf8 (rstrip (bytes_at src (k' + 196) 48) b_0x00) = Inr (VERTUNIT W)"
    and "decode_utf8 (rstrip (bytes_at src (k' + 244) 48) b_0x00) = Inr (HORUNIT W)"
    and "decode_utf8 (rstrip (bytes_at src (k' + 16) 16) b_0x00) = Inr (TEMPLATE_NAME W)"
    and "decode_utf8 (rstrip (bytes_at src (k' + 76) 16) b_x00) = Inr (INSTRUMENT_NAME W)"
    and "decode_utf8 (rstrip (bytes_at src (k' + 96) 16) b_x00) = Inr (TRACE_LABEL W)"
  using fields_inv [OF r] by (elim exE conjE) (rule that)

text \<open>
  Under the conditions of \<open>fields_returns\<close> the field sequence returns the fields with the
  values of their bytes.
\<close>

lemma fields_decoded:
  assumes k: "py_find (bytes_at src 0 32) ''WAVEDESC'' = Some k"
    and len: "k + 346 \<le> length src"
    and dn: "decode_utf8 (rstrip (py_slice (bytes_at src 0 32) k (k + 16)) b_0x00) = Inr dn"
    and ord: "py_getitem ''tuple'' COMM_ORDER_table (sint_of LE (bytes_at src (k + 34) 2)) = Inr ordl"
    and co: "(if ordl = ''LOFIRST'' then LE else BE) = co"
    and tn: "decode_utf8 (rstrip (bytes_at src (k + 16) 16) b_0x00) = Inr ''LECROY_2_3''"
    and ct: "py_getitem ''tuple'' COMM_TYPE_table (sint_of co (bytes_at src (k + 32) 2)) = Inr ctl"
    and inn: "decode_utf8 (rstrip (bytes_at src (k + 76) 16) b_x00) = Inr iname"
    and trl: "decode_utf8 (rstrip (bytes_at src (k + 96) 16) b_x00) = Inr tlabel"
    and vu: "decode_utf8 (rstrip (bytes_at src (k + 196) 48) b_0x00) = Inr vunit"
    and hu: "decode_utf8 (rstrip (bytes_at src (k + 244) 48) b_0x00) = Inr hunit"
    and rt: "py_getitem ''tuple'' RECORD_TYPE_table (sint_of co (bytes_at src (k + 316) 2)) = Inr rtl"
    and pd: "py_getitem ''tuple'' PROCESSING_DONE_table (sint_of co (bytes_at src (k + 318) 2)) = Inr pdl"
    and tb: "timebase_label fp (sint_of co (bytes_at src (k + 324) 2)) hunit = Inr (tbl, d)"
    and vc: "py_getitem ''tuple'' VERT_COUPLING_table (sint_of co (bytes_at src (k + 326) 2)) = Inr vcl"
    and fg: "per_div_label fp d (sint_of co (bytes_at src (k + 332) 2)) 6 vunit = Inr fgl"
    and bw: "py_getitem ''tuple'' BANDWIDTH_LIMIT_table (sint_of co (bytes_at src (k + 334) 2)) = Inr bwl"
    and cti: "sint_of co (bytes_at src (k + 32) 2) = cti"
    and wd: "sint_of co (bytes_at src (k + 36) 4) = wdv"
    and ut: "sint_of co (bytes_at src (k + 40) 4) = utv"
    and wa2: "sint_of co (bytes_at src (k + 64) 4) = wa2v"
    and wac: "sint_of co (bytes_at src (k + 116) 4) = wacv"
    and sc: "sint_of co (bytes_at src (k + 144) 4) = scv"
    and vg: "f4 fp (uint_of co (bytes_at src (k + 156) 4)) = vgv"
    and vo: "f4 fp (uint_of co (bytes_at src (k + 160) 4)) = vov"
    and hi: "f4 fp (uint_of co (bytes_at src (k + 176) 4)) = hiv"
    and ho: "f8 fp (uint_of co (bytes_at src (k + 180) 8)) = hov"
    and tbi: "sint_of co (bytes_at src (k + 324) 2) = tbiv"
    and fgi: "sint_of co (bytes_at src (k + 332) 2) = fgiv"
    and fs: "int (from_bytes_little (py_slice (bytes_at src 0 32) 4 k)) + int k = fsv"
  shows "\<exists>W. ReadBinaryTrace_fields fp src 0 = (Inr (k, co, W), k + 346)
      \<and> COMM_TYPE_INDEX W = cti
      \<and> WAVE_DESCRIPTOR W = wdv
      \<and> USER_TEXT W = utv
      \<and> WAVE_ARRAY_2 W = wa2v
      \<and> WAVE_ARRAY_COUNT W = wacv
      \<and> SUBARRAY_COUNT W = scv
      \<and> VERTICAL_GAIN W = vgv
      \<and> VERTICAL_OFFSET W = vov
      \<and> HORIZ_INTERVAL W = hiv
      \<and> HORIZ_OFFSET W = hov
      \<and> TIMEBASE_INDEX W = tbiv
      \<and> FIXED_VERT_GAIN_INDEX W = fgiv
      \<and> FILE_SIZE W = fsv
      \<and> COMM_TYPE W = ctl
      \<and> TIMEBASE W = tbl
      \<and> FIXED_VERT_GAIN W = fgl
      \<and> VERTUNIT W = vunit
      \<and> HORUNIT W = hunit
      \<and> DESCRIPTOR_NAME W = dn"
proof -
  from fields_returns [OF k len dn ord co tn ct inn trl vu hu rt pd tb vc fg bw]
  obtain k' co' W p where r: "ReadBinaryTrace_fields fp src 0 = (Inr (k', co', W), p)"
    by (auto simp: returns_iff)
  from r obtain d' where i_find: "py_find (bytes_at src 0 32) ''WAVEDESC'' = Some k'"
    and i_p: "p = k' + 346"
    and i_fs: "FILE_SIZE W = int (from_bytes_little (py_slice (bytes_at src 0 32) 4 k')) + int k'"
    and i_co: "co' = (if COMM_ORDER W = ''LOFIRST'' then LE else BE)"
    and i_oi: "COMM_ORDER_INDEX W = sint_of LE (bytes_at src (k' + 34) 2)"
    and i_cti: "COMM_TYPE_INDEX W = sint_of co' (bytes_at src (k' + 32) 2)"
    and i_wd: "WAVE_DESCRIPTOR W = sint_of co' (bytes_at src (k' + 36) 4)"
    and i_ut: "USER_TEXT W = sint_of co' (bytes_at src (k' + 40) 4)"
    and i_wa2: "WAVE_ARRAY_2 W = sint_of co' (bytes_at src (k' + 64) 4)"
    and i_wac: "WAVE_ARRAY_COUNT W = sint_of co' (bytes_at src (k' + 116) 4)"
    and i_sc: "SUBARRAY_COUNT W = sint_of co' (bytes_at src (k' + 144) 4)"
    and i_vg: "VERTICAL_GAIN W = f4 fp (uint_of co' (bytes_at src (k' + 156) 4))"
    and i_vo: "VERTICAL_OFFSET W = f4 fp (uint_of co' (bytes_at src (k' + 160) 4))"
    and i_hi: "HORIZ_INTERVAL W = f4 fp (uint_of co' (bytes_at src (k' + 176) 4))"
    and i_ho: "HORIZ_OFFSET W = f8 fp (uint_of co' (bytes_at src (k' + 180) 8))"
    and i_tbi: "TIMEBASE_INDEX W = sint_of co' (bytes_at src (k' + 324) 2)"
    and i_fgi: "FIXED_VERT_GAIN_INDEX W = sint_of co' (bytes_at src (k' + 332) 2)"
    and i_rti: "RECORD_TYPE_INDEX W = sint_of co' (bytes_at src (k' + 316) 2)"
    and i_pdi: "PROCESSING_DONE_INDEX W = sint_of co' (bytes_at src (k' + 318) 2)"
    and i_vci: "VERT_COUPLING_INDEX W = sint_of co' (bytes_at src (k' + 326) 2)"
    and i_bwi: "BANDWIDTH_LIMIT_INDEX W = sint_of co' (bytes_at src (k' + 334) 2)"
    and i_ord: "py_getitem ''tuple'' COMM_ORDER_table (COMM_ORDER_INDEX W) = Inr (COMM_ORDER W)"
    and i_ct: "py_getitem ''tuple'' COMM_TYPE_table (COMM_TYPE_INDEX W) = Inr (COMM_TYPE W)"
    and i_rt: "py_getitem ''tuple'' RECORD_TYPE_table (RECORD_TYPE_INDEX W) = Inr (RECORD_TYPE W)"
    and i_pd: "py_getitem ''tuple'' PROCESSING_DONE_table (PROCESSING_DONE_INDEX W) = Inr (PROCESSING_DONE W)"
    and i_vc: "py_getitem ''tuple'' VERT_COUPLING_table (VERT_COUPLING_INDEX W) = Inr (VERT_COUPLING W)"
    and i_bw: "py_getitem ''tuple'' BANDWIDTH_LIMIT_table (BANDWIDTH_LIMIT_INDEX W) = Inr (BANDWIDTH_LIMIT W)"
    and i_tb: "timebase_label fp (TIMEBASE_INDEX W) (HORUNIT W) = Inr (TIMEBASE W, d')"
    and i_fg: "per_div_label fp d' (FIXED_VERT_GAIN_INDEX W) 6 (VERTUNIT W) = Inr (FIXED_VERT_GAIN W)"
    and i_dn: "decode_utf8 (rstrip (py_slice (bytes_at src 0 32) k' (k' + 16)) b_0x00) = Inr (DESCRIPTOR_NAME W)"
    and i_vu: "decode_utf8 (rstrip (bytes_at src (k' + 196) 48) b_0x00) = Inr (VERTUNIT W)"
    and i_hu: "decode_utf8 (rstrip (bytes_at src (k' + 244) 48) b_0x00) = Inr (HORUNIT W)"
    and i_tn: "decode_utf8 (rstrip (bytes_at src (k' + 16) 16) b_0x00) = Inr (TEMPLATE_NAME W)"
    and i_in: "decode_utf8 (rstrip (bytes_at src (k' + 76) 16) b_x00) = Inr (INSTRUMENT_NAME W)"
    and i_tl: "decode_utf8 (rstrip (bytes_at src (k' + 96) 16) b_x00) = Inr (TRACE_LABEL W)"
    by (rule fields_facts)
  from i_find k have k': "k' = k" by simp
  from i_oi i_ord ord have "COMM_ORDER W = ordl" by (simp add: k')
  with i_co co have co': "co' = co" by simp
  from i_cti i_ct ct have l1: "COMM_TYPE W = ctl" by (simp add: k' co')
  from i_dn dn have l2: "DESCRIPTOR_NAME W = dn" by (simp add: k')
  from i_vu vu have l3: "VERTUNIT W = vunit" by (simp add: k')
  from i_hu hu have l4: "HORUNIT W = hunit" by (simp add: k')
  from i_tb tb i_tbi have l5: "TIMEBASE W = tbl" and d': "d' = d" by (simp_all add: k' co' l4)
  from i_fg fg i_fgi have l6: "FIXED_VERT_GAIN W = fgl" by (simp add: k' co' l3 d')
  show ?thesis
    apply (rule exI [of _ W])
    using r i_p i_fs i_cti i_wd i_ut i_wa2 i_wac i_sc i_vg i_vo i_hi i_ho i_tbi i_fgi
      cti wd ut wa2 wac sc vg vo hi ho tbi fgi fs l1 l2 l3 l4 l5 l6
    by (simp add: k' co')
qed

subsection \<open>A single sweep always returns\<close>

text \<open>
  \<^verbatim>\<open>np.fromfile\<close> raises nothing on a short file, so the branch of the single sweep has
  no exception of its own.
\<close>

lemma waveforms_single_returns:
  "SUBARRAY_COUNT W \<le> 1 \<Longrightarrow> \<exists>r q'. ReadBinaryTrace_waveforms fp src co W q = (Inr r, q')"
  by (simp add: ReadBinaryTrace_waveforms_def bnd_def fromfile_def ret_def Let_def)

lemma single_sweep_decodes:
  assumes f: "ReadBinaryTrace_fields fp src 0 = (Inr (k, co, W), p)"
    and wd: "WAVE_DESCRIPTOR W = int p - int k"
    and sc: "SUBARRAY_COUNT W \<le> 1"
  shows "\<exists>T x y1 y2. ReadBinaryTrace fp src = Inr (W, T, x, y1, y2)"
proof -
  from f wd have h: "ReadBinaryTrace_header fp src 0 = (Inr (co, W), p)"
    by (auto simp: header_Inr_iff)
  from text_Inr obtain T q where t: "ReadBinaryTrace_text src W p = (Inr T, q)" by blast
  from waveforms_single_returns [OF sc] obtain r q'
    where w: "ReadBinaryTrace_waveforms fp src co W q = (Inr r, q')" by blast
  obtain x y1 y2 where r: "r = (x, y1, y2)" by (cases r)
  from decode_steps [OF h t w [unfolded r]] show ?thesis by blast
qed

section \<open>Evaluation on the test files\<close>

subsection \<open>Bytes of a file built from blocks\<close>

lemma bytes_at_append:
  "bytes_at (a @ r) off n = bytes_at a off n @ bytes_at r (off - length a) (n - (length a - off))"
  by (simp add: bytes_at_def)

lemma bytes_at_Nil: "bytes_at [] off n = []"
  by (simp add: bytes_at_def)

lemma bytes_at_Cons:
  "bytes_at (x # xs) off n =
     (if off = 0 then (if n = 0 then [] else x # bytes_at xs 0 (n - 1))
      else bytes_at xs (off - 1) n)"
  by (cases off; cases n) (simp_all add: bytes_at_def)

lemma bytes_at_replicate: "bytes_at (replicate m c) off n = replicate (min n (m - off)) c"
  by (simp add: bytes_at_def min.commute)

lemma bytes_at_none: "bytes_at s off 0 = []"
  by (simp add: bytes_at_def)

lemma bytes_at_past: "length s \<le> off \<Longrightarrow> bytes_at s off n = []"
  by (simp add: bytes_at_def)

lemma block_sub: "b = L \<Longrightarrow> off < length b \<Longrightarrow> 0 < n \<Longrightarrow> bytes_at b off n = take n (drop off L)"
  by (simp add: bytes_at_def)

lemma len_blk_names: "length blk_names = 32" by (simp add: blk_names_def)
lemma len_blk_order: "length blk_order = 2" by (simp add: blk_order_def)
lemma len_blk_lengths: "length blk_lengths = 24" by (simp add: blk_lengths_def)
lemma len_blk_instr: "length blk_instr = 48" by (simp add: blk_instr_def)
lemma len_blk_points: "length blk_points = 24" by (simp add: blk_points_def)
lemma len_blk_vertical: "length blk_vertical = 48" by (simp add: blk_vertical_def)
lemma len_blk_horunit: "length blk_horunit = 48" by (simp add: blk_horunit_def)
lemma len_blk_trigger: "length blk_trigger = 32" by (simp add: blk_trigger_def)
lemma len_blk_acq: "length blk_acq = 20" by (simp add: blk_acq_def)
lemma len_unit_V: "length unit_V = 48" by (simp add: unit_V_def)
lemma len_unit_lx: "length unit_lx = 48" by (simp add: unit_lx_def)

lemmas blk_len = len_blk_names len_blk_order len_blk_lengths len_blk_instr len_blk_points
  len_blk_vertical len_blk_horunit len_blk_trigger len_blk_acq len_unit_V len_unit_lx

lemmas blk_sub = block_sub [OF blk_names_def] block_sub [OF blk_order_def]
  block_sub [OF blk_lengths_def] block_sub [OF blk_instr_def] block_sub [OF blk_points_def]
  block_sub [OF blk_vertical_def] block_sub [OF blk_horunit_def] block_sub [OF blk_trigger_def]
  block_sub [OF blk_acq_def] block_sub [OF unit_V_def] block_sub [OF unit_lx_def]

lemmas bytes_ev = test_file_def bytes_at_append bytes_at_Nil bytes_at_Cons bytes_at_replicate
  bytes_at_none
  bytes_at_past blk_len blk_sub

subsection \<open>Evaluation of the formatter on the exact platform\<close>

declare digits10.simps [simp del]

lemma digits10_numeral [simp]:
  "digits10 (numeral k) =
     (if (numeral k :: nat) < 10 then [''0123456789'' ! numeral k]
      else digits10 (numeral k div 10) @ [''0123456789'' ! (numeral k mod 10)])"
  by (rule digits10.simps)

lemma digits10_0 [simp]: "digits10 0 = ''0''"
  by (simp add: digits10.simps)

lemma digits10_1 [simp]: "digits10 (Suc 0) = ''1''"
  by (simp add: digits10.simps)

lemma floor_rat_numeral [simp]:
  "\<lfloor>numeral a / numeral b :: rat\<rfloor> = numeral a div numeral b"
  using floor_divide_of_int_eq [of "numeral a" "numeral b", where ?'a = rat] by simp

lemma ceiling_rat_numeral [simp]:
  "\<lceil>numeral a / numeral b :: rat\<rceil> = - ((- numeral a) div numeral b)"
  using floor_divide_of_int_eq [of "- numeral a" "numeral b", where ?'a = rat]
  by (simp add: ceiling_def)

lemmas fx_ev = fpu_exact_def float2eng_def eng_exponent_def py_nonzero_def py_pow10_def
  py_int_mul_def int_truediv_def py_getitem_def fmt_g_rat_def ilog10_def ndigits_def
  num_rat_def round_half_even_def strip_zeros_def pow_rat_def ieee_value_def Let_def

lemma dropWhile_replicate_append:
  "dropWhile P (replicate n c @ xs) = (if P c \<or> n = 0 then dropWhile P xs else replicate n c @ xs)"
  by (induction n) auto

lemma dropWhile_replicate: "dropWhile P (replicate n c) = (if P c then [] else replicate n c)"
  by (induction n) auto

lemma from_bytes_little_zeros: "from_bytes_little (replicate n (CHR 0x00)) = 0"
  by (induction n) auto

lemma from_bytes_little_append:
  "from_bytes_little (a @ b) = from_bytes_little a + 256 ^ length a * from_bytes_little b"
  by (induction a) (auto simp: algebra_simps)

lemmas hdr_ev = dropWhile_replicate_append dropWhile_replicate from_bytes_little_zeros
  from_bytes_little_append py_find_def py_slice_def decode_utf8_def cont_byte_def rstrip_def b_0x00_def
  b_x00_def COMM_ORDER_table_def COMM_TYPE_table_def RECORD_TYPE_table_def
  PROCESSING_DONE_table_def VERT_COUPLING_table_def BANDWIDTH_LIMIT_table_def sint_of_def
  uint_of_def timebase_label_def per_div_label_def

subsection \<open>The fields of the test files\<close>

lemma len_trig_pairs: "length trig_pairs = 32"
  by (simp add: trig_pairs_def)

lemma trig_pairs_sub: "off < length trig_pairs \<Longrightarrow> 0 < n \<Longrightarrow>
    bytes_at trig_pairs off n = take n (drop off
      (replicate 14 (CHR 0x00) @ [CHR 0xE0, CHR 0xBF] @ replicate 6 (CHR 0x00) @ [CHR 0xF0, CHR 0x3F]
       @ replicate 6 (CHR 0x00) @ [CHR 0xE0, CHR 0xBF]))"
  by (rule block_sub [OF trig_pairs_def])

lemma len_file_sweep: "length file_sweep = 350"
  by (simp add: file_sweep_def test_file_def blk_len len_trig_pairs)

lemma file_sweep_fields:
  "\<exists>W. ReadBinaryTrace_fields fpu_exact file_sweep 0 = (Inr (0, LE, W), 346)
      \<and> COMM_TYPE_INDEX W = 0 \<and> WAVE_DESCRIPTOR W = 346 \<and> USER_TEXT W = 0
      \<and> WAVE_ARRAY_2 W = 2 \<and> WAVE_ARRAY_COUNT W = 2 \<and> SUBARRAY_COUNT W = 1
      \<and> VERTICAL_GAIN W = 1 / 2 \<and> VERTICAL_OFFSET W = 1 / 4
      \<and> HORIZ_INTERVAL W = 1 / 2 \<and> HORIZ_OFFSET W = - (3 / 2)
      \<and> TIMEBASE_INDEX W = 11 \<and> FIXED_VERT_GAIN_INDEX W = 11 \<and> FILE_SIZE W = 0
      \<and> COMM_TYPE W = ''byte'' \<and> TIMEBASE W = ''5 nS/div'' \<and> FIXED_VERT_GAIN W = ''5 mV/div''
      \<and> VERTUNIT W = ''V'' \<and> HORUNIT W = ''S'' \<and> DESCRIPTOR_NAME W = ''WAVEDESC''"
proof -
  have "\<exists>W. ReadBinaryTrace_fields fpu_exact file_sweep 0 = (Inr (0, LE, W), 0 + 346)
      \<and> COMM_TYPE_INDEX W = 0 \<and> WAVE_DESCRIPTOR W = 346 \<and> USER_TEXT W = 0
      \<and> WAVE_ARRAY_2 W = 2 \<and> WAVE_ARRAY_COUNT W = 2 \<and> SUBARRAY_COUNT W = 1
      \<and> VERTICAL_GAIN W = 1 / 2 \<and> VERTICAL_OFFSET W = 1 / 4
      \<and> HORIZ_INTERVAL W = 1 / 2 \<and> HORIZ_OFFSET W = - (3 / 2)
      \<and> TIMEBASE_INDEX W = 11 \<and> FIXED_VERT_GAIN_INDEX W = 11 \<and> FILE_SIZE W = 0
      \<and> COMM_TYPE W = ''byte'' \<and> TIMEBASE W = ''5 nS/div'' \<and> FIXED_VERT_GAIN W = ''5 mV/div''
      \<and> VERTUNIT W = ''V'' \<and> HORUNIT W = ''S'' \<and> DESCRIPTOR_NAME W = ''WAVEDESC''"
    apply (rule fields_decoded [where ordl = "''LOFIRST''" and iname = "''LECROYWR''"
          and tlabel = "[]" and rtl = "''single sweep''" and pdl = "''no processing''"
          and d = "Some [1, 2, 5]" and vcl = "''DC 1MOhm''" and bwl = "''off''"])
                        apply (simp_all add: len_file_sweep)
                        apply (simp_all add: file_sweep_def bytes_ev hdr_ev fx_ev)
    done
  then show ?thesis by simp
qed

lemma len_file_long: "length file_long = 350"
  by (simp add: file_long_def test_file_def blk_len len_trig_pairs)

lemma file_long_fields:
  "\<exists>W. ReadBinaryTrace_fields fpu_exact file_long 0 = (Inr (0, LE, W), 346)
      \<and> COMM_TYPE_INDEX W = 0 \<and> WAVE_DESCRIPTOR W = 347 \<and> USER_TEXT W = 0
      \<and> WAVE_ARRAY_2 W = 2 \<and> WAVE_ARRAY_COUNT W = 2 \<and> SUBARRAY_COUNT W = 1
      \<and> VERTICAL_GAIN W = 1 / 2 \<and> VERTICAL_OFFSET W = 1 / 4
      \<and> HORIZ_INTERVAL W = 1 / 2 \<and> HORIZ_OFFSET W = - (3 / 2)
      \<and> TIMEBASE_INDEX W = 11 \<and> FIXED_VERT_GAIN_INDEX W = 11 \<and> FILE_SIZE W = 0
      \<and> COMM_TYPE W = ''byte'' \<and> TIMEBASE W = ''5 nS/div'' \<and> FIXED_VERT_GAIN W = ''5 mV/div''
      \<and> VERTUNIT W = ''V'' \<and> HORUNIT W = ''S'' \<and> DESCRIPTOR_NAME W = ''WAVEDESC''"
proof -
  have "\<exists>W. ReadBinaryTrace_fields fpu_exact file_long 0 = (Inr (0, LE, W), 0 + 346)
      \<and> COMM_TYPE_INDEX W = 0 \<and> WAVE_DESCRIPTOR W = 347 \<and> USER_TEXT W = 0
      \<and> WAVE_ARRAY_2 W = 2 \<and> WAVE_ARRAY_COUNT W = 2 \<and> SUBARRAY_COUNT W = 1
      \<and> VERTICAL_GAIN W = 1 / 2 \<and> VERTICAL_OFFSET W = 1 / 4
      \<and> HORIZ_INTERVAL W = 1 / 2 \<and> HORIZ_OFFSET W = - (3 / 2)
      \<and> TIMEBASE_INDEX W = 11 \<and> FIXED_VERT_GAIN_INDEX W = 11 \<and> FILE_SIZE W = 0
      \<and> COMM_TYPE W = ''byte'' \<and> TIMEBASE W = ''5 nS/div'' \<and> FIXED_VERT_GAIN W = ''5 mV/div''
      \<and> VERTUNIT W = ''V'' \<and> HORUNIT W = ''S'' \<and> DESCRIPTOR_NAME W = ''WAVEDESC''"
    apply (rule fields_decoded [where ordl = "''LOFIRST''" and iname = "''LECROYWR''"
          and tlabel = "[]" and rtl = "''single sweep''" and pdl = "''no processing''"
          and d = "Some [1, 2, 5]" and vcl = "''DC 1MOhm''" and bwl = "''off''"])
                        apply (simp_all add: len_file_long)
                        apply (simp_all add: file_long_def bytes_ev hdr_ev fx_ev)
    done
  then show ?thesis by simp
qed

lemma len_file_shifted: "length file_shifted = 351"
  by (simp add: file_shifted_def test_file_def blk_len len_trig_pairs)

lemma file_shifted_fields:
  "\<exists>W. ReadBinaryTrace_fields fpu_exact file_shifted 0 = (Inr (1, LE, W), 347)
      \<and> COMM_TYPE_INDEX W = 0 \<and> WAVE_DESCRIPTOR W = 346 \<and> USER_TEXT W = 0
      \<and> WAVE_ARRAY_2 W = 2 \<and> WAVE_ARRAY_COUNT W = 2 \<and> SUBARRAY_COUNT W = 1
      \<and> VERTICAL_GAIN W = 1 / 2 \<and> VERTICAL_OFFSET W = 1 / 4
      \<and> HORIZ_INTERVAL W = 1 / 2 \<and> HORIZ_OFFSET W = - (3 / 2)
      \<and> TIMEBASE_INDEX W = 11 \<and> FIXED_VERT_GAIN_INDEX W = 11 \<and> FILE_SIZE W = 1
      \<and> COMM_TYPE W = ''byte'' \<and> TIMEBASE W = ''5 nS/div'' \<and> FIXED_VERT_GAIN W = ''5 mV/div''
      \<and> VERTUNIT W = ''V'' \<and> HORUNIT W = ''S'' \<and> DESCRIPTOR_NAME W = ''WAVEDESC''"
proof -
  have "\<exists>W. ReadBinaryTrace_fields fpu_exact file_shifted 0 = (Inr (1, LE, W), 1 + 346)
      \<and> COMM_TYPE_INDEX W = 0 \<and> WAVE_DESCRIPTOR W = 346 \<and> USER_TEXT W = 0
      \<and> WAVE_ARRAY_2 W = 2 \<and> WAVE_ARRAY_COUNT W = 2 \<and> SUBARRAY_COUNT W = 1
      \<and> VERTICAL_GAIN W = 1 / 2 \<and> VERTICAL_OFFSET W = 1 / 4
      \<and> HORIZ_INTERVAL W = 1 / 2 \<and> HORIZ_OFFSET W = - (3 / 2)
      \<and> TIMEBASE_INDEX W = 11 \<and> FIXED_VERT_GAIN_INDEX W = 11 \<and> FILE_SIZE W = 1
      \<and> COMM_TYPE W = ''byte'' \<and> TIMEBASE W = ''5 nS/div'' \<and> FIXED_VERT_GAIN W = ''5 mV/div''
      \<and> VERTUNIT W = ''V'' \<and> HORUNIT W = ''S'' \<and> DESCRIPTOR_NAME W = ''WAVEDESC''"
    apply (rule fields_decoded [where ordl = "''LOFIRST''" and iname = "''LECROYWR''"
          and tlabel = "[]" and rtl = "''single sweep''" and pdl = "''no processing''"
          and d = "Some [1, 2, 5]" and vcl = "''DC 1MOhm''" and bwl = "''off''"])
                        apply (simp_all add: len_file_shifted)
                        apply (simp_all add: file_shifted_def bytes_ev hdr_ev fx_ev)
    done
  then show ?thesis by simp
qed



lemma len_file_lx: "length file_lx = 350"
  by (simp add: file_lx_def test_file_def blk_len len_trig_pairs)

lemma file_lx_fields:
  "\<exists>W. ReadBinaryTrace_fields fpu_exact file_lx 0 = (Inr (0, LE, W), 346)
      \<and> COMM_TYPE_INDEX W = 0 \<and> WAVE_DESCRIPTOR W = 346 \<and> USER_TEXT W = 0
      \<and> WAVE_ARRAY_2 W = 2 \<and> WAVE_ARRAY_COUNT W = 2 \<and> SUBARRAY_COUNT W = 1
      \<and> VERTICAL_GAIN W = 1 / 2 \<and> VERTICAL_OFFSET W = 1 / 4
      \<and> HORIZ_INTERVAL W = 1 / 2 \<and> HORIZ_OFFSET W = - (3 / 2)
      \<and> TIMEBASE_INDEX W = 11 \<and> FIXED_VERT_GAIN_INDEX W = 11 \<and> FILE_SIZE W = 0
      \<and> COMM_TYPE W = ''byte'' \<and> TIMEBASE W = ''5 nS/div'' \<and> FIXED_VERT_GAIN W = ''5 ml/div''
      \<and> VERTUNIT W = ''l'' \<and> HORUNIT W = ''S'' \<and> DESCRIPTOR_NAME W = ''WAVEDESC''"
proof -
  have "\<exists>W. ReadBinaryTrace_fields fpu_exact file_lx 0 = (Inr (0, LE, W), 0 + 346)
      \<and> COMM_TYPE_INDEX W = 0 \<and> WAVE_DESCRIPTOR W = 346 \<and> USER_TEXT W = 0
      \<and> WAVE_ARRAY_2 W = 2 \<and> WAVE_ARRAY_COUNT W = 2 \<and> SUBARRAY_COUNT W = 1
      \<and> VERTICAL_GAIN W = 1 / 2 \<and> VERTICAL_OFFSET W = 1 / 4
      \<and> HORIZ_INTERVAL W = 1 / 2 \<and> HORIZ_OFFSET W = - (3 / 2)
      \<and> TIMEBASE_INDEX W = 11 \<and> FIXED_VERT_GAIN_INDEX W = 11 \<and> FILE_SIZE W = 0
      \<and> COMM_TYPE W = ''byte'' \<and> TIMEBASE W = ''5 nS/div'' \<and> FIXED_VERT_GAIN W = ''5 ml/div''
      \<and> VERTUNIT W = ''l'' \<and> HORUNIT W = ''S'' \<and> DESCRIPTOR_NAME W = ''WAVEDESC''"
    apply (rule fields_decoded [where ordl = "''LOFIRST''" and iname = "''LECROYWR''"
          and tlabel = "[]" and rtl = "''single sweep''" and pdl = "''no processing''"
          and d = "Some [1, 2, 5]" and vcl = "''DC 1MOhm''" and bwl = "''off''"])
                        apply (simp_all add: len_file_lx)
                        apply (simp_all add: file_lx_def bytes_ev hdr_ev fx_ev)
    done
  then show ?thesis by simp
qed

lemma len_file_codeneg: "length file_codeneg = 350"
  by (simp add: file_codeneg_def test_file_def blk_len len_trig_pairs)

lemma file_codeneg_fields:
  "\<exists>W. ReadBinaryTrace_fields fpu_exact file_codeneg 0 = (Inr (0, LE, W), 346)
      \<and> COMM_TYPE_INDEX W = - 1 \<and> WAVE_DESCRIPTOR W = 346 \<and> USER_TEXT W = 0
      \<and> WAVE_ARRAY_2 W = 2 \<and> WAVE_ARRAY_COUNT W = 2 \<and> SUBARRAY_COUNT W = 1
      \<and> VERTICAL_GAIN W = 1 / 2 \<and> VERTICAL_OFFSET W = 1 / 4
      \<and> HORIZ_INTERVAL W = 1 / 2 \<and> HORIZ_OFFSET W = - (3 / 2)
      \<and> TIMEBASE_INDEX W = 11 \<and> FIXED_VERT_GAIN_INDEX W = 11 \<and> FILE_SIZE W = 0
      \<and> COMM_TYPE W = ''word'' \<and> TIMEBASE W = ''5 nS/div'' \<and> FIXED_VERT_GAIN W = ''5 mV/div''
      \<and> VERTUNIT W = ''V'' \<and> HORUNIT W = ''S'' \<and> DESCRIPTOR_NAME W = ''WAVEDESC''"
proof -
  have "\<exists>W. ReadBinaryTrace_fields fpu_exact file_codeneg 0 = (Inr (0, LE, W), 0 + 346)
      \<and> COMM_TYPE_INDEX W = - 1 \<and> WAVE_DESCRIPTOR W = 346 \<and> USER_TEXT W = 0
      \<and> WAVE_ARRAY_2 W = 2 \<and> WAVE_ARRAY_COUNT W = 2 \<and> SUBARRAY_COUNT W = 1
      \<and> VERTICAL_GAIN W = 1 / 2 \<and> VERTICAL_OFFSET W = 1 / 4
      \<and> HORIZ_INTERVAL W = 1 / 2 \<and> HORIZ_OFFSET W = - (3 / 2)
      \<and> TIMEBASE_INDEX W = 11 \<and> FIXED_VERT_GAIN_INDEX W = 11 \<and> FILE_SIZE W = 0
      \<and> COMM_TYPE W = ''word'' \<and> TIMEBASE W = ''5 nS/div'' \<and> FIXED_VERT_GAIN W = ''5 mV/div''
      \<and> VERTUNIT W = ''V'' \<and> HORUNIT W = ''S'' \<and> DESCRIPTOR_NAME W = ''WAVEDESC''"
    apply (rule fields_decoded [where ordl = "''LOFIRST''" and iname = "''LECROYWR''"
          and tlabel = "[]" and rtl = "''single sweep''" and pdl = "''no processing''"
          and d = "Some [1, 2, 5]" and vcl = "''DC 1MOhm''" and bwl = "''off''"])
                        apply (simp_all add: len_file_codeneg)
                        apply (simp_all add: file_codeneg_def bytes_ev hdr_ev fx_ev)
    done
  then show ?thesis by simp
qed

lemma len_file_seq: "length file_seq = 386"
  by (simp add: file_seq_def test_file_def blk_len len_trig_pairs)

lemma file_seq_fields:
  "\<exists>W. ReadBinaryTrace_fields fpu_exact file_seq 0 = (Inr (0, LE, W), 346)
      \<and> COMM_TYPE_INDEX W = 1 \<and> WAVE_DESCRIPTOR W = 346 \<and> USER_TEXT W = 0
      \<and> WAVE_ARRAY_2 W = 0 \<and> WAVE_ARRAY_COUNT W = 4 \<and> SUBARRAY_COUNT W = 2
      \<and> VERTICAL_GAIN W = 1 / 2 \<and> VERTICAL_OFFSET W = 1 / 4
      \<and> HORIZ_INTERVAL W = 1 / 2 \<and> HORIZ_OFFSET W = - (3 / 2)
      \<and> TIMEBASE_INDEX W = 11 \<and> FIXED_VERT_GAIN_INDEX W = 11 \<and> FILE_SIZE W = 0
      \<and> COMM_TYPE W = ''word'' \<and> TIMEBASE W = ''5 nS/div'' \<and> FIXED_VERT_GAIN W = ''5 mV/div''
      \<and> VERTUNIT W = ''V'' \<and> HORUNIT W = ''S'' \<and> DESCRIPTOR_NAME W = ''WAVEDESC''"
proof -
  have "\<exists>W. ReadBinaryTrace_fields fpu_exact file_seq 0 = (Inr (0, LE, W), 0 + 346)
      \<and> COMM_TYPE_INDEX W = 1 \<and> WAVE_DESCRIPTOR W = 346 \<and> USER_TEXT W = 0
      \<and> WAVE_ARRAY_2 W = 0 \<and> WAVE_ARRAY_COUNT W = 4 \<and> SUBARRAY_COUNT W = 2
      \<and> VERTICAL_GAIN W = 1 / 2 \<and> VERTICAL_OFFSET W = 1 / 4
      \<and> HORIZ_INTERVAL W = 1 / 2 \<and> HORIZ_OFFSET W = - (3 / 2)
      \<and> TIMEBASE_INDEX W = 11 \<and> FIXED_VERT_GAIN_INDEX W = 11 \<and> FILE_SIZE W = 0
      \<and> COMM_TYPE W = ''word'' \<and> TIMEBASE W = ''5 nS/div'' \<and> FIXED_VERT_GAIN W = ''5 mV/div''
      \<and> VERTUNIT W = ''V'' \<and> HORUNIT W = ''S'' \<and> DESCRIPTOR_NAME W = ''WAVEDESC''"
    apply (rule fields_decoded [where ordl = "''LOFIRST''" and iname = "''LECROYWR''"
          and tlabel = "[]" and rtl = "''single sweep''" and pdl = "''no processing''"
          and d = "Some [1, 2, 5]" and vcl = "''DC 1MOhm''" and bwl = "''off''"])
                        apply (simp_all add: len_file_seq)
                        apply (simp_all add: file_seq_def bytes_ev hdr_ev fx_ev)
    done
  then show ?thesis by simp
qed

lemma len_file_seq_neg: "length file_seq_neg = 382"
  by (simp add: file_seq_neg_def test_file_def blk_len len_trig_pairs)

lemma file_seq_neg_fields:
  "\<exists>W. ReadBinaryTrace_fields fpu_exact file_seq_neg 0 = (Inr (0, LE, W), 346)
      \<and> COMM_TYPE_INDEX W = - 2 \<and> WAVE_DESCRIPTOR W = 346 \<and> USER_TEXT W = 0
      \<and> WAVE_ARRAY_2 W = 0 \<and> WAVE_ARRAY_COUNT W = 2 \<and> SUBARRAY_COUNT W = 2
      \<and> VERTICAL_GAIN W = 1 / 2 \<and> VERTICAL_OFFSET W = 1 / 4
      \<and> HORIZ_INTERVAL W = 1 / 2 \<and> HORIZ_OFFSET W = - (3 / 2)
      \<and> TIMEBASE_INDEX W = 11 \<and> FIXED_VERT_GAIN_INDEX W = 11 \<and> FILE_SIZE W = 0
      \<and> COMM_TYPE W = ''byte'' \<and> TIMEBASE W = ''5 nS/div'' \<and> FIXED_VERT_GAIN W = ''5 mV/div''
      \<and> VERTUNIT W = ''V'' \<and> HORUNIT W = ''S'' \<and> DESCRIPTOR_NAME W = ''WAVEDESC''"
proof -
  have "\<exists>W. ReadBinaryTrace_fields fpu_exact file_seq_neg 0 = (Inr (0, LE, W), 0 + 346)
      \<and> COMM_TYPE_INDEX W = - 2 \<and> WAVE_DESCRIPTOR W = 346 \<and> USER_TEXT W = 0
      \<and> WAVE_ARRAY_2 W = 0 \<and> WAVE_ARRAY_COUNT W = 2 \<and> SUBARRAY_COUNT W = 2
      \<and> VERTICAL_GAIN W = 1 / 2 \<and> VERTICAL_OFFSET W = 1 / 4
      \<and> HORIZ_INTERVAL W = 1 / 2 \<and> HORIZ_OFFSET W = - (3 / 2)
      \<and> TIMEBASE_INDEX W = 11 \<and> FIXED_VERT_GAIN_INDEX W = 11 \<and> FILE_SIZE W = 0
      \<and> COMM_TYPE W = ''byte'' \<and> TIMEBASE W = ''5 nS/div'' \<and> FIXED_VERT_GAIN W = ''5 mV/div''
      \<and> VERTUNIT W = ''V'' \<and> HORUNIT W = ''S'' \<and> DESCRIPTOR_NAME W = ''WAVEDESC''"
    apply (rule fields_decoded [where ordl = "''LOFIRST''" and iname = "''LECROYWR''"
          and tlabel = "[]" and rtl = "''single sweep''" and pdl = "''no processing''"
          and d = "Some [1, 2, 5]" and vcl = "''DC 1MOhm''" and bwl = "''off''"])
                        apply (simp_all add: len_file_seq_neg)
                        apply (simp_all add: file_seq_neg_def bytes_ev hdr_ev fx_ev)
    done
  then show ?thesis by simp
qed

lemma len_file_uneven: "length file_uneven = 384"
  by (simp add: file_uneven_def test_file_def blk_len len_trig_pairs)

lemma file_uneven_fields:
  "\<exists>W. ReadBinaryTrace_fields fpu_exact file_uneven 0 = (Inr (0, LE, W), 346)
      \<and> COMM_TYPE_INDEX W = 1 \<and> WAVE_DESCRIPTOR W = 346 \<and> USER_TEXT W = 0
      \<and> WAVE_ARRAY_2 W = 0 \<and> WAVE_ARRAY_COUNT W = 3 \<and> SUBARRAY_COUNT W = 2
      \<and> VERTICAL_GAIN W = 1 / 2 \<and> VERTICAL_OFFSET W = 1 / 4
      \<and> HORIZ_INTERVAL W = 1 / 2 \<and> HORIZ_OFFSET W = - (3 / 2)
      \<and> TIMEBASE_INDEX W = 11 \<and> FIXED_VERT_GAIN_INDEX W = 11 \<and> FILE_SIZE W = 0
      \<and> COMM_TYPE W = ''word'' \<and> TIMEBASE W = ''5 nS/div'' \<and> FIXED_VERT_GAIN W = ''5 mV/div''
      \<and> VERTUNIT W = ''V'' \<and> HORUNIT W = ''S'' \<and> DESCRIPTOR_NAME W = ''WAVEDESC''"
proof -
  have "\<exists>W. ReadBinaryTrace_fields fpu_exact file_uneven 0 = (Inr (0, LE, W), 0 + 346)
      \<and> COMM_TYPE_INDEX W = 1 \<and> WAVE_DESCRIPTOR W = 346 \<and> USER_TEXT W = 0
      \<and> WAVE_ARRAY_2 W = 0 \<and> WAVE_ARRAY_COUNT W = 3 \<and> SUBARRAY_COUNT W = 2
      \<and> VERTICAL_GAIN W = 1 / 2 \<and> VERTICAL_OFFSET W = 1 / 4
      \<and> HORIZ_INTERVAL W = 1 / 2 \<and> HORIZ_OFFSET W = - (3 / 2)
      \<and> TIMEBASE_INDEX W = 11 \<and> FIXED_VERT_GAIN_INDEX W = 11 \<and> FILE_SIZE W = 0
      \<and> COMM_TYPE W = ''word'' \<and> TIMEBASE W = ''5 nS/div'' \<and> FIXED_VERT_GAIN W = ''5 mV/div''
      \<and> VERTUNIT W = ''V'' \<and> HORUNIT W = ''S'' \<and> DESCRIPTOR_NAME W = ''WAVEDESC''"
    apply (rule fields_decoded [where ordl = "''LOFIRST''" and iname = "''LECROYWR''"
          and tlabel = "[]" and rtl = "''single sweep''" and pdl = "''no processing''"
          and d = "Some [1, 2, 5]" and vcl = "''DC 1MOhm''" and bwl = "''off''"])
                        apply (simp_all add: len_file_uneven)
                        apply (simp_all add: file_uneven_def bytes_ev hdr_ev fx_ev)
    done
  then show ?thesis by simp
qed

lemma len_file_ext: "length file_ext = 350"
  by (simp add: file_ext_def test_file_def blk_len)

lemma len_file_code2: "length file_code2 = 350"
  by (simp add: file_code2_def test_file_def blk_len)

section \<open>The engineering formatter\<close>








section \<open>Enum codes\<close>

lemma py_getitem_in_range: "code_in_range T i \<Longrightarrow> py_getitem kind T i = Inr (label_at T i)"
  by (auto simp: py_getitem_def code_in_range_def label_at_def)

lemma py_getitem_out_of_range:
  "\<not> code_in_range T i \<Longrightarrow> py_getitem ''tuple'' T i = Inl EnumOutOfRange"
  by (auto simp: py_getitem_def code_in_range_def EnumOutOfRange_def)

lemma py_getitem_Inr_D: "py_getitem kind T i = Inr a \<Longrightarrow> code_in_range T i \<and> a = label_at T i"
  by (auto simp: py_getitem_def code_in_range_def label_at_def split: if_splits)

text \<open>
  Claim C4, as the code has it. Take a file in which every statement of the field
  sequence other than the six enum look-ups succeeds: the block is found at \<open>k\<close> and is
  complete, the strings decode, the template is \<^verbatim>\<open>LECROY_2_3\<close>, and the two
  per-division labels can be formatted. Let \<open>i_order\<close>, \<open>i_type\<close>, \<open>i_record\<close>,
  \<open>i_processing\<close>, \<open>i_coupling\<close> and \<open>i_bandwidth\<close> be the raw codes of the six enum
  fields in the file. If one of them is outside \<open>-len .. len-1\<close> for its table, the
  decode call fails with \<open>EnumOutOfRange\<close>. If all of them are inside, the field
  sequence returns, and each label is the entry of the table at the code, where a
  negative code from \<open>-len\<close> to \<open>-1\<close> counts from the end of the table instead of
  failing.
\<close>

theorem enum_codes_decoded:
  assumes k: "py_find (bytes_at src 0 32) ''WAVEDESC'' = Some k"
    and len: "k + 346 \<le> length src"
    and dn: "decode_utf8 (rstrip (py_slice (bytes_at src 0 32) k (k + 16)) b_0x00) = Inr dn"
    and c_order: "i_order = sint_of LE (bytes_at src (k + 34) 2)"
    and co: "co = (if label_at COMM_ORDER_table i_order = ''LOFIRST'' then LE else BE)"
    and tn: "decode_utf8 (rstrip (bytes_at src (k + 16) 16) b_0x00) = Inr ''LECROY_2_3''"
    and c_type: "i_type = sint_of co (bytes_at src (k + 32) 2)"
    and inn: "decode_utf8 (rstrip (bytes_at src (k + 76) 16) b_x00) = Inr iname"
    and trl: "decode_utf8 (rstrip (bytes_at src (k + 96) 16) b_x00) = Inr tlabel"
    and vu: "decode_utf8 (rstrip (bytes_at src (k + 196) 48) b_0x00) = Inr vunit"
    and hu: "decode_utf8 (rstrip (bytes_at src (k + 244) 48) b_0x00) = Inr hunit"
    and c_record: "i_record = sint_of co (bytes_at src (k + 316) 2)"
    and c_processing: "i_processing = sint_of co (bytes_at src (k + 318) 2)"
    and tb: "timebase_label fp (sint_of co (bytes_at src (k + 324) 2)) hunit = Inr (tbl, d)"
    and c_coupling: "i_coupling = sint_of co (bytes_at src (k + 326) 2)"
    and fg: "per_div_label fp d (sint_of co (bytes_at src (k + 332) 2)) 6 vunit = Inr fgl"
    and c_bandwidth: "i_bandwidth = sint_of co (bytes_at src (k + 334) 2)"
  shows "if code_in_range COMM_ORDER_table i_order \<and> code_in_range COMM_TYPE_table i_type
          \<and> code_in_range RECORD_TYPE_table i_record
          \<and> code_in_range PROCESSING_DONE_table i_processing
          \<and> code_in_range VERT_COUPLING_table i_coupling
          \<and> code_in_range BANDWIDTH_LIMIT_table i_bandwidth
         then \<exists>W. ReadBinaryTrace_fields fp src 0 = (Inr (k, co, W), k + 346)
            \<and> COMM_ORDER W = label_at COMM_ORDER_table i_order
            \<and> COMM_TYPE W = label_at COMM_TYPE_table i_type
            \<and> RECORD_TYPE W = label_at RECORD_TYPE_table i_record
            \<and> PROCESSING_DONE W = label_at PROCESSING_DONE_table i_processing
            \<and> VERT_COUPLING W = label_at VERT_COUPLING_table i_coupling
            \<and> BANDWIDTH_LIMIT W = label_at BANDWIDTH_LIMIT_table i_bandwidth
         else ReadBinaryTrace fp src = Inl EnumOutOfRange"
proof -
  let ?r1 = "code_in_range COMM_ORDER_table i_order"
  let ?r2 = "code_in_range COMM_TYPE_table i_type"
  let ?r3 = "code_in_range RECORD_TYPE_table i_record"
  let ?r4 = "code_in_range PROCESSING_DONE_table i_processing"
  let ?r5 = "code_in_range VERT_COUPLING_table i_coupling"
  let ?r6 = "code_in_range BANDWIDTH_LIMIT_table i_bandwidth"
  let ?F = "ReadBinaryTrace fp src = Inl EnumOutOfRange"
  note g1 = py_getitem_in_range [of COMM_ORDER_table i_order "''tuple''", unfolded c_order]
  note g2 = py_getitem_in_range [of COMM_TYPE_table i_type "''tuple''", unfolded c_type]
  note g3 = py_getitem_in_range [of RECORD_TYPE_table i_record "''tuple''", unfolded c_record]
  note g4 = py_getitem_in_range [of PROCESSING_DONE_table i_processing "''tuple''",
      unfolded c_processing]
  note g5 = py_getitem_in_range [of VERT_COUPLING_table i_coupling "''tuple''", unfolded c_coupling]
  note g6 = py_getitem_in_range [of BANDWIDTH_LIMIT_table i_bandwidth "''tuple''",
      unfolded c_bandwidth]
  note b1 = py_getitem_out_of_range [of COMM_ORDER_table i_order, unfolded c_order]
  note b2 = py_getitem_out_of_range [of COMM_TYPE_table i_type, unfolded c_type]
  note b3 = py_getitem_out_of_range [of RECORD_TYPE_table i_record, unfolded c_record]
  note b4 = py_getitem_out_of_range [of PROCESSING_DONE_table i_processing, unfolded c_processing]
  note b5 = py_getitem_out_of_range [of VERT_COUPLING_table i_coupling, unfolded c_coupling]
  note b6 = py_getitem_out_of_range [of BANDWIDTH_LIMIT_table i_bandwidth, unfolded c_bandwidth]
  have co': "(if label_at COMM_ORDER_table (sint_of LE (bytes_at src (k + 34) 2)) = ''LOFIRST''
      then LE else BE) = co"
    using co c_order by simp
  note cs = c_order c_type c_record c_processing c_coupling c_bandwidth
  have E1: "\<not> ?r1 \<Longrightarrow> ?F"
    unfolding cs by (rule decode_fields_error [OF enum_err_order [OF k len dn b1]])
  have E2: "?r1 \<Longrightarrow> \<not> ?r2 \<Longrightarrow> ?F"
    unfolding cs by (rule decode_fields_error [OF enum_err_type [OF k len dn g1 co' tn b2]])
  have E3: "?r1 \<Longrightarrow> ?r2 \<Longrightarrow> \<not> ?r3 \<Longrightarrow> ?F"
    unfolding cs by (rule decode_fields_error
        [OF enum_err_record [OF k len dn g1 co' tn g2 inn trl vu hu b3]])
  have E4: "?r1 \<Longrightarrow> ?r2 \<Longrightarrow> ?r3 \<Longrightarrow> \<not> ?r4 \<Longrightarrow> ?F"
    unfolding cs by (rule decode_fields_error
        [OF enum_err_processing [OF k len dn g1 co' tn g2 inn trl vu hu g3 b4]])
  have E5: "?r1 \<Longrightarrow> ?r2 \<Longrightarrow> ?r3 \<Longrightarrow> ?r4 \<Longrightarrow> \<not> ?r5 \<Longrightarrow> ?F"
    unfolding cs by (rule decode_fields_error
        [OF enum_err_coupling [OF k len dn g1 co' tn g2 inn trl vu hu g3 g4 tb b5]])
  have E6: "?r1 \<Longrightarrow> ?r2 \<Longrightarrow> ?r3 \<Longrightarrow> ?r4 \<Longrightarrow> ?r5 \<Longrightarrow> \<not> ?r6 \<Longrightarrow> ?F"
    unfolding cs by (rule decode_fields_error
        [OF enum_err_bandwidth [OF k len dn g1 co' tn g2 inn trl vu hu g3 g4 tb g5 fg b6]])
  have OK: "\<exists>W. ReadBinaryTrace_fields fp src 0 = (Inr (k, co, W), k + 346)
      \<and> COMM_ORDER W = label_at COMM_ORDER_table i_order
      \<and> COMM_TYPE W = label_at COMM_TYPE_table i_type
      \<and> RECORD_TYPE W = label_at RECORD_TYPE_table i_record
      \<and> PROCESSING_DONE W = label_at PROCESSING_DONE_table i_processing
      \<and> VERT_COUPLING W = label_at VERT_COUPLING_table i_coupling
      \<and> BANDWIDTH_LIMIT W = label_at BANDWIDTH_LIMIT_table i_bandwidth"
    if r: ?r1 ?r2 ?r3 ?r4 ?r5 ?r6
  proof -
    note r' = r [unfolded cs]
    from fields_returns [OF k len dn g1 [OF r'(1)] co' tn g2 [OF r'(2)] inn trl vu hu
        g3 [OF r'(3)] g4 [OF r'(4)] tb g5 [OF r'(5)] fg g6 [OF r'(6)]]
    obtain k' co' W p where f: "ReadBinaryTrace_fields fp src 0 = (Inr (k', co', W), p)"
      by (auto simp: returns_iff)
    from f obtain d' where i_find: "py_find (bytes_at src 0 32) ''WAVEDESC'' = Some k'"
      and i_p: "p = k' + 346"
      and i_co: "co' = (if COMM_ORDER W = ''LOFIRST'' then LE else BE)"
      and i_oi: "COMM_ORDER_INDEX W = sint_of LE (bytes_at src (k' + 34) 2)"
      and i_cti: "COMM_TYPE_INDEX W = sint_of co' (bytes_at src (k' + 32) 2)"
      and i_rti: "RECORD_TYPE_INDEX W = sint_of co' (bytes_at src (k' + 316) 2)"
      and i_pdi: "PROCESSING_DONE_INDEX W = sint_of co' (bytes_at src (k' + 318) 2)"
      and i_vci: "VERT_COUPLING_INDEX W = sint_of co' (bytes_at src (k' + 326) 2)"
      and i_bwi: "BANDWIDTH_LIMIT_INDEX W = sint_of co' (bytes_at src (k' + 334) 2)"
      and i_ord: "py_getitem ''tuple'' COMM_ORDER_table (COMM_ORDER_INDEX W) = Inr (COMM_ORDER W)"
      and i_ct: "py_getitem ''tuple'' COMM_TYPE_table (COMM_TYPE_INDEX W) = Inr (COMM_TYPE W)"
      and i_rt: "py_getitem ''tuple'' RECORD_TYPE_table (RECORD_TYPE_INDEX W) = Inr (RECORD_TYPE W)"
      and i_pd: "py_getitem ''tuple'' PROCESSING_DONE_table (PROCESSING_DONE_INDEX W)
          = Inr (PROCESSING_DONE W)"
      and i_vc: "py_getitem ''tuple'' VERT_COUPLING_table (VERT_COUPLING_INDEX W)
          = Inr (VERT_COUPLING W)"
      and i_bw: "py_getitem ''tuple'' BANDWIDTH_LIMIT_table (BANDWIDTH_LIMIT_INDEX W)
          = Inr (BANDWIDTH_LIMIT W)"
      by (rule fields_facts)
    from i_find k have k': "k' = k" by simp
    from py_getitem_Inr_D [OF i_ord] i_oi c_order
    have l1: "COMM_ORDER W = label_at COMM_ORDER_table i_order" by (simp add: k')
    with i_co co have co'': "co' = co" by simp
    from py_getitem_Inr_D [OF i_ct] i_cti c_type
    have l2: "COMM_TYPE W = label_at COMM_TYPE_table i_type" by (simp add: k' co'')
    from py_getitem_Inr_D [OF i_rt] i_rti c_record
    have l3: "RECORD_TYPE W = label_at RECORD_TYPE_table i_record" by (simp add: k' co'')
    from py_getitem_Inr_D [OF i_pd] i_pdi c_processing
    have l4: "PROCESSING_DONE W = label_at PROCESSING_DONE_table i_processing"
      by (simp add: k' co'')
    from py_getitem_Inr_D [OF i_vc] i_vci c_coupling
    have l5: "VERT_COUPLING W = label_at VERT_COUPLING_table i_coupling" by (simp add: k' co'')
    from py_getitem_Inr_D [OF i_bw] i_bwi c_bandwidth
    have l6: "BANDWIDTH_LIMIT W = label_at BANDWIDTH_LIMIT_table i_bandwidth"
      by (simp add: k' co'')
    from f i_p l1 l2 l3 l4 l5 l6 show ?thesis by (auto simp: k' co'')
  qed
  show ?thesis
  proof (cases "?r1 \<and> ?r2 \<and> ?r3 \<and> ?r4 \<and> ?r5 \<and> ?r6")
    case True
    then show ?thesis using OK by simp
  next
    case False
    then have F: ?F using E1 E2 E3 E4 E5 E6 by blast
    show ?thesis by (subst if_not_P [OF False]) (rule F)
  qed
qed

text \<open>
  The test file with the communication type code 2: every other statement of the field
  sequence succeeds, the code is outside \<open>-2 .. 1\<close>, and the call fails with
  \<open>EnumOutOfRange\<close>.
\<close>

theorem enum_codes_file:
  "ReadBinaryTrace fpu_exact file_code2 = Inl EnumOutOfRange"
proof -
  have "if code_in_range COMM_ORDER_table 1 \<and> code_in_range COMM_TYPE_table 2
          \<and> code_in_range RECORD_TYPE_table 0
          \<and> code_in_range PROCESSING_DONE_table 0
          \<and> code_in_range VERT_COUPLING_table 2
          \<and> code_in_range BANDWIDTH_LIMIT_table 0
         then \<exists>W. ReadBinaryTrace_fields fpu_exact file_code2 0 = (Inr (0, LE, W), 0 + 346)
            \<and> COMM_ORDER W = label_at COMM_ORDER_table 1
            \<and> COMM_TYPE W = label_at COMM_TYPE_table 2
            \<and> RECORD_TYPE W = label_at RECORD_TYPE_table 0
            \<and> PROCESSING_DONE W = label_at PROCESSING_DONE_table 0
            \<and> VERT_COUPLING W = label_at VERT_COUPLING_table 2
            \<and> BANDWIDTH_LIMIT W = label_at BANDWIDTH_LIMIT_table 0
         else ReadBinaryTrace fpu_exact file_code2 = Inl EnumOutOfRange"
    apply (rule enum_codes_decoded [where dn = "''WAVEDESC''" and iname = "''LECROYWR''"
          and tlabel = "[]" and vunit = "''V''" and hunit = "''S''" and tbl = "''5 nS/div''"
          and d = "Some [1, 2, 5]" and fgl = "''5 mV/div''"])
                    apply (simp_all add: len_file_code2)
                   apply (simp_all add: file_code2_def bytes_ev hdr_ev fx_ev label_at_def)
    done
  then show ?thesis by (simp add: code_in_range_def COMM_TYPE_table_def)
qed

text \<open>
  Against the claim as it was stated: the test file with the communication type code
  \<open>-1\<close>, a code outside \<open>0 .. 1\<close>, is decoded without an error, and the label of the
  field is \<^verbatim>\<open>word\<close>.
\<close>

theorem enum_negative_code_file:
  "\<exists>W T x y1 y2. ReadBinaryTrace fpu_exact file_codeneg = Inr (W, T, x, y1, y2)
     \<and> COMM_TYPE_INDEX W = - 1 \<and> COMM_TYPE W = ''word''"
proof -
  from file_codeneg_fields obtain W
    where f: "ReadBinaryTrace_fields fpu_exact file_codeneg 0 = (Inr (0, LE, W), 346)"
      and wd: "WAVE_DESCRIPTOR W = 346" and sc: "SUBARRAY_COUNT W = 1"
      and ct: "COMM_TYPE_INDEX W = - 1" "COMM_TYPE W = ''word''"
    by blast
  from single_sweep_decodes [OF f] wd sc ct show ?thesis by auto
qed

section \<open>The external time base\<close>

text \<open>
  Claim C10. Let the block start at \<open>k\<close>, let \<open>co\<close> be the byte order that the
  \<^verbatim>\<open>COMM_ORDER\<close> field selects, and let the time base code, the two bytes at \<open>k + 324\<close>
  read in that order, be 100. Then the decode call returns no result: it ends with an
  exception. (Where the field sequence gets as far as the fixed vertical gain, the
  exception is the NameError of the unbound \<^verbatim>\<open>divisions\<close>, lemma \<open>fields_external\<close>.)
\<close>

theorem external_timebase_aborts:
  assumes k: "py_find (bytes_at src 0 32) ''WAVEDESC'' = Some k"
    and co: "co = (if label_at COMM_ORDER_table (sint_of LE (bytes_at src (k + 34) 2)) = ''LOFIRST''
                   then LE else BE)"
    and tb: "sint_of co (bytes_at src (k + 324) 2) = 100"
  shows "\<exists>e. ReadBinaryTrace fp src = Inl e"
proof (cases "ReadBinaryTrace fp src")
  case (Inl e)
  then show ?thesis by blast
next
  case (Inr r)
  obtain W T x y1 y2 where r: "r = (W, T, x, y1, y2)" by (cases r rule: prod_cases5)
  from decode_Inr_D [OF Inr [unfolded r]] obtain k' co' p
    where f: "ReadBinaryTrace_fields fp src 0 = (Inr (k', co', W), p)" by blast
  from f obtain d' where i_find: "py_find (bytes_at src 0 32) ''WAVEDESC'' = Some k'"
    and i_co: "co' = (if COMM_ORDER W = ''LOFIRST'' then LE else BE)"
    and i_oi: "COMM_ORDER_INDEX W = sint_of LE (bytes_at src (k' + 34) 2)"
    and i_tbi: "TIMEBASE_INDEX W = sint_of co' (bytes_at src (k' + 324) 2)"
    and i_ord: "py_getitem ''tuple'' COMM_ORDER_table (COMM_ORDER_INDEX W) = Inr (COMM_ORDER W)"
    by (rule fields_facts)
  from i_find k have k': "k' = k" by simp
  from py_getitem_Inr_D [OF i_ord] i_oi
  have "COMM_ORDER W = label_at COMM_ORDER_table (sint_of LE (bytes_at src (k + 34) 2))"
    by (simp add: k')
  with i_co co have "co' = co" by simp
  with i_tbi tb have "TIMEBASE_INDEX W = 100" by (simp add: k')
  with fields_labels(1) [OF f] show ?thesis by simp
qed

text \<open>The test file with the time base code 100 is such a file.\<close>

theorem external_timebase_file:
  "\<exists>e. ReadBinaryTrace fpu_exact file_ext = Inl e"
  using external_timebase_aborts [of file_ext 0 LE fpu_exact]
  by (simp add: file_ext_def bytes_ev hdr_ev label_at_def)

section \<open>The declared length of the block\<close>

text \<open>
  Claim C6. When the field sequence returns, it has consumed exactly 346 bytes from the
  start \<open>k\<close> of the block. If the decoded \<^verbatim>\<open>WAVE_DESCRIPTOR\<close> is any other number, larger
  or smaller, the decode call fails with \<open>HeaderLengthMismatch\<close> and returns no result;
  if it is 346 the header is accepted.
\<close>

theorem header_length_check:
  assumes f: "ReadBinaryTrace_fields fp src 0 = (Inr (k, co, W), p)"
  shows "p = k + 346 \<and>
    (if WAVE_DESCRIPTOR W = 346 then ReadBinaryTrace_header fp src 0 = (Inr (co, W), p)
     else ReadBinaryTrace fp src = Inl HeaderLengthMismatch)"
proof -
  from f obtain d' where p: "p = k + 346" by (rule fields_facts)
  show ?thesis
  proof (cases "WAVE_DESCRIPTOR W = 346")
    case True
    with f p show ?thesis by (simp add: header_Inr_iff)
  next
    case False
    with p have "int p - int k \<noteq> WAVE_DESCRIPTOR W" by simp
    from decode_header_error [OF header_mismatch [OF f this]] False p show ?thesis by simp
  qed
qed

text \<open>The test file that declares 347 bytes is rejected.\<close>

theorem header_length_file:
  "ReadBinaryTrace fpu_exact file_long = Inl HeaderLengthMismatch"
proof -
  from file_long_fields obtain W
    where f: "ReadBinaryTrace_fields fpu_exact file_long 0 = (Inr (0, LE, W), 346)"
      and wd: "WAVE_DESCRIPTOR W = 347"
    by blast
  from header_length_check [OF f] wd show ?thesis by simp
qed

section \<open>An uneven split into segments\<close>

text \<open>
  Claim C7. After a header that is accepted, with more than one segment and a number of
  samples that is no multiple of the number of segments, the decode call fails with
  \<open>UnevenSegmentSplit\<close>, and the position of the file where the call is left is the
  position \<open>q\<close> just after the user text: no byte of the trigger times or of the samples
  has been read.
\<close>

theorem uneven_segments:
  assumes h: "ReadBinaryTrace_header fp src 0 = (Inr (co, W), p)"
    and sc: "1 < SUBARRAY_COUNT W"
    and dv: "WAVE_ARRAY_COUNT W mod SUBARRAY_COUNT W \<noteq> 0"
  shows "\<exists>T q. ReadBinaryTrace_text src W p = (Inr T, q)
      \<and> ReadBinaryTrace_run fp src 0 = (Inl UnevenSegmentSplit, q)
      \<and> ReadBinaryTrace fp src = Inl UnevenSegmentSplit"
proof -
  from text_Inr obtain T q where t: "ReadBinaryTrace_text src W p = (Inr T, q)" by blast
  from sc dv have w: "ReadBinaryTrace_waveforms fp src co W q = (Inl UnevenSegmentSplit, q)"
    by (simp add: ReadBinaryTrace_waveforms_def raise_def)
  from run_steps [OF h t] w have "ReadBinaryTrace_run fp src 0 = (Inl UnevenSegmentSplit, q)"
    by simp
  with t show ?thesis by (auto simp: ReadBinaryTrace_def)
qed

text \<open>
  The test file with three samples for two segments: the call is left at position 346,
  the end of the block (the file has no user text).
\<close>

theorem uneven_segments_file:
  "ReadBinaryTrace_run fpu_exact file_uneven 0 = (Inl UnevenSegmentSplit, 346)"
proof -
  from file_uneven_fields obtain W
    where f: "ReadBinaryTrace_fields fpu_exact file_uneven 0 = (Inr (0, LE, W), 346)"
      and wd: "WAVE_DESCRIPTOR W = 346" and ut: "USER_TEXT W = 0"
      and wac: "WAVE_ARRAY_COUNT W = 3" and sc: "SUBARRAY_COUNT W = 2"
    by blast
  from f wd have h: "ReadBinaryTrace_header fpu_exact file_uneven 0 = (Inr (LE, W), 346)"
    by (simp add: header_Inr_iff)
  from uneven_segments [OF h] wac sc ut show ?thesis by (auto simp: text_none)
qed

section \<open>The file size\<close>

text \<open>
  Claim C3, as the code has it. In every result of the decode call, \<^verbatim>\<open>FILE_SIZE\<close> is the
  little-endian value of the bytes of the window from offset 4 up to the match \<open>k\<close>, plus
  \<open>k\<close>: the first four bytes of the window are skipped (the slice is \<^verbatim>\<open>str2[4:startOffset]\<close>).
  So for \<open>k \<le> 4\<close> it is \<open>k\<close> itself, and it is 0 exactly when \<open>k = 0\<close>.
\<close>

theorem file_size_value:
  assumes r: "ReadBinaryTrace fp src = Inr (W, T, x, y1, y2)"
  shows "\<exists>k. py_find (bytes_at src 0 32) ''WAVEDESC'' = Some k
     \<and> FILE_SIZE W = int (from_bytes_little (py_slice (bytes_at src 0 32) 4 k)) + int k
     \<and> (FILE_SIZE W = 0 \<longleftrightarrow> k = 0)
     \<and> (k \<le> 4 \<longrightarrow> FILE_SIZE W = int k)"
proof -
  from decode_Inr_D [OF r] obtain k co p
    where f: "ReadBinaryTrace_fields fp src 0 = (Inr (k, co, W), p)" by blast
  from f obtain d' where i_find: "py_find (bytes_at src 0 32) ''WAVEDESC'' = Some k"
    and i_fs: "FILE_SIZE W = int (from_bytes_little (py_slice (bytes_at src 0 32) 4 k)) + int k"
    by (rule fields_facts)
  have e: "py_slice (bytes_at src 0 32) 4 k = []" if "k \<le> 4"
    using that by (simp add: py_slice_def)
  have z: "FILE_SIZE W = 0 \<longleftrightarrow> k = 0"
  proof
    assume "FILE_SIZE W = 0"
    with i_fs show "k = 0" by simp
  next
    assume "k = 0"
    with i_fs e show "FILE_SIZE W = 0" by simp
  qed
  from i_find i_fs z e show ?thesis by auto
qed

text \<open>
  The single sweep, where the block starts the file: the file size is 0.
\<close>

theorem file_size_file:
  "\<exists>W T x y1 y2. ReadBinaryTrace fpu_exact file_sweep = Inr (W, T, x, y1, y2)
     \<and> FILE_SIZE W = 0"
proof -
  from file_sweep_fields obtain W
    where f: "ReadBinaryTrace_fields fpu_exact file_sweep 0 = (Inr (0, LE, W), 346)"
      and wd: "WAVE_DESCRIPTOR W = 346" and sc: "SUBARRAY_COUNT W = 1"
    by blast
  from single_sweep_decodes [OF f] wd sc obtain T x y1 y2
    where r: "ReadBinaryTrace fpu_exact file_sweep = Inr (W, T, x, y1, y2)" by auto
  have "py_find (bytes_at file_sweep 0 32) ''WAVEDESC'' = Some 0"
    by (simp add: file_sweep_def bytes_ev hdr_ev)
  with file_size_value [OF r] have "FILE_SIZE W = 0" by auto
  with r show ?thesis by blast
qed

text \<open>
  Against the claim as it was stated: in the test file with the one byte \<open>07\<close> before the
  block, the bytes between the start of the window and the match have the value 7, the
  claim gives \<open>7 + 1 = 8\<close>, and the decoded \<^verbatim>\<open>FILE_SIZE\<close> is 1.
\<close>

theorem file_size_skips_prefix:
  "\<exists>W T x y1 y2. ReadBinaryTrace fpu_exact file_shifted = Inr (W, T, x, y1, y2)
     \<and> py_find (bytes_at file_shifted 0 32) ''WAVEDESC'' = Some 1
     \<and> FILE_SIZE W = 1
     \<and> spec_file_size (bytes_at file_shifted 0 32) 1 = 8"
proof -
  from file_shifted_fields obtain W
    where f: "ReadBinaryTrace_fields fpu_exact file_shifted 0 = (Inr (1, LE, W), 347)"
      and wd: "WAVE_DESCRIPTOR W = 346" and sc: "SUBARRAY_COUNT W = 1"
      and fs: "FILE_SIZE W = 1"
    by blast
  from single_sweep_decodes [OF f] wd sc obtain T x y1 y2
    where r: "ReadBinaryTrace fpu_exact file_shifted = Inr (W, T, x, y1, y2)" by auto
  have k: "py_find (bytes_at file_shifted 0 32) ''WAVEDESC'' = Some 1"
    by (simp add: file_shifted_def bytes_ev hdr_ev)
  have s: "spec_file_size (bytes_at file_shifted 0 32) 1 = 8"
    by (simp add: spec_file_size_def file_shifted_def bytes_ev hdr_ev)
  from r k fs s show ?thesis by blast
qed

section \<open>The per-division labels\<close>






section \<open>The string fields\<close>

lemma rstrip_NUL: "decode_utf8 (rstrip raw b_x00) = spec_string raw"
  by (simp add: rstrip_def spec_string_def b_x00_def)

text \<open>
  Claim C8, as the code has it. In every result of the decode call, the instrument name
  and the trace label are the raw bytes of the field without their trailing NUL bytes,
  decoded as UTF-8 (\<open>spec_string\<close>). The descriptor name, the template name and the two
  units are stripped with \<^verbatim>\<open>rstrip(b'\0x00')\<close>, whose argument is the four bytes NUL,
  \<^verbatim>\<open>x\<close>, \<^verbatim>\<open>0\<close>, \<^verbatim>\<open>0\<close>: every trailing NUL, \<^verbatim>\<open>x\<close> and \<^verbatim>\<open>0\<close> is removed from them.
\<close>

theorem string_fields_stripped:
  assumes r: "ReadBinaryTrace fp src = Inr (W, T, x, y1, y2)"
  shows "\<exists>k. py_find (bytes_at src 0 32) ''WAVEDESC'' = Some k
    \<and> Inr (INSTRUMENT_NAME W) = spec_string (bytes_at src (k + 76) 16)
    \<and> Inr (TRACE_LABEL W) = spec_string (bytes_at src (k + 96) 16)
    \<and> Inr (DESCRIPTOR_NAME W)
        = decode_utf8 (rstrip (py_slice (bytes_at src 0 32) k (k + 16)) [CHR 0x00, CHR ''x'', CHR ''0''])
    \<and> Inr (TEMPLATE_NAME W)
        = decode_utf8 (rstrip (bytes_at src (k + 16) 16) [CHR 0x00, CHR ''x'', CHR ''0''])
    \<and> Inr (VERTUNIT W)
        = decode_utf8 (rstrip (bytes_at src (k + 196) 48) [CHR 0x00, CHR ''x'', CHR ''0''])
    \<and> Inr (HORUNIT W)
        = decode_utf8 (rstrip (bytes_at src (k + 244) 48) [CHR 0x00, CHR ''x'', CHR ''0''])"
proof -
  have b: "rstrip s b_0x00 = rstrip s [CHR 0x00, CHR ''x'', CHR ''0'']" for s
    by (simp add: rstrip_def b_0x00_def)
  from decode_Inr_D [OF r] obtain k co p
    where f: "ReadBinaryTrace_fields fp src 0 = (Inr (k, co, W), p)" by blast
  from f obtain d' where "py_find (bytes_at src 0 32) ''WAVEDESC'' = Some k"
    and "decode_utf8 (rstrip (py_slice (bytes_at src 0 32) k (k + 16)) b_0x00)
        = Inr (DESCRIPTOR_NAME W)"
    and "decode_utf8 (rstrip (bytes_at src (k + 196) 48) b_0x00) = Inr (VERTUNIT W)"
    and "decode_utf8 (rstrip (bytes_at src (k + 244) 48) b_0x00) = Inr (HORUNIT W)"
    and "decode_utf8 (rstrip (bytes_at src (k + 16) 16) b_0x00) = Inr (TEMPLATE_NAME W)"
    and "decode_utf8 (rstrip (bytes_at src (k + 76) 16) b_x00) = Inr (INSTRUMENT_NAME W)"
    and "decode_utf8 (rstrip (bytes_at src (k + 96) 16) b_x00) = Inr (TRACE_LABEL W)"
    by (rule fields_facts)
  then show ?thesis by (simp add: rstrip_NUL b)
qed

text \<open>
  The test file with the vertical unit \<^verbatim>\<open>lx\<close>: the field holds \<^verbatim>\<open>lx\<close> and 46 NUL bytes,
  without its trailing NUL bytes it is \<^verbatim>\<open>lx\<close>, and the decoded unit is \<^verbatim>\<open>l\<close>.
\<close>

theorem string_fields_file:
  "\<exists>W T x y1 y2. ReadBinaryTrace fpu_exact file_lx = Inr (W, T, x, y1, y2)
     \<and> spec_string (bytes_at file_lx 196 48) = Inr ''lx''
     \<and> VERTUNIT W = ''l''"
proof -
  from file_lx_fields obtain W
    where f: "ReadBinaryTrace_fields fpu_exact file_lx 0 = (Inr (0, LE, W), 346)"
      and wd: "WAVE_DESCRIPTOR W = 346" and sc: "SUBARRAY_COUNT W = 1"
    by blast
  from single_sweep_decodes [OF f] wd sc obtain T x y1 y2
    where r: "ReadBinaryTrace fpu_exact file_lx = Inr (W, T, x, y1, y2)" by auto
  have k: "py_find (bytes_at file_lx 0 32) ''WAVEDESC'' = Some 0"
    by (simp add: file_lx_def bytes_ev hdr_ev)
  have u: "decode_utf8 (rstrip (bytes_at file_lx 196 48) [CHR 0x00, CHR ''x'', CHR ''0''])
      = Inr ''l''"
    by (simp add: file_lx_def bytes_ev hdr_ev)
  have s: "spec_string (bytes_at file_lx 196 48) = Inr ''lx''"
    by (simp add: spec_string_def file_lx_def bytes_ev hdr_ev)
  from string_fields_stripped [OF r] k u have "VERTUNIT W = ''l''" by auto
  with r s show ?thesis by blast
qed

section \<open>The single sweep\<close>

lemma upt_2: "[0..<2] = [0, Suc 0]"
  by (simp add: numeral_2_eq_2)

text \<open>
  Claim C2. After a header that is accepted and the user text, which ends at \<open>q\<close>, with at
  most one segment, a count \<open>n\<close> of samples that is not negative and enough bytes in the
  file, the decode call returns: the time array with the entries
  \<open>j * HORIZ_INTERVAL + HORIZ_OFFSET\<close> for \<open>j < n\<close>; the primary channel, the \<open>n\<close> samples
  of \<open>sz\<close> bytes from \<open>q\<close> on, each scaled as \<open>raw * VERTICAL_GAIN - VERTICAL_OFFSET\<close>; and
  the secondary channel, which is empty for \<open>WAVE_ARRAY_2 \<le> 0\<close> and otherwise the \<open>n\<close>
  samples of the same width that follow the primary channel, scaled by the same rule.
  The width \<open>sz\<close> is one byte for the communication type code 0 and two bytes otherwise.
\<close>

theorem single_sweep_arrays:
  assumes h: "ReadBinaryTrace_header fp src 0 = (Inr (co, W), p)"
    and t: "ReadBinaryTrace_text src W p = (Inr T, q)"
    and sc: "SUBARRAY_COUNT W \<le> 1"
    and c: "0 \<le> WAVE_ARRAY_COUNT W"
    and sz: "sz = (if COMM_TYPE_INDEX W = 0 then 1 else 2)"
    and n: "n = nat (WAVE_ARRAY_COUNT W)"
    and le: "q + (if WAVE_ARRAY_2 W > 0 then 2 else 1) * n * sz \<le> length src"
  shows "ReadBinaryTrace fp src = Inr (W, T,
      Arr1 (map (\<lambda>j. fadd fp (fmul fp (of_int_f fp (int j)) (HORIZ_INTERVAL W)) (HORIZ_OFFSET W))
              [0..<n]),
      Arr1 (map (\<lambda>j. fsub fp (fmul fp (of_int_f fp (sint_of co (bytes_at src (q + j * sz) sz)))
                                (VERTICAL_GAIN W)) (VERTICAL_OFFSET W)) [0..<n]),
      Arr1 (if WAVE_ARRAY_2 W > 0
            then map (\<lambda>j. fsub fp (fmul fp (of_int_f fp
                         (sint_of co (bytes_at src (q + n * sz + j * sz) sz)))
                                (VERTICAL_GAIN W)) (VERTICAL_OFFSET W)) [0..<n]
            else []))"
proof -
  note w = waveforms_single [OF sc c sz n le]
  have x: "time_axis fp (WAVE_ARRAY_COUNT W) (HORIZ_INTERVAL W) (HORIZ_OFFSET W) =
      map (\<lambda>j. fadd fp (fmul fp (of_int_f fp (int j)) (HORIZ_INTERVAL W)) (HORIZ_OFFSET W)) [0..<n]"
    by (simp add: time_axis_def n)
  show ?thesis
    using decode_steps [OF h t w] unfolding x scale_def .
qed

text \<open>
  The single sweep of the test files: two 8-bit samples \<open>3, -2\<close>, then \<open>16, -16\<close> on the
  second channel, gain 0.5, offset 0.25, interval 0.5 and horizontal offset -1.5.
\<close>

theorem single_sweep_file:
  "\<exists>W. ReadBinaryTrace fpu_exact file_sweep =
     Inr (W, [], Arr1 [- (3 / 2), - 1], Arr1 [5 / 4, - (5 / 4)], Arr1 [31 / 4, - (33 / 4)])"
proof -
  from file_sweep_fields obtain W
    where f: "ReadBinaryTrace_fields fpu_exact file_sweep 0 = (Inr (0, LE, W), 346)"
      and v: "COMM_TYPE_INDEX W = 0" "WAVE_DESCRIPTOR W = 346" "USER_TEXT W = 0"
        "WAVE_ARRAY_2 W = 2" "WAVE_ARRAY_COUNT W = 2" "SUBARRAY_COUNT W = 1"
        "VERTICAL_GAIN W = 1 / 2" "VERTICAL_OFFSET W = 1 / 4" "HORIZ_INTERVAL W = 1 / 2"
        "HORIZ_OFFSET W = - (3 / 2)"
    by blast
  from f v have h: "ReadBinaryTrace_header fpu_exact file_sweep 0 = (Inr (LE, W), 346)"
    by (simp add: header_Inr_iff)
  from v have t: "ReadBinaryTrace_text file_sweep W 346 = (Inr [], 346)"
    by (simp add: text_none)
  from v have sc: "SUBARRAY_COUNT W \<le> 1" and c: "0 \<le> WAVE_ARRAY_COUNT W" by simp_all
  from v have le: "346 + (if WAVE_ARRAY_2 W > 0 then 2 else 1) * nat (WAVE_ARRAY_COUNT W)
      * (if COMM_TYPE_INDEX W = 0 then 1 else 2) \<le> length file_sweep"
    by (simp add: len_file_sweep)
  have b: "bytes_at file_sweep 346 (Suc 0) = [CHR 0x03]"
    "bytes_at file_sweep 347 (Suc 0) = [CHR 0xFE]"
    "bytes_at file_sweep 348 (Suc 0) = [CHR 0x10]"
    "bytes_at file_sweep 349 (Suc 0) = [CHR 0xF0]"
    by (simp_all add: file_sweep_def bytes_ev)
  have "ReadBinaryTrace fpu_exact file_sweep =
     Inr (W, [], Arr1 [- (3 / 2), - 1], Arr1 [5 / 4, - (5 / 4)], Arr1 [31 / 4, - (33 / 4)])"
    using single_sweep_arrays [OF h t sc c refl refl le]
    by (simp add: v upt_2 b sint_of_def uint_of_def fpu_exact_def Let_def)
  then show ?thesis by blast
qed

section \<open>The sequence of segments\<close>

lemma comm_type_label:
  assumes "py_getitem ''tuple'' COMM_TYPE_table i = Inr l" and "0 \<le> i"
  shows "(i = 0) = (l = ''byte'')"
proof -
  from assms have "i = 0 \<or> i = 1"
    by (auto simp: py_getitem_def COMM_TYPE_table_def split: if_splits)
  with assms(1) show ?thesis
    by (auto simp: py_getitem_def COMM_TYPE_table_def)
qed

lemma segmented_decode:
  assumes h: "ReadBinaryTrace_header fp src 0 = (Inr (co, W), p)"
    and t: "ReadBinaryTrace_text src W p = (Inr T, q)"
    and sc: "1 < SUBARRAY_COUNT W"
    and dv: "WAVE_ARRAY_COUNT W mod SUBARRAY_COUNT W = 0"
    and c: "0 \<le> WAVE_ARRAY_COUNT W"
    and sz: "sz = (if COMM_TYPE_INDEX W = 0 then 1 else 2)"
    and S: "S = nat (SUBARRAY_COUNT W)"
    and np: "npts = nat (WAVE_ARRAY_COUNT W div SUBARRAY_COUNT W)"
    and le: "q + 16 * S + S * npts * sz \<le> length src"
  shows "ReadBinaryTrace fp src = Inr (W, T,
      Arr2 (map (\<lambda>i. map (\<lambda>j. fadd fp (fmul fp (of_int_f fp (int j)) (HORIZ_INTERVAL W))
                     (fadd fp (f8 fp (uint_of co (bytes_at src (q + i * 16) 8)))
                              (f8 fp (uint_of co (bytes_at src (q + i * 16 + 8) 8))))) [0..<npts])
              [0..<S]),
      Arr2 (map (\<lambda>i. map (\<lambda>j. fsub fp (fmul fp (of_int_f fp
                       (sint_of co (bytes_at src (q + S * 16 + (i * npts + j) * sz) sz)))
                     (VERTICAL_GAIN W)) (VERTICAL_OFFSET W)) [0..<npts])
              [0..<S]),
      Arr1 [])"
proof -
  note w = waveforms_segmented [OF sc dv c sz S np le]
  have x: "time_axis fp (int npts) (HORIZ_INTERVAL W) off =
      map (\<lambda>j. fadd fp (fmul fp (of_int_f fp (int j)) (HORIZ_INTERVAL W)) off) [0..<npts]" for off
    by (simp add: time_axis_def)
  show ?thesis
    using decode_steps [OF h t w] unfolding x scale_def .
qed

text \<open>
  Claim C1, as the code has it. After a header that is accepted and the user text, which
  ends at \<open>q\<close>, with \<open>S > 1\<close> segments, a count of samples that is a multiple of \<open>S\<close> and
  enough bytes in the file, the decode call returns: the time array of \<open>S\<close> rows and
  \<open>npts = WAVE_ARRAY_COUNT / S\<close> columns whose entry at row \<open>i\<close>, column \<open>j\<close> is
  \<open>j * HORIZ_INTERVAL + (trigger_time[i] + trigger_offset[i])\<close>, the two doubles of the
  \<open>i\<close>-th pair of 16 bytes after the user text; the amplitudes of the same shape, the
  sample \<open>i * npts + j\<close> of \<open>sz\<close> bytes after the \<open>S\<close> pairs scaled as
  \<open>raw * VERTICAL_GAIN - VERTICAL_OFFSET\<close>; and an empty secondary channel. The width
  \<open>sz\<close> of a sample is chosen by the communication type code, one byte for the code 0 and
  two bytes for every other code; for a code that is not negative this is the choice by
  the label, \<^verbatim>\<open>byte\<close> or \<^verbatim>\<open>word\<close>.
\<close>

theorem segmented_arrays:
  assumes h: "ReadBinaryTrace_header fp src 0 = (Inr (co, W), p)"
    and t: "ReadBinaryTrace_text src W p = (Inr T, q)"
    and sc: "1 < SUBARRAY_COUNT W"
    and dv: "WAVE_ARRAY_COUNT W mod SUBARRAY_COUNT W = 0"
    and c: "0 \<le> WAVE_ARRAY_COUNT W"
    and sz: "sz = (if COMM_TYPE_INDEX W = 0 then 1 else 2)"
    and S: "S = nat (SUBARRAY_COUNT W)"
    and np: "npts = nat (WAVE_ARRAY_COUNT W div SUBARRAY_COUNT W)"
    and le: "q + 16 * S + S * npts * sz \<le> length src"
  shows "ReadBinaryTrace fp src = Inr (W, T,
      Arr2 (map (\<lambda>i. map (\<lambda>j. fadd fp (fmul fp (of_int_f fp (int j)) (HORIZ_INTERVAL W))
                     (fadd fp (f8 fp (uint_of co (bytes_at src (q + i * 16) 8)))
                              (f8 fp (uint_of co (bytes_at src (q + i * 16 + 8) 8))))) [0..<npts])
              [0..<S]),
      Arr2 (map (\<lambda>i. map (\<lambda>j. fsub fp (fmul fp (of_int_f fp
                       (sint_of co (bytes_at src (q + S * 16 + (i * npts + j) * sz) sz)))
                     (VERTICAL_GAIN W)) (VERTICAL_OFFSET W)) [0..<npts])
              [0..<S]),
      Arr1 [])
    \<and> (0 \<le> COMM_TYPE_INDEX W \<longrightarrow> sz = (if COMM_TYPE W = ''byte'' then 1 else 2))"
proof -
  note r = segmented_decode [OF h t sc dv c sz S np le]
  from h obtain k where f: "ReadBinaryTrace_fields fp src 0 = (Inr (k, co, W), p)"
    by (auto simp: header_Inr_iff)
  from f obtain d'
    where "py_getitem ''tuple'' COMM_TYPE_table (COMM_TYPE_INDEX W) = Inr (COMM_TYPE W)"
    by (rule fields_facts)
  from comm_type_label [OF this] sz
  have "0 \<le> COMM_TYPE_INDEX W \<longrightarrow> sz = (if COMM_TYPE W = ''byte'' then 1 else 2)" by simp
  with r show ?thesis by blast
qed


text \<open>
  The sequence of the test files: two segments of two 16-bit samples, \<open>1, -1\<close> and
  \<open>256, -256\<close>, with the trigger times \<open>0.0 - 0.5\<close> and \<open>1.0 - 0.5\<close>.
\<close>

theorem segmented_file:
  "\<exists>W. ReadBinaryTrace fpu_exact file_seq =
     Inr (W, [], Arr2 [[- (1 / 2), 0], [1 / 2, 1]],
          Arr2 [[1 / 4, - (3 / 4)], [511 / 4, - (513 / 4)]], Arr1 [])
     \<and> COMM_TYPE W = ''word''"
proof -
  from file_seq_fields obtain W
    where f: "ReadBinaryTrace_fields fpu_exact file_seq 0 = (Inr (0, LE, W), 346)"
      and v: "COMM_TYPE_INDEX W = 1" "WAVE_DESCRIPTOR W = 346" "USER_TEXT W = 0"
        "WAVE_ARRAY_COUNT W = 4" "SUBARRAY_COUNT W = 2"
        "VERTICAL_GAIN W = 1 / 2" "VERTICAL_OFFSET W = 1 / 4" "HORIZ_INTERVAL W = 1 / 2"
      and l: "COMM_TYPE W = ''word''"
    by blast
  from f v have h: "ReadBinaryTrace_header fpu_exact file_seq 0 = (Inr (LE, W), 346)"
    by (simp add: header_Inr_iff)
  from v have t: "ReadBinaryTrace_text file_seq W 346 = (Inr [], 346)"
    by (simp add: text_none)
  from v have sc: "1 < SUBARRAY_COUNT W" and c: "0 \<le> WAVE_ARRAY_COUNT W"
    and dv: "WAVE_ARRAY_COUNT W mod SUBARRAY_COUNT W = 0" by simp_all
  from v have le: "346 + 16 * nat (SUBARRAY_COUNT W)
      + nat (SUBARRAY_COUNT W) * nat (WAVE_ARRAY_COUNT W div SUBARRAY_COUNT W)
        * (if COMM_TYPE_INDEX W = 0 then 1 else 2) \<le> length file_seq"
    by (simp add: len_file_seq)
  have b: "ieee_value 11 52 (uint_of LE (bytes_at file_seq 346 8)) = 0"
    "ieee_value 11 52 (uint_of LE (bytes_at file_seq 354 8)) = - (1 / 2)"
    "ieee_value 11 52 (uint_of LE (bytes_at file_seq 362 8)) = 1"
    "ieee_value 11 52 (uint_of LE (bytes_at file_seq 370 8)) = - (1 / 2)"
    "sint_of LE (bytes_at file_seq 378 2) = 1"
    "sint_of LE (bytes_at file_seq 380 2) = - 1"
    "sint_of LE (bytes_at file_seq 382 2) = 256"
    "sint_of LE (bytes_at file_seq 384 2) = - 256"
    by (simp_all add: file_seq_def bytes_ev hdr_ev fx_ev len_trig_pairs trig_pairs_sub)
  have "ReadBinaryTrace fpu_exact file_seq =
     Inr (W, [], Arr2 [[- (1 / 2), 0], [1 / 2, 1]],
          Arr2 [[1 / 4, - (3 / 4)], [511 / 4, - (513 / 4)]], Arr1 [])"
    using conjunct1 [OF segmented_arrays [OF h t sc dv c refl refl refl le]]
    by (simp add: v upt_2 b fpu_exact_def)
  with l show ?thesis by blast
qed

text \<open>
  Against the claim as it was stated: the sequence with the communication type code
  \<open>-2\<close> is decoded with the label \<^verbatim>\<open>byte\<close>, and its two amplitudes are the 16-bit
  samples \<open>259\<close> and \<open>-2\<close> of the bytes \<open>03 01 FE FF\<close>, scaled; the first two bytes read
  as 8-bit samples are \<open>3\<close> and \<open>1\<close>.
\<close>

theorem segmented_width_by_code:
  "\<exists>W. ReadBinaryTrace fpu_exact file_seq_neg =
     Inr (W, [], Arr2 [[- (1 / 2)], [1 / 2]], Arr2 [[517 / 4], [- (5 / 4)]], Arr1 [])
     \<and> COMM_TYPE W = ''byte''
     \<and> sint_of LE (bytes_at file_seq_neg 378 1) = 3
     \<and> sint_of LE (bytes_at file_seq_neg 379 1) = 1"
proof -
  from file_seq_neg_fields obtain W
    where f: "ReadBinaryTrace_fields fpu_exact file_seq_neg 0 = (Inr (0, LE, W), 346)"
      and v: "COMM_TYPE_INDEX W = - 2" "WAVE_DESCRIPTOR W = 346" "USER_TEXT W = 0"
        "WAVE_ARRAY_COUNT W = 2" "SUBARRAY_COUNT W = 2"
        "VERTICAL_GAIN W = 1 / 2" "VERTICAL_OFFSET W = 1 / 4" "HORIZ_INTERVAL W = 1 / 2"
      and l: "COMM_TYPE W = ''byte''"
    by blast
  from f v have h: "ReadBinaryTrace_header fpu_exact file_seq_neg 0 = (Inr (LE, W), 346)"
    by (simp add: header_Inr_iff)
  from v have t: "ReadBinaryTrace_text file_seq_neg W 346 = (Inr [], 346)"
    by (simp add: text_none)
  from v have sc: "1 < SUBARRAY_COUNT W" and c: "0 \<le> WAVE_ARRAY_COUNT W"
    and dv: "WAVE_ARRAY_COUNT W mod SUBARRAY_COUNT W = 0" by simp_all
  from v have le: "346 + 16 * nat (SUBARRAY_COUNT W)
      + nat (SUBARRAY_COUNT W) * nat (WAVE_ARRAY_COUNT W div SUBARRAY_COUNT W)
        * (if COMM_TYPE_INDEX W = 0 then 1 else 2) \<le> length file_seq_neg"
    by (simp add: len_file_seq_neg)
  have b: "ieee_value 11 52 (uint_of LE (bytes_at file_seq_neg 346 8)) = 0"
    "ieee_value 11 52 (uint_of LE (bytes_at file_seq_neg 354 8)) = - (1 / 2)"
    "ieee_value 11 52 (uint_of LE (bytes_at file_seq_neg 362 8)) = 1"
    "ieee_value 11 52 (uint_of LE (bytes_at file_seq_neg 370 8)) = - (1 / 2)"
    "sint_of LE (bytes_at file_seq_neg 378 2) = 259"
    "sint_of LE (bytes_at file_seq_neg 380 2) = - 2"
    by (simp_all add: file_seq_neg_def bytes_ev hdr_ev fx_ev len_trig_pairs trig_pairs_sub)
  have b1: "sint_of LE (bytes_at file_seq_neg 378 1) = 3"
    "sint_of LE (bytes_at file_seq_neg 379 1) = 1"
    by (simp_all add: file_seq_neg_def bytes_ev hdr_ev fx_ev len_trig_pairs trig_pairs_sub)
  have "ReadBinaryTrace fpu_exact file_seq_neg =
     Inr (W, [], Arr2 [[- (1 / 2)], [1 / 2]], Arr2 [[517 / 4], [- (5 / 4)]], Arr1 [])"
    using segmented_decode [OF h t sc dv c refl refl refl le]
    by (simp add: v upt_2 b fpu_exact_def)
  with l b1 show ?thesis by blast
qed

end
